theory Spec2Isabelle
  imports Complex_Main "HOL-Library.Word" "HOL-Library.Sublist" "HOL-Library.Multiset"
begin

section \<open>JavaScript strings\<close>

text \<open>
  A JavaScript string is a sequence of UTF-16 code units. String literals of the source
  that are plain ASCII are written \<open>lit ''...''\<close>.
\<close>

type_synonym jsstring = "16 word list"

definition lit :: "string \<Rightarrow> jsstring" where
  "lit s = map (\<lambda>c. of_char c) s"

text \<open>
  The character class \<open>\s\<close> of a regular expression (and the characters removed by
  \<open>String.prototype.trim\<close>): WhiteSpace and LineTerminator of ECMAScript.
\<close>

definition isWhiteSpace :: "16 word \<Rightarrow> bool" where
  "isWhiteSpace c \<longleftrightarrow>
     c \<in> set [0x9, 0xA, 0xB, 0xC, 0xD, 0x20, 0xA0, 0x1680, 0x2028, 0x2029, 0x202F,
              0x205F, 0x3000, 0xFEFF]
     \<or> (0x2000 \<le> c \<and> c \<le> 0x200A)"

text \<open>
  \<open>s.split(/(\s+)/)\<close>: the text before the next run of whitespace, then the run itself
  (the capture group puts it into the result), then the split of what follows the run;
  the text after the last run closes the list. Empty pieces are part of the result:
  \<open>" a".split(/(\s+)/)\<close> is \<open>["", " ", "a"]\<close> and \<open>"".split(/(\s+)/)\<close> is \<open>[""]\<close>.
\<close>

function split_ws :: "jsstring \<Rightarrow> jsstring list" where
  "split_ws s =
     (let piece = takeWhile (\<lambda>c. \<not> isWhiteSpace c) s;
          rest = dropWhile (\<lambda>c. \<not> isWhiteSpace c) s
      in if rest = [] then [piece]
         else piece # takeWhile isWhiteSpace rest # split_ws (dropWhile isWhiteSpace rest))"
  by pat_completeness auto
termination
proof (relation "measure length")
  show "wf (measure length)" by simp
next
  fix s :: jsstring and piece rest
  assume r: "rest = dropWhile (\<lambda>c. \<not> isWhiteSpace c) s" and ne: "rest \<noteq> []"
  from ne obtain c cs where rc: "rest = c # cs" by (cases rest) auto
  then have "isWhiteSpace c" using r by (metis hd_dropWhile list.sel(1) ne)
  then have "length (dropWhile isWhiteSpace rest) \<le> length cs"
    using rc by (simp add: length_dropWhile_le)
  also have "\<dots> < length rest" using rc by simp
  also have "\<dots> \<le> length s" using r by (simp add: length_dropWhile_le)
  finally show "(dropWhile isWhiteSpace rest, s) \<in> measure length" by simp
qed

declare split_ws.simps [simp del]

text \<open>\<open>fullResponse.split(/(\s+)/).filter(c => c.length > 0)\<close>\<close>

definition chunks_of :: "jsstring \<Rightarrow> jsstring list" where
  "chunks_of fullResponse = filter (\<lambda>c. length c > 0) (split_ws fullResponse)"

text \<open>\<open>s.includes(t)\<close>: \<open>t\<close> occurs in \<open>s\<close> as a contiguous substring.\<close>

fun js_includes :: "jsstring \<Rightarrow> jsstring \<Rightarrow> bool" where
  "js_includes [] t = (t = [])"
| "js_includes (c # s) t = (prefix t (c # s) \<or> js_includes s t)"

text \<open>\<open>s.startsWith(t)\<close>\<close>

definition startsWith :: "jsstring \<Rightarrow> jsstring \<Rightarrow> bool" where
  "startsWith s t = prefix t s"

text \<open>\<open>s.trim()\<close>\<close>

definition trim :: "jsstring \<Rightarrow> jsstring" where
  "trim s = rev (dropWhile isWhiteSpace (rev (dropWhile isWhiteSpace s)))"

text \<open>The decimal rendering of a non-negative integer, as a template literal prints it.\<close>

function show_nat :: "nat \<Rightarrow> jsstring" where
  "show_nat n =
     (if n < 10 then [of_nat (48 + n)]
      else show_nat (n div 10) @ [of_nat (48 + n mod 10)])"
  by pat_completeness auto
termination
  by (relation "measure id") auto

declare show_nat.simps [simp del]

text \<open>\<open>x || d\<close> for a value \<open>x\<close> that is a string or undefined: the empty string is falsy.\<close>

definition or_default :: "jsstring option \<Rightarrow> jsstring \<Rightarrow> jsstring" where
  "or_default x d = (case x of None \<Rightarrow> d | Some t \<Rightarrow> if t = [] then d else t)"

section \<open>BackoffPolicy: \<open>withExponentialBackoff\<close> (index.js)\<close>

text \<open>A thrown \<open>Error\<close> object; the code reads only its \<open>message\<close>.\<close>

datatype jserror = Error (message: jsstring)

text \<open>How an awaited call ends: with a value, with \<open>undefined\<close>, or by throwing.\<close>

datatype 'a completion = Returned 'a | ReturnedUndefined | Thrown jserror

text \<open>The test of line 68 on the caught error's message.\<close>

definition retryable_signature :: "jserror \<Rightarrow> bool" where
  "retryable_signature error \<longleftrightarrow>
     js_includes (message error) (lit ''429'') \<or> js_includes (message error) (lit ''500'')
     \<or> js_includes (message error) (lit ''Failed to fetch'')"

text \<open>
  The delay of line 71, in milliseconds; \<open>rnd attempt\<close> is what \<open>Math.random()\<close>
  returns in that iteration, a number in \<open>[0, 1)\<close>. Numbers are modelled as reals.
\<close>

definition backoff_delay :: "(nat \<Rightarrow> real) \<Rightarrow> nat \<Rightarrow> real" where
  "backoff_delay rnd attempt = 2 ^ attempt * 1000 + rnd attempt * 1000"

text \<open>
  The \<open>for\<close> loop of \<open>withExponentialBackoff\<close> from iteration \<open>attempt\<close> on. \<open>fn attempt\<close>
  is how the call of \<open>fn\<close> made in that iteration ends (the loop calls \<open>fn\<close> once per
  iteration). The result is how the function ends and the delays it has waited for, in
  order. When the loop ends without entering its body the function returns \<open>undefined\<close>.
\<close>

function backoff_loop ::
  "(nat \<Rightarrow> jserror + 'a) \<Rightarrow> int \<Rightarrow> (nat \<Rightarrow> real) \<Rightarrow> nat \<Rightarrow> 'a completion \<times> real list" where
  "backoff_loop fn maxRetries rnd attempt =
     (if int attempt < maxRetries then
        (case fn attempt of
           Inr v \<Rightarrow> (Returned v, [])
         | Inl error \<Rightarrow>
             if int attempt = maxRetries - 1 \<or> \<not> retryable_signature error
             then (Thrown error, [])
             else (let delay = backoff_delay rnd attempt;
                       (r, ds) = backoff_loop fn maxRetries rnd (attempt + 1)
                   in (r, delay # ds)))
      else (ReturnedUndefined, []))"
  by pat_completeness auto
termination
  by (relation "measure (\<lambda>(fn, maxRetries, rnd, attempt). nat (maxRetries - int attempt))") auto

declare backoff_loop.simps [simp del]

definition withExponentialBackoff ::
  "(nat \<Rightarrow> jserror + 'a) \<Rightarrow> int \<Rightarrow> (nat \<Rightarrow> real) \<Rightarrow> 'a completion \<times> real list" where
  "withExponentialBackoff fn maxRetries rnd = backoff_loop fn maxRetries rnd 0"

section \<open>The completion service\<close>

text \<open>
  One turn of the request's \<open>contents\<close>: \<open>{ role, parts: [{ text }] }\<close> with role
  \<open>'user'\<close> or \<open>'model'\<close>.
\<close>

datatype role = User | Model

record turn =
  role :: role
  parts_text :: jsstring

text \<open>
  What one call of \<open>fetch\<close> brings back. \<open>fetch\<close> rejects (no connection), or resolves to
  a response with \<open>ok\<close>, \<open>status\<close>, \<open>statusText\<close> and a body; \<open>response.json()\<close> rejects
  (\<open>Inl\<close>) or resolves to an object of which the code reads \<open>error.message\<close> and
  \<open>candidates[0].content.parts[0].text\<close>. The fields are strings when they are present.
\<close>

datatype err_field = ErrorAbsent | ErrorMessage "jsstring option"

record json_body =
  error_field :: err_field
  reply_text :: "jsstring option"

datatype fetch_outcome =
    FetchRejects jserror
  | Response (resp_ok: bool) (resp_status: nat) (resp_statusText: jsstring)
      (resp_json: "jserror + json_body")

text \<open>
  The TypeError of reading a property of \<open>undefined\<close> (the text V8 gives it).
\<close>

definition typeError_reading :: "string \<Rightarrow> jserror" where
  "typeError_reading property =
     Error (lit ''Cannot read properties of undefined (reading '' @ [0x27] @ lit property
            @ [0x27] @ lit '')'')"

section \<open>CompletionStream: \<open>askAIStream\<close>\<close>

text \<open>
  The closure variables of the object returned by \<open>askAIStream\<close>, the \<open>contents\<close> of the
  request it sends, and a log of the requests sent so far (one entry per call of
  \<open>fetch\<close>).
\<close>

record stream_state =
  contents :: "turn list"
  fullResponse :: "jsstring option"
  chunks :: "jsstring list"
  chunkIndex :: nat
  requests :: "turn list list"

text \<open>The object a pull resolves to: \<open>{ value, done }\<close>; an absent \<open>value\<close> is \<open>None\<close>.\<close>

datatype iter_result = IterResult (result_value: "jsstring option") (result_done: bool)

text \<open>A pull ends by throwing or with a result, and leaves the closure in a new state.\<close>

type_synonym pull = "(jserror + iter_result) \<times> stream_state"

definition log_requests :: "nat \<Rightarrow> stream_state \<Rightarrow> stream_state" where
  "log_requests n st = st\<lparr>requests := requests st @ replicate n (contents st)\<rparr>"

subsection \<open>index.js, lines 77-118\<close>

definition askAIStream_index :: "turn list \<Rightarrow> stream_state" where
  "askAIStream_index chatHistory =
     \<lparr>contents = chatHistory, fullResponse = None, chunks = [], chunkIndex = 0, requests = []\<rparr>"

text \<open>\<open>fetchContent\<close> (lines 87-104), given what its call of \<open>fetch\<close> brings back.\<close>

definition fetchContent_index :: "fetch_outcome \<Rightarrow> stream_state \<Rightarrow> jserror + stream_state" where
  "fetchContent_index outcome st =
     (case outcome of
        FetchRejects e \<Rightarrow> Inl e
      | Response ok status statusText body \<Rightarrow>
          if \<not> ok then
            (let errorDetails =
                   (case body of
                      Inl _ \<Rightarrow> \<lparr>error_field = ErrorMessage (Some (lit ''Unknown error format'')),
                                reply_text = None\<rparr>
                    | Inr b \<Rightarrow> b)
             in case error_field errorDetails of
                  ErrorAbsent \<Rightarrow> Inl (typeError_reading ''message'')
                | ErrorMessage m \<Rightarrow>
                    Inl (Error (show_nat status @ lit '' '' @ statusText @ lit '': ''
                                @ (case m of None \<Rightarrow> lit ''undefined'' | Some t \<Rightarrow> t))))
          else
            (case body of
               Inl e \<Rightarrow> Inl e
             | Inr data \<Rightarrow>
                 (let full = or_default (reply_text data) (lit ''No response received from AI.'')
                  in Inr (st\<lparr>fullResponse := Some full, chunks := chunks_of full\<rparr>))))"

text \<open>Lines 107-110.\<close>

definition stream_out_index :: "stream_state \<Rightarrow> pull" where
  "stream_out_index st =
     (if chunkIndex st \<ge> length (chunks st) then (Inr (IterResult None True), st)
      else (Inr (IterResult (Some (chunks st ! chunkIndex st)) False),
            st\<lparr>chunkIndex := chunkIndex st + 1\<rparr>))"

text \<open>
  \<open>next()\<close>. \<open>net k\<close> is what the \<open>k\<close>-th call of \<open>fetch\<close> made by this pull brings back and
  \<open>rnd\<close> are its random numbers. \<open>withExponentialBackoff\<close> calls \<open>fetchContent\<close> once more
  than it waits. Everything is inside \<open>try\<close>; the \<open>catch\<close> block returns the error
  marker.
\<close>

definition next_index :: "(nat \<Rightarrow> fetch_outcome) \<times> (nat \<Rightarrow> real) \<Rightarrow> stream_state \<Rightarrow> pull" where
  "next_index env st =
     (case fullResponse st of
        Some _ \<Rightarrow> stream_out_index st
      | None \<Rightarrow>
          (case withExponentialBackoff (\<lambda>k. fetchContent_index (fst env k) st) 5 (snd env) of
             (Returned st', ds) \<Rightarrow> stream_out_index (log_requests (length ds + 1) st')
           | (ReturnedUndefined, ds) \<Rightarrow> stream_out_index st
           | (Thrown error, ds) \<Rightarrow>
               (Inr (IterResult
                      (Some (lit ''ERROR: Failed to connect to AI. Details: '' @ message error))
                      True),
                log_requests (length ds + 1) st)))"

subsection \<open>App.jsx, lines 56-116\<close>

text \<open>\<open>historyForAPI\<close> (lines 61-64) over the \<open>{ sender, text }\<close> pairs it is given.\<close>

definition historyForAPI :: "(jsstring \<times> jsstring) list \<Rightarrow> turn list" where
  "historyForAPI chatHistory =
     map (\<lambda>(sender, text).
            \<lparr>role = (if sender = lit ''user'' then User else Model), parts_text = text\<rparr>)
         chatHistory"

definition askAIStream_App :: "jsstring \<Rightarrow> (jsstring \<times> jsstring) list \<Rightarrow> stream_state" where
  "askAIStream_App inputText chatHistory =
     \<lparr>contents = historyForAPI chatHistory @ [\<lparr>role = User, parts_text = inputText\<rparr>],
      fullResponse = None, chunks = [], chunkIndex = 0, requests = []\<rparr>"

text \<open>Lines 77-93: the request and the reading of its response.\<close>

definition fetch_reply_App :: "fetch_outcome \<Rightarrow> stream_state \<Rightarrow> jserror + stream_state" where
  "fetch_reply_App outcome st =
     (case outcome of
        FetchRejects e \<Rightarrow> Inl e
      | Response ok status statusText body \<Rightarrow>
          if \<not> ok then
            (case body of
               Inl e \<Rightarrow> Inl e
             | Inr errorDetails \<Rightarrow>
                 Inl (Error (show_nat status @ lit '' '' @ statusText @ lit '': ''
                       @ or_default (case error_field errorDetails of
                                       ErrorAbsent \<Rightarrow> None | ErrorMessage m \<Rightarrow> m)
                                    (lit ''Unknown API Error''))))
          else
            (case body of
               Inl e \<Rightarrow> Inl e
             | Inr data \<Rightarrow>
                 (let full = or_default (reply_text data) (lit ''No response received from AI.'')
                  in Inr (st\<lparr>fullResponse := Some full, chunks := chunks_of full\<rparr>))))"

text \<open>Lines 97-105.\<close>

definition stream_out_App :: "stream_state \<Rightarrow> pull" where
  "stream_out_App st =
     (if chunkIndex st \<ge> length (chunks st) then (Inr (IterResult (fullResponse st) True), st)
      else (Inr (IterResult (Some (chunks st ! chunkIndex st)) False),
            st\<lparr>chunkIndex := chunkIndex st + 1\<rparr>))"

definition next_App :: "fetch_outcome \<Rightarrow> stream_state \<Rightarrow> pull" where
  "next_App outcome st =
     (case fullResponse st of
        Some _ \<Rightarrow> stream_out_App st
      | None \<Rightarrow>
          (case fetch_reply_App outcome st of
             Inr st' \<Rightarrow> stream_out_App (log_requests 1 st')
           | Inl error \<Rightarrow>
               (Inr (IterResult
                      (Some (lit ''ERROR: Failed to connect to AI. Details: '' @ message error))
                      True),
                log_requests 1 st)))"

subsection \<open>unnamed/part_000, lines 62-116\<close>

definition askAIStream_part000 :: "jsstring \<Rightarrow> (jsstring \<times> jsstring) list \<Rightarrow> stream_state" where
  "askAIStream_part000 userText history =
     \<lparr>contents = historyForAPI history @ [\<lparr>role = User, parts_text = userText\<rparr>],
      fullResponse = None, chunks = [], chunkIndex = 0, requests = []\<rparr>"

text \<open>
  Lines 88-99. The response's \<open>ok\<close> is not looked at, and the default reply is the
  one-character string U+2026. \<open>filter(Boolean)\<close> drops the empty strings.
\<close>

definition fetch_reply_part000 :: "fetch_outcome \<Rightarrow> stream_state \<Rightarrow> jserror + stream_state" where
  "fetch_reply_part000 outcome st =
     (case outcome of
        FetchRejects e \<Rightarrow> Inl e
      | Response ok status statusText body \<Rightarrow>
          (case body of
             Inl e \<Rightarrow> Inl e
           | Inr data \<Rightarrow>
               (let full = or_default (reply_text data) [0x2026]
                in Inr (st\<lparr>fullResponse := Some full,
                           chunks := filter (\<lambda>c. c \<noteq> []) (split_ws full)\<rparr>))))"

text \<open>\<open>next()\<close>, lines 73-110: there is no \<open>try\<close>, a failed request makes the pull throw.\<close>

definition next_part000 :: "fetch_outcome \<Rightarrow> stream_state \<Rightarrow> pull" where
  "next_part000 outcome st =
     (case fullResponse st of
        Some _ \<Rightarrow> stream_out_App st
      | None \<Rightarrow>
          (case fetch_reply_part000 outcome st of
             Inr st' \<Rightarrow> stream_out_App (log_requests 1 st')
           | Inl error \<Rightarrow> (Inl error, log_requests 1 st)))"

subsection \<open>Pulling a stream to its end\<close>

text \<open>
  The iterator protocol as \<open>for await\<close> and the \<open>while (!next.done)\<close> loop of index.js
  use it: pull until a result has \<open>done\<close> or a pull throws. \<open>envs j\<close> is the environment
  of the \<open>j\<close>-th pull. The result is the values of the results without \<open>done\<close>, in pull
  order, and how the last pull ended: by throwing, or with the value of the result
  that has \<open>done\<close>. \<open>None\<close> when the fuel (a bound on the number of pulls) runs out.
\<close>

fun pull_all ::
  "nat \<Rightarrow> ('env \<Rightarrow> stream_state \<Rightarrow> pull) \<Rightarrow> (nat \<Rightarrow> 'env) \<Rightarrow> stream_state
     \<Rightarrow> (jsstring option list \<times> (jserror + jsstring option) \<times> stream_state) option" where
  "pull_all 0 nxt envs st = None"
| "pull_all (Suc fuel) nxt envs st =
     (case nxt (envs 0) st of
        (Inl e, st') \<Rightarrow> Some ([], Inl e, st')
      | (Inr r, st') \<Rightarrow>
          if result_done r then Some ([], Inr (result_value r), st')
          else (case pull_all fuel nxt (\<lambda>j. envs (Suc j)) st' of
                  None \<Rightarrow> None
                | Some (vs, ending, st'') \<Rightarrow> Some (result_value r # vs, ending, st'')))"

text \<open>\<open>text += value\<close>: an absent value is appended as the text \<open>undefined\<close>.\<close>

definition append_value :: "jsstring \<Rightarrow> jsstring option \<Rightarrow> jsstring" where
  "append_value text v = text @ (case v of None \<Rightarrow> lit ''undefined'' | Some c \<Rightarrow> c)"

section \<open>The stores\<close>

subsection \<open>Firestore collections of index.js\<close>

text \<open>
  The documents of \<open>sessions\<close> and \<open>messages\<close> under the user's path. A timestamp written
  as \<open>serverTimestamp()\<close> reads as \<open>null\<close> (\<open>None\<close>) until the server has set it; times
  are milliseconds. The lists are in the order in which a query without \<open>orderBy\<close>
  returns the documents.
\<close>

record session_doc =
  s_id :: jsstring
  s_title :: jsstring
  s_createdAt :: "int option"

record message_doc =
  m_id :: jsstring
  m_sessionId :: jsstring
  m_sender :: jsstring
  m_text :: jsstring
  m_timestamp :: "int option"

record firestore =
  sessions_coll :: "session_doc list"
  messages_coll :: "message_doc list"

text \<open>The writes a batch collects, and \<open>batch.commit()\<close>, which applies all of them at once.\<close>

datatype batch_op = DeleteMessage jsstring | DeleteSession jsstring

fun apply_op :: "batch_op \<Rightarrow> firestore \<Rightarrow> firestore" where
  "apply_op (DeleteMessage ref) fs =
     fs\<lparr>messages_coll := filter (\<lambda>d. m_id d \<noteq> ref) (messages_coll fs)\<rparr>"
| "apply_op (DeleteSession ref) fs =
     fs\<lparr>sessions_coll := filter (\<lambda>d. s_id d \<noteq> ref) (sessions_coll fs)\<rparr>"

definition commit :: "batch_op list \<Rightarrow> firestore \<Rightarrow> firestore" where
  "commit batch fs = foldl (\<lambda>fs' op. apply_op op fs') fs batch"

text \<open>\<open>query(messagesRef, where('sessionId', '==', id))\<close>, and with \<open>limit(100)\<close>.\<close>

definition messages_where :: "firestore \<Rightarrow> jsstring \<Rightarrow> message_doc list" where
  "messages_where fs sessionId = filter (\<lambda>d. m_sessionId d = sessionId) (messages_coll fs)"

definition messages_query :: "firestore \<Rightarrow> jsstring \<Rightarrow> message_doc list" where
  "messages_query fs sessionId = take 100 (messages_where fs sessionId)"

subsection \<open>The SQLite tables behind the REST server (App.jsx, lines 835-1051)\<close>

text \<open>
  The tables \<open>chats\<close> and \<open>messages\<close>, rows in rowid order. Line 878 declares
  \<open>FOREIGN KEY (chat_id) REFERENCES chats (chat_id) ON DELETE CASCADE\<close>, but the connection
  of line 861 is opened with the defaults of sqlite3 and no statement of the file runs
  \<open>PRAGMA foreign_keys = ON\<close>: SQLite does not enforce foreign keys on such a connection,
  so a statement on \<open>chats\<close> leaves the rows of \<open>messages\<close> as they are.
\<close>

record chat_row =
  chat_id :: int
  title :: jsstring
  created_at :: int

record message_row =
  message_id :: int
  msg_chat_id :: int
  row_sender :: jsstring
  content :: jsstring
  row_timestamp :: int

record sqlite_db =
  chats :: "chat_row list"
  message_rows :: "message_row list"

text \<open>The body of a response, as far as the handlers build it.\<close>

datatype response_body =
    ErrorBody jsstring
  | MessageBody jsstring
  | DataBody "(int \<times> jsstring \<times> jsstring) list"

text \<open>
  \<open>DELETE /api/chats/:id\<close> (lines 965-979): \<open>DELETE FROM chats WHERE chat_id = ?\<close>. \<open>db_err\<close>
  is the error \<open>db.run\<close> reports, if any; \<open>this.changes\<close> is the number of rows of \<open>chats\<close>
  the statement deleted. The table \<open>messages\<close> is not touched.
\<close>

definition delete_chat :: "jserror option \<Rightarrow> sqlite_db \<Rightarrow> int \<Rightarrow> (nat \<times> response_body) \<times> sqlite_db" where
  "delete_chat db_err db chatId =
     (case db_err of
        Some err \<Rightarrow> ((500, ErrorBody (message err)), db)
      | None \<Rightarrow>
          (let changes = length (filter (\<lambda>r. chat_id r = chatId) (chats db));
               db' = db\<lparr>chats := filter (\<lambda>r. chat_id r \<noteq> chatId) (chats db)\<rparr>
           in if changes = 0 then ((404, MessageBody (lit ''Chat not found'')), db')
              else ((200, MessageBody (lit ''Chat deleted successfully'')), db')))"

text \<open>
  \<open>GET /api/chats/:id/messages\<close> (lines 982-993):
  \<open>SELECT message_id as id, sender, content as text FROM messages WHERE chat_id = ?
  ORDER BY timestamp ASC\<close>. Rows with the same timestamp stay in rowid order.
\<close>

definition select_messages :: "sqlite_db \<Rightarrow> int \<Rightarrow> message_row list" where
  "select_messages db chatId =
     sort_key row_timestamp (filter (\<lambda>r. msg_chat_id r = chatId) (message_rows db))"

definition get_messages :: "jserror option \<Rightarrow> sqlite_db \<Rightarrow> int \<Rightarrow> nat \<times> response_body" where
  "get_messages db_err db chatId =
     (case db_err of
        Some err \<Rightarrow> (500, ErrorBody (message err))
      | None \<Rightarrow>
          (200, DataBody (map (\<lambda>r. (message_id r, row_sender r, content r))
                              (select_messages db chatId))))"

section \<open>ConversationController\<close>

text \<open>
  The state of the \<open>App\<close> component that the modelled functions read and write. App.jsx
  calls the session's \<open>title\<close> its \<open>name\<close> and \<open>error\<close> \<open>errorMessage\<close>. A function sees the
  state of the render in which it was created.
\<close>

record ui_session =
  session_id :: jsstring
  session_title :: jsstring

record ui_message =
  msg_id :: jsstring
  sender :: jsstring
  msg_text :: jsstring
  timestamp :: int

record ui_state =
  sessions :: "ui_session list"
  currentSessionId :: "jsstring option"
  messages :: "ui_message list"
  input :: jsstring
  isTyping :: bool
  userId :: "jsstring option"
  db :: bool
  error :: "jsstring option"

text \<open>A value that is a string or \<open>null\<close> is truthy when it is a non-empty string.\<close>

definition truthy :: "jsstring option \<Rightarrow> bool" where
  "truthy x \<longleftrightarrow> x \<noteq> None \<and> x \<noteq> Some []"

text \<open>What reaches the outside: a document written, a request sent, a title set.\<close>

datatype effect =
    Persisted jsstring jsstring "jsstring option"
  | Request "turn list"
  | TitleSet "jsstring option" jsstring

subsection \<open>Listeners of index.js\<close>

text \<open>
  Listener 2 (lines 462-478) on a snapshot of the query of line 456. \<open>clock i\<close> is what
  \<open>new Date()\<close> gives for the \<open>i\<close>-th document. \<open>Array.prototype.sort\<close> with the
  comparator of line 476 is a stable sort by \<open>timestamp\<close>.
\<close>

definition fetched_message :: "int \<Rightarrow> message_doc \<Rightarrow> ui_message" where
  "fetched_message date d =
     \<lparr>msg_id = m_id d,
      sender = or_default (Some (m_sender d)) (lit ''bot''),
      msg_text = or_default (Some (m_text d)) [],
      timestamp = (case m_timestamp d of Some t \<Rightarrow> t | None \<Rightarrow> date)\<rparr>"

definition messages_listener_index :: "(nat \<Rightarrow> int) \<Rightarrow> message_doc list \<Rightarrow> ui_state \<Rightarrow> ui_state" where
  "messages_listener_index clock querySnapshot ui =
     (let fetchedMessages =
            map (\<lambda>(i, d). fetched_message (clock i) d) (enumerate 0 querySnapshot)
      in ui\<lparr>messages := sort_key timestamp fetchedMessages\<rparr>)"





subsection \<open>Listener and \<open>createSession\<close> of App.jsx\<close>




subsection \<open>\<open>deleteSession\<close> of index.js (lines 371-404)\<close>

text \<open>
  \<open>getDocs k\<close> is the error of the \<open>k\<close>-th call of \<open>getDocs\<close>, if it fails; a call that
  succeeds returns the messages of the session. \<open>commit_err\<close> is the error of
  \<open>batch.commit()\<close>, if it fails; a batch that fails writes nothing. No other writer
  changes the store between the query and the commit.
\<close>

definition deleteSession_index ::
  "(nat \<Rightarrow> jserror option) \<Rightarrow> (nat \<Rightarrow> real) \<Rightarrow> jserror option \<Rightarrow> jsstring
     \<Rightarrow> ui_state \<times> firestore \<Rightarrow> ui_state \<times> firestore" where
  "deleteSession_index getDocs rnd commit_err sessionIdToDelete w =
     (case w of (ui, fs) \<Rightarrow>
        if \<not> db ui \<or> \<not> truthy (userId ui) then (ui, fs)
        else
          (case withExponentialBackoff
                  (\<lambda>k. case getDocs k of
                          Some e \<Rightarrow> Inl e
                        | None \<Rightarrow> Inr (messages_where fs sessionIdToDelete))
                  5 rnd of
             (Thrown e, ds) \<Rightarrow>
               (ui\<lparr>error := Some (lit ''Could not delete session: '' @ message e)\<rparr>, fs)
           | (ReturnedUndefined, ds) \<Rightarrow>
               (ui\<lparr>error := Some (lit ''Could not delete session: ''
                                    @ message (typeError_reading ''forEach''))\<rparr>, fs)
           | (Returned messagesSnapshot, ds) \<Rightarrow>
               (let batch = map (\<lambda>msgDoc. DeleteMessage (m_id msgDoc)) messagesSnapshot
                            @ [DeleteSession sessionIdToDelete]
                in case commit_err of
                     Some e \<Rightarrow>
                       (ui\<lparr>error := Some (lit ''Could not delete session: '' @ message e)\<rparr>, fs)
                   | None \<Rightarrow>
                       (if Some sessionIdToDelete = currentSessionId ui
                        then (let remainingSessions =
                                    filter (\<lambda>s. session_id s \<noteq> sessionIdToDelete) (sessions ui)
                              in if length remainingSessions > 0
                                 then ui\<lparr>currentSessionId :=
                                          Some (session_id (hd remainingSessions))\<rparr>
                                 else ui\<lparr>currentSessionId := None, messages := []\<rparr>)
                        else ui,
                        commit batch fs))))"

subsection \<open>\<open>handleSend\<close>\<close>

text \<open>
  What \<open>handleSend\<close> meets outside: whether the three writes of a message fail (the
  user's message, the reply, and in index.js the error text written by the \<open>catch\<close>
  block), the identifier \<open>uuidv4()\<close> returns, the time, the environment of each pull of
  the stream, and whether the calls of \<open>setDoc\<close> for the title fail.
\<close>

record 'e send_env =
  save_user :: "jserror option"
  save_bot :: "jserror option"
  save_marker :: "jserror option"
  uuid :: jsstring
  date :: int
  pulls :: "nat \<Rightarrow> 'e"
  setDoc_title :: "nat \<Rightarrow> jserror option"
  title_rnd :: "nat \<Rightarrow> real"

text \<open>
  How a call of \<open>handleSend\<close> ends: the state it leaves, its effects in order, and the
  error it rejects with, if it does.
\<close>

type_synonym send_result = "ui_state \<times> effect list \<times> jserror option"

text \<open>
  The loop over the stream: \<open>text += value\<close> and the update of the visible messages for
  every value pulled, in pull order.
\<close>

definition stream_body ::
  "(jsstring \<Rightarrow> ui_message list \<Rightarrow> ui_message list) \<Rightarrow> jsstring option list
     \<Rightarrow> jsstring \<times> ui_message list \<Rightarrow> jsstring \<times> ui_message list" where
  "stream_body update_messages vs start =
     foldl (\<lambda>(botText, msgs) v.
              (let botText' = append_value botText v in (botText', update_messages botText' msgs)))
           start vs"

text \<open>\<open>s.split(/\s+/)\<close>: as \<open>split_ws\<close>, without the runs of whitespace.\<close>

fun without_separators :: "jsstring list \<Rightarrow> jsstring list" where
  "without_separators (piece # sep # rest) = piece # without_separators rest"
| "without_separators pieces = pieces"

definition split_words :: "jsstring \<Rightarrow> jsstring list" where
  "split_words s = without_separators (split_ws s)"

text \<open>\<open>xs.join(" ")\<close>\<close>

fun join_space :: "jsstring list \<Rightarrow> jsstring" where
  "join_space [] = []"
| "join_space [x] = x"
| "join_space (x # y # ys) = x @ lit '' '' @ join_space (y # ys)"

subsubsection \<open>index.js, lines 317-338 and 518-593\<close>

definition saveMessage_index ::
  "ui_state \<Rightarrow> jserror option \<Rightarrow> jsstring \<Rightarrow> jsstring \<Rightarrow> jsstring option \<Rightarrow> jserror + effect" where
  "saveMessage_index ui addDoc sender_arg text_arg sessionId =
     (if \<not> db ui \<or> \<not> truthy (userId ui) \<or> \<not> truthy sessionId
      then Inl (Error (lit
             ''Cannot save message: Authentication not complete or session missing.''))
      else (case addDoc of
              Some e \<Rightarrow> Inl (Error (lit ''Could not save message to database: '' @ message e))
            | None \<Rightarrow> Inr (Persisted sender_arg text_arg sessionId)))"

text \<open>Lines 530-537.\<close>

definition chatHistoryForAPI :: "ui_message list \<Rightarrow> jsstring \<Rightarrow> turn list" where
  "chatHistoryForAPI msgs userInput =
     map (\<lambda>msg. \<lparr>role = (if sender msg = lit ''user'' then User else Model),
                  parts_text = msg_text msg\<rparr>)
         (filter (\<lambda>msg. \<not> startsWith (msg_text msg) (lit ''ERROR'')) msgs)
     @ [\<lparr>role = User, parts_text = userInput\<rparr>]"

text \<open>Lines 560-567: the text of the last message, if that is the placeholder.\<close>

definition set_last_text :: "jsstring \<Rightarrow> jsstring \<Rightarrow> ui_message list \<Rightarrow> ui_message list" where
  "set_last_text botMessageId botText prev =
     (if prev \<noteq> [] \<and> msg_id (last prev) = botMessageId
      then butlast prev @ [(last prev)\<lparr>msg_text := botText\<rparr>]
      else prev)"

text \<open>Step 6, lines 590-592.\<close>

definition cleanup_index :: "jsstring \<Rightarrow> ui_state \<Rightarrow> effect list \<Rightarrow> send_result" where
  "cleanup_index botMessageId ui effects =
     (ui\<lparr>messages := filter (\<lambda>msg. msg_id msg \<noteq> botMessageId) (messages ui),
         isTyping := False\<rparr>,
      effects, None)"

text \<open>The \<open>catch\<close> block, lines 582-588; \<open>ui0\<close> is the state \<open>handleSend\<close> was created in.\<close>

definition catch_index ::
  "ui_state \<Rightarrow> 'e send_env \<Rightarrow> jsstring \<Rightarrow> ui_state \<Rightarrow> effect list \<Rightarrow> jserror \<Rightarrow> send_result" where
  "catch_index ui0 env botMessageId ui effects e =
     (let botText = lit ''ERROR: Failed to get response from AI. Details: '' @ message e;
          ui' = ui\<lparr>error := Some botText\<rparr>
      in case saveMessage_index ui0 (save_marker env) (lit ''bot'') botText
                (currentSessionId ui0) of
           Inl e' \<Rightarrow> (ui', effects, Some e')
         | Inr written \<Rightarrow> cleanup_index botMessageId ui' (effects @ [written]))"

text \<open>
  \<open>handleSend\<close>. The fuel bounds the number of pulls; the result is \<open>None\<close> when it runs
  out. No listener changes the state while the call runs.
\<close>

definition handleSend_index ::
  "nat \<Rightarrow> ((nat \<Rightarrow> fetch_outcome) \<times> (nat \<Rightarrow> real)) send_env \<Rightarrow> ui_state \<Rightarrow> send_result option" where
  "handleSend_index fuel env ui =
     (if trim (input ui) = [] \<or> isTyping ui \<or> \<not> truthy (userId ui)
         \<or> \<not> truthy (currentSessionId ui)
      then Some (if \<not> truthy (currentSessionId ui)
                 then ui\<lparr>error := Some (lit
                   ''Please start a new chat session first or wait for the auto-start.'')\<rparr>
                 else ui, [], None)
      else
        (let userInput = input ui;
             ui1 = ui\<lparr>input := [], isTyping := True, error := None\<rparr>;
             history = chatHistoryForAPI (messages ui) userInput
         in case saveMessage_index ui (save_user env) (lit ''user'') userInput
                   (currentSessionId ui) of
              Inl e \<Rightarrow> Some (ui1\<lparr>isTyping := False, error := Some (message e)\<rparr>, [], None)
            | Inr written_user \<Rightarrow>
                (let botMessageId = uuid env;
                     ui2 = ui1\<lparr>messages := messages ui1 @
                             [\<lparr>msg_id = botMessageId, sender = lit ''bot'', msg_text = [],
                               timestamp = date env\<rparr>]\<rparr>
                 in case pull_all fuel next_index (pulls env) (askAIStream_index history) of
                      None \<Rightarrow> None
                    | Some (vs, ending, st) \<Rightarrow>
                        (let (botText, msgs) =
                               stream_body (set_last_text botMessageId) vs ([], messages ui2);
                             ui3 = ui2\<lparr>messages := msgs\<rparr>;
                             effects = written_user # map Request (requests st)
                         in case ending of
                              Inl e \<Rightarrow> Some (catch_index ui env botMessageId ui3 effects e)
                            | Inr _ \<Rightarrow>
                                (case saveMessage_index ui (save_bot env) (lit ''bot'') botText
                                        (currentSessionId ui) of
                                   Inl e \<Rightarrow> Some (catch_index ui env botMessageId ui3 effects e)
                                 | Inr written_bot \<Rightarrow>
                                     (let currentSession =
                                            find (\<lambda>s. Some (session_id s) = currentSessionId ui)
                                                 (sessions ui)
                                      in if db ui \<and> truthy (userId ui)
                                            \<and> (case currentSession of
                                                 None \<Rightarrow> True
                                               | Some s \<Rightarrow> startsWith (session_title s)
                                                            (lit ''Auto-Start Chat''))
                                         then
                                           (let firstWords =
                                                  join_space (take 5 (split_words userInput))
                                                  @ lit ''...''
                                            in case withExponentialBackoff
                                                      (\<lambda>k. case setDoc_title env k of
                                                              Some e \<Rightarrow> Inl e
                                                            | None \<Rightarrow> Inr ())
                                                      5 (title_rnd env) of
                                                 (Thrown e, ds) \<Rightarrow>
                                                   Some (catch_index ui env botMessageId ui3
                                                           (effects @ [written_bot]) e)
                                               | (_, ds) \<Rightarrow>
                                                   Some (cleanup_index botMessageId ui3
                                                           (effects @ [written_bot,
                                                              TitleSet (currentSessionId ui)
                                                                firstWords])))
                                         else Some (cleanup_index botMessageId ui3
                                                      (effects @ [written_bot]))))))))"

subsubsection \<open>App.jsx, lines 532-599\<close>

text \<open>
  \<open>saveMessage\<close> catches the failure of the write itself and reports it; \<open>ui0\<close> is the
  state it was created in. The result is the new state and what was written.
\<close>

definition saveMessage_App ::
  "ui_state \<Rightarrow> jserror option \<Rightarrow> jsstring \<Rightarrow> jsstring \<Rightarrow> ui_state \<Rightarrow> ui_state \<times> effect list" where
  "saveMessage_App ui0 addDoc sender_arg text_arg ui =
     (if \<not> db ui0 \<or> \<not> truthy (userId ui0) \<or> \<not> truthy (currentSessionId ui0) \<or> text_arg = []
      then (ui, [])
      else (case addDoc of
              Some e \<Rightarrow> (ui\<lparr>error := Some (lit ''Failed to save message to database.'')\<rparr>, [])
            | None \<Rightarrow> (ui, [Persisted sender_arg text_arg (currentSessionId ui0)])))"

text \<open>Lines 577-581.\<close>

definition set_text_of :: "jsstring \<Rightarrow> jsstring \<Rightarrow> ui_message list \<Rightarrow> ui_message list" where
  "set_text_of tempBotId accumulatedBotText prev =
     map (\<lambda>msg. if msg_id msg = tempBotId then msg\<lparr>msg_text := accumulatedBotText\<rparr> else msg)
         prev"

text \<open>
  \<open>handleSend(transcript)\<close>. \<open>doc_err\<close> is the error \<open>doc(...)\<close> of line 590 throws when
  there is no database, user or session to address.
\<close>

definition handleSend_App ::
  "nat \<Rightarrow> fetch_outcome send_env \<Rightarrow> jserror \<Rightarrow> jsstring option \<Rightarrow> ui_state \<Rightarrow> send_result option" where
  "handleSend_App fuel env doc_err transcript ui =
     (let textToSend = trim (or_default transcript (input ui))
      in if textToSend = [] then Some (ui, [], None)
         else
           (let ui1 = ui\<lparr>input := [], error := None, isTyping := True\<rparr>;
                (ui2, written_user) =
                   saveMessage_App ui (save_user env) (lit ''user'') textToSend ui1;
                historyForAI = map (\<lambda>msg. (sender msg, msg_text msg)) (messages ui);
                stream = askAIStream_App textToSend historyForAI;
                tempBotId = uuid env;
                ui3 = ui2\<lparr>messages := messages ui2 @
                        [\<lparr>msg_id = tempBotId, sender = lit ''bot'', msg_text = [],
                          timestamp = date env\<rparr>]\<rparr>
            in case pull_all fuel next_App (pulls env) stream of
                 None \<Rightarrow> None
               | Some (vs, ending, st) \<Rightarrow>
                   (let (text_pulled, msgs) =
                          stream_body (set_text_of tempBotId) vs ([], messages ui3);
                        accumulatedBotText =
                          (case ending of
                             Inl err \<Rightarrow> lit ''Sorry, an error occurred.''
                           | Inr _ \<Rightarrow> text_pulled);
                        ui4 = ui3\<lparr>messages := msgs, isTyping := False\<rparr>;
                        effects = written_user @ map Request (requests st)
                    in if \<not> db ui \<or> \<not> truthy (userId ui) \<or> \<not> truthy (currentSessionId ui)
                       then Some (ui4, effects, Some doc_err)
                       else
                         (let sessionName = take 30 textToSend
                                @ (if length textToSend > 30 then lit ''...'' else [])
                          in if length (messages ui) = 0
                             then (case setDoc_title env 0 of
                                     Some e \<Rightarrow> Some (ui4, effects, Some e)
                                   | None \<Rightarrow>
                                       (let (ui5, written_bot) =
                                              saveMessage_App ui (save_bot env) (lit ''bot'')
                                                accumulatedBotText ui4
                                        in Some (ui5,
                                                 effects
                                                 @ [TitleSet (currentSessionId ui) sessionName]
                                                 @ written_bot, None)))
                             else (let (ui5, written_bot) =
                                         saveMessage_App ui (save_bot env) (lit ''bot'')
                                           accumulatedBotText ui4
                                   in Some (ui5, effects @ written_bot, None))))))"

section \<open>Environments\<close>

text \<open>An environment that answers every call in the same way.\<close>

definition every_time :: "'a \<Rightarrow> nat \<Rightarrow> 'a" where
  "every_time x k = x"

section \<open>Properties: strings\<close>

lemma split_ws_last:
  "dropWhile (\<lambda>c. \<not> isWhiteSpace c) s = [] \<Longrightarrow> split_ws s = [takeWhile (\<lambda>c. \<not> isWhiteSpace c) s]"
  by (subst split_ws.simps) (simp only: Let_def simp_thms if_True)

lemma split_ws_more:
  "dropWhile (\<lambda>c. \<not> isWhiteSpace c) s \<noteq> [] \<Longrightarrow>
   split_ws s = takeWhile (\<lambda>c. \<not> isWhiteSpace c) s
      # takeWhile isWhiteSpace (dropWhile (\<lambda>c. \<not> isWhiteSpace c) s)
      # split_ws (dropWhile isWhiteSpace (dropWhile (\<lambda>c. \<not> isWhiteSpace c) s))"
  by (rule trans [OF split_ws.simps]) (simp only: Let_def simp_thms if_False)

lemma concat_split_ws: "concat (split_ws s) = s"
proof (induction s rule: split_ws.induct)
  case (1 s)
  let ?rest = "dropWhile (\<lambda>c. \<not> isWhiteSpace c) s"
  show ?case
  proof (cases "?rest = []")
    case True
    then have "takeWhile (\<lambda>c. \<not> isWhiteSpace c) s = s"
      by (metis takeWhile_dropWhile_id append_Nil2)
    with True show ?thesis by (simp add: split_ws_last)
  next
    case False
    have ih: "concat (split_ws (dropWhile isWhiteSpace ?rest)) = dropWhile isWhiteSpace ?rest"
      using "1.IH" [OF refl refl False] .
    have "concat (split_ws s) =
            takeWhile (\<lambda>c. \<not> isWhiteSpace c) s @ takeWhile isWhiteSpace ?rest
              @ concat (split_ws (dropWhile isWhiteSpace ?rest))"
      by (simp only: split_ws_more [OF False] concat.simps)
    also have "\<dots> = takeWhile (\<lambda>c. \<not> isWhiteSpace c) s @ ?rest"
      by (simp only: ih takeWhile_dropWhile_id)
    also have "\<dots> = s" by (simp only: takeWhile_dropWhile_id)
    finally show ?thesis .
  qed
qed

lemma concat_filter_nonempty: "concat (filter (\<lambda>c. length c > 0) xs) = concat xs"
  by (induction xs) auto

lemma concat_chunks_of: "concat (chunks_of s) = s"
  unfolding chunks_of_def by (simp only: concat_filter_nonempty concat_split_ws)

section \<open>Properties: BackoffPolicy\<close>

lemma backoff_loop_success:
  "int k < maxRetries \<Longrightarrow> fn k = Inr v \<Longrightarrow> backoff_loop fn maxRetries rnd k = (Returned v, [])"
  by (subst backoff_loop.simps) simp

lemma backoff_loop_failure:
  "int k < maxRetries \<Longrightarrow> fn k = Inl e \<Longrightarrow>
   backoff_loop fn maxRetries rnd k =
     (if int k = maxRetries - 1 \<or> \<not> retryable_signature e then (Thrown e, [])
      else (fst (backoff_loop fn maxRetries rnd (Suc k)),
            backoff_delay rnd k # snd (backoff_loop fn maxRetries rnd (Suc k))))"
  by (subst backoff_loop.simps) (simp add: Let_def split_beta)

lemma backoff_loop_retry_prefix:
  assumes "\<forall>j. a \<le> j \<and> j < k \<longrightarrow> (\<exists>e. fn j = Inl e \<and> retryable_signature e)"
    and "int k < maxRetries" and "a \<le> k"
  shows "backoff_loop fn maxRetries rnd a =
           (fst (backoff_loop fn maxRetries rnd k),
            map (backoff_delay rnd) [a..<k] @ snd (backoff_loop fn maxRetries rnd k))"
  using assms
proof (induction "k - a" arbitrary: a)
  case 0
  then show ?case by simp
next
  case (Suc d)
  then have ak: "a < k" by simp
  with Suc.prems obtain e where e: "fn a = Inl e" "retryable_signature e" by auto
  have ih: "backoff_loop fn maxRetries rnd (Suc a) =
           (fst (backoff_loop fn maxRetries rnd k),
            map (backoff_delay rnd) [Suc a..<k] @ snd (backoff_loop fn maxRetries rnd k))"
    using Suc.hyps(2) Suc.prems ak by (intro Suc.hyps(1)) auto
  have "int a < maxRetries" "int a \<noteq> maxRetries - 1" using ak Suc.prems(2) by auto
  then have "backoff_loop fn maxRetries rnd a =
     (fst (backoff_loop fn maxRetries rnd (Suc a)),
      backoff_delay rnd a # snd (backoff_loop fn maxRetries rnd (Suc a)))"
    using e by (simp add: backoff_loop_failure)
  also have "\<dots> = (fst (backoff_loop fn maxRetries rnd k),
            map (backoff_delay rnd) [a..<k] @ snd (backoff_loop fn maxRetries rnd k))"
    using ak by (simp add: ih upt_conv_Cons)
  finally show ?case .
qed

lemma backoff_loop_Returned:
  "backoff_loop fn maxRetries rnd a = (Returned v, ds) \<Longrightarrow> fn (a + length ds) = Inr v"
proof (induction fn maxRetries rnd a arbitrary: ds rule: backoff_loop.induct)
  case (1 fn maxRetries rnd attempt)
  show ?case
  proof (cases "int attempt < maxRetries")
    case False
    with "1.prems" show ?thesis by (subst (asm) backoff_loop.simps) simp
  next
    case lt: True
    show ?thesis
    proof (cases "fn attempt")
      case (Inr w)
      with lt "1.prems" show ?thesis by (subst (asm) backoff_loop.simps) auto
    next
      case (Inl e)
      show ?thesis
      proof (cases "int attempt = maxRetries - 1 \<or> \<not> retryable_signature e")
        case True
        with lt Inl "1.prems" show ?thesis by (subst (asm) backoff_loop.simps) auto
      next
        case False
        obtain r ds' where rec: "backoff_loop fn maxRetries rnd (attempt + 1) = (r, ds')"
          by (cases "backoff_loop fn maxRetries rnd (attempt + 1)")
        have "backoff_loop fn maxRetries rnd attempt = (r, backoff_delay rnd attempt # ds')"
          using lt Inl False rec by (subst backoff_loop.simps) (simp add: Let_def)
        with "1.prems" have r: "r = Returned v" and ds: "ds = backoff_delay rnd attempt # ds'"
          by simp_all
        have "fn (attempt + 1 + length ds') = Inr v"
          using "1.IH" [OF lt Inl False refl] rec r by simp
        then show ?thesis using ds by simp
      qed
    qed
  qed
qed

section \<open>Properties: CompletionStream\<close>

lemma pull_all_stream_out:
  assumes nxt: "\<And>env st. fullResponse st \<noteq> None \<Longrightarrow>
      nxt env st =
        (if chunkIndex st \<ge> length (chunks st) then (Inr (IterResult (fin st) True), st)
         else (Inr (IterResult (Some (chunks st ! chunkIndex st)) False),
               st\<lparr>chunkIndex := chunkIndex st + 1\<rparr>))"
    and fin: "\<And>st i. fin (st\<lparr>chunkIndex := i\<rparr>) = fin st"
  shows "fullResponse st \<noteq> None \<Longrightarrow> chunkIndex st \<le> length (chunks st) \<Longrightarrow>
         length (chunks st) - chunkIndex st < fuel \<Longrightarrow>
         pull_all fuel nxt envs st =
           Some (map Some (drop (chunkIndex st) (chunks st)), Inr (fin st),
                 st\<lparr>chunkIndex := length (chunks st)\<rparr>)"
proof (induction "length (chunks st) - chunkIndex st" arbitrary: st fuel envs)
  case 0
  then obtain f where f: "fuel = Suc f" by (cases fuel) auto
  from 0 have eq: "chunkIndex st = length (chunks st)" by simp
  have "nxt (envs 0) st = (Inr (IterResult (fin st) True), st)"
    using nxt [OF "0.prems"(1)] eq by simp
  moreover have "st\<lparr>chunkIndex := length (chunks st)\<rparr> = st"
    using eq [symmetric] by simp
  ultimately show ?case using eq by (simp add: f)
next
  case (Suc d)
  then obtain f where f: "fuel = Suc f" by (cases fuel) auto
  from Suc have lt: "chunkIndex st < length (chunks st)" by simp
  let ?st' = "st\<lparr>chunkIndex := chunkIndex st + 1\<rparr>"
  have step: "nxt (envs 0) st = (Inr (IterResult (Some (chunks st ! chunkIndex st)) False), ?st')"
    using nxt [OF Suc.prems(1)] lt by simp
  have ih: "pull_all f nxt (\<lambda>j. envs (Suc j)) ?st' =
           Some (map Some (drop (chunkIndex ?st') (chunks ?st')), Inr (fin ?st'),
                 ?st'\<lparr>chunkIndex := length (chunks ?st')\<rparr>)"
    using Suc.hyps(2) Suc.prems lt f by (intro Suc.hyps(1)) auto
  have "drop (chunkIndex st) (chunks st) = chunks st ! chunkIndex st # drop (Suc (chunkIndex st)) (chunks st)"
    using lt by (simp add: Cons_nth_drop_Suc)
  then show ?case using step ih by (simp add: f fin)
qed

lemma stream_out_App_eq:
  "stream_out_App st =
        (if chunkIndex st \<ge> length (chunks st) then (Inr (IterResult (fullResponse st) True), st)
         else (Inr (IterResult (Some (chunks st ! chunkIndex st)) False),
               st\<lparr>chunkIndex := chunkIndex st + 1\<rparr>))"
  by (simp add: stream_out_App_def)

lemma next_App_fetched: "fullResponse st \<noteq> None \<Longrightarrow> next_App env st = stream_out_App st"
  by (auto simp: next_App_def)

lemma next_part000_fetched: "fullResponse st \<noteq> None \<Longrightarrow> next_part000 env st = stream_out_App st"
  by (auto simp: next_part000_def)

lemma next_index_fetched: "fullResponse st \<noteq> None \<Longrightarrow> next_index env st = stream_out_index st"
  by (auto simp: next_index_def)

lemma pull_all_App_fetched:
  assumes "fullResponse st = Some full" "chunkIndex st \<le> length (chunks st)"
    "length (chunks st) - chunkIndex st < fuel"
  shows "pull_all fuel next_App envs st =
           Some (map Some (drop (chunkIndex st) (chunks st)), Inr (Some full),
                 st\<lparr>chunkIndex := length (chunks st)\<rparr>)"
  using pull_all_stream_out [where nxt = next_App and fin = fullResponse and st = st
      and fuel = fuel and envs = envs] assms
  by (simp add: next_App_fetched stream_out_App_eq)

lemma pull_all_part000_fetched:
  assumes "fullResponse st = Some full" "chunkIndex st \<le> length (chunks st)"
    "length (chunks st) - chunkIndex st < fuel"
  shows "pull_all fuel next_part000 envs st =
           Some (map Some (drop (chunkIndex st) (chunks st)), Inr (Some full),
                 st\<lparr>chunkIndex := length (chunks st)\<rparr>)"
  using pull_all_stream_out [where nxt = next_part000 and fin = fullResponse and st = st
      and fuel = fuel and envs = envs] assms
  by (simp add: next_part000_fetched stream_out_App_eq)

lemma pull_all_index_fetched:
  assumes "fullResponse st = Some full" "chunkIndex st \<le> length (chunks st)"
    "length (chunks st) - chunkIndex st < fuel"
  shows "pull_all fuel next_index envs st =
           Some (map Some (drop (chunkIndex st) (chunks st)), Inr None,
                 st\<lparr>chunkIndex := length (chunks st)\<rparr>)"
  using pull_all_stream_out [where nxt = next_index and fin = "\<lambda>_. None" and st = st
      and fuel = fuel and envs = envs] assms
  by (simp add: next_index_fetched stream_out_index_def)

lemma pull_all_first:
  "nxt (envs 0) st = nxt (envs 0) st' \<Longrightarrow> pull_all fuel nxt envs st = pull_all fuel nxt envs st'"
  by (cases fuel) simp_all

lemma fetchContent_index_Inr:
  "fetchContent_index outcome st = Inr st1 \<Longrightarrow>
     \<exists>status statusText data. outcome = Response True status statusText (Inr data)
       \<and> st1 = st\<lparr>fullResponse := Some (or_default (reply_text data) (lit ''No response received from AI.'')),
                  chunks := chunks_of (or_default (reply_text data) (lit ''No response received from AI.''))\<rparr>"
  by (auto simp: fetchContent_index_def Let_def split: fetch_outcome.splits if_splits sum.splits err_field.splits)

lemma fetch_reply_App_Inr:
  "fetch_reply_App outcome st = Inr st1 \<Longrightarrow>
     \<exists>status statusText data. outcome = Response True status statusText (Inr data)
       \<and> st1 = st\<lparr>fullResponse := Some (or_default (reply_text data) (lit ''No response received from AI.'')),
                  chunks := chunks_of (or_default (reply_text data) (lit ''No response received from AI.''))\<rparr>"
  by (auto simp: fetch_reply_App_def Let_def split: fetch_outcome.splits if_splits sum.splits err_field.splits)

lemma or_default_Some: "t \<noteq> [] \<Longrightarrow> or_default (Some t) d = t"
  by (simp add: or_default_def)

lemma chunks_of_alt: "filter (\<lambda>c. c \<noteq> []) (split_ws s) = chunks_of s"
  by (simp add: chunks_of_def)

lemma split_ws_pieces:
  "c \<in> set (split_ws s) \<Longrightarrow> (\<forall>x \<in> set c. isWhiteSpace x) \<or> (\<forall>x \<in> set c. \<not> isWhiteSpace x)"
proof (induction s arbitrary: c rule: split_ws.induct)
  case (1 s)
  let ?rest = "dropWhile (\<lambda>c. \<not> isWhiteSpace c) s"
  show ?case
  proof (cases "?rest = []")
    case True
    with "1.prems" have "c = takeWhile (\<lambda>c. \<not> isWhiteSpace c) s"
      by (simp add: split_ws_last)
    then show ?thesis by (auto dest: set_takeWhileD)
  next
    case False
    from "1.prems" have "c \<in> set (takeWhile (\<lambda>c. \<not> isWhiteSpace c) s
      # takeWhile isWhiteSpace ?rest # split_ws (dropWhile isWhiteSpace ?rest))"
      by (simp only: split_ws_more [OF False])
    then consider "c = takeWhile (\<lambda>c. \<not> isWhiteSpace c) s"
      | "c = takeWhile isWhiteSpace ?rest" | "c \<in> set (split_ws (dropWhile isWhiteSpace ?rest))"
      by auto
    then show ?thesis
    proof cases
      case 1 then show ?thesis by (auto dest: set_takeWhileD)
    next
      case 2 then show ?thesis by (auto dest: set_takeWhileD)
    next
      case 3 then show ?thesis using "1.IH" [OF refl refl False] by blast
    qed
  qed
qed

lemma chunks_of_pieces:
  "c \<in> set (chunks_of s) \<Longrightarrow>
     c \<noteq> [] \<and> ((\<forall>x \<in> set c. isWhiteSpace x) \<or> (\<forall>x \<in> set c. \<not> isWhiteSpace x))"
  using split_ws_pieces [of c s] by (auto simp: chunks_of_def)

text \<open>
  The fragments alternate: a whitespace fragment is followed by a fragment free of
  whitespace and the other way round, so each fragment is a whole run.
\<close>

lemma chunks_of_Nil: "chunks_of [] = []"
  by (simp add: chunks_of_def split_ws_last)

lemma chunks_of_space:
  assumes "s \<noteq> []" "isWhiteSpace (hd s)"
  shows "chunks_of s = takeWhile isWhiteSpace s # chunks_of (dropWhile isWhiteSpace s)"
proof -
  from assms obtain c cs where s: "s = c # cs" "isWhiteSpace c" by (cases s) auto
  have d: "dropWhile (\<lambda>c. \<not> isWhiteSpace c) s = s" "takeWhile (\<lambda>c. \<not> isWhiteSpace c) s = []"
    using s by simp_all
  have "split_ws s = [] # takeWhile isWhiteSpace s # split_ws (dropWhile isWhiteSpace s)"
    using split_ws_more [of s] assms(1) by (simp only: d) simp
  moreover have "takeWhile isWhiteSpace s \<noteq> []" using s by simp
  ultimately show ?thesis by (simp add: chunks_of_def)
qed

lemma chunks_of_word:
  assumes "s \<noteq> []" "\<not> isWhiteSpace (hd s)"
  shows "chunks_of s = takeWhile (\<lambda>c. \<not> isWhiteSpace c) s
                         # chunks_of (dropWhile (\<lambda>c. \<not> isWhiteSpace c) s)"
proof -
  let ?piece = "takeWhile (\<lambda>c. \<not> isWhiteSpace c) s"
  let ?rest = "dropWhile (\<lambda>c. \<not> isWhiteSpace c) s"
  from assms obtain c cs where s: "s = c # cs" "\<not> isWhiteSpace c" by (cases s) auto
  have p: "?piece \<noteq> []" using s by simp
  show ?thesis
  proof (cases "?rest = []")
    case True
    have "split_ws s = [?piece]" using True by (rule split_ws_last)
    then have "chunks_of s = [?piece]" using p by (simp add: chunks_of_def)
    moreover have "chunks_of ?rest = []" by (simp only: True chunks_of_Nil)
    ultimately show ?thesis by (simp only:)
  next
    case False
    then have "isWhiteSpace (hd ?rest)" by (metis hd_dropWhile)
    then have r: "chunks_of ?rest = takeWhile isWhiteSpace ?rest # chunks_of (dropWhile isWhiteSpace ?rest)"
      using False by (rule chunks_of_space [rotated])
    have "chunks_of s = ?piece # filter (\<lambda>c. length c > 0)
             (takeWhile isWhiteSpace ?rest # split_ws (dropWhile isWhiteSpace ?rest))"
      using p unfolding chunks_of_def by (simp only: split_ws_more [OF False]) simp
    also have "filter (\<lambda>c. length c > 0)
             (takeWhile isWhiteSpace ?rest # split_ws (dropWhile isWhiteSpace ?rest))
        = chunks_of ?rest"
      using r \<open>isWhiteSpace (hd ?rest)\<close> False
      by (cases ?rest) (simp_all add: chunks_of_def)
    finally show ?thesis .
  qed
qed

lemma chunks_of_first:
  assumes "s \<noteq> []"
  shows "chunks_of s \<noteq> [] \<and> hd (hd (chunks_of s)) = hd s"
proof (cases "isWhiteSpace (hd s)")
  case True
  from assms obtain c cs where s: "s = c # cs" by (cases s) auto
  show ?thesis using chunks_of_space [OF assms True] s True by simp
next
  case False
  from assms obtain c cs where s: "s = c # cs" by (cases s) auto
  show ?thesis using chunks_of_word [OF assms False] s False by simp
qed

lemma chunks_of_alternate:
  "Suc i < length (chunks_of s) \<Longrightarrow>
     isWhiteSpace (hd (chunks_of s ! i)) \<noteq> isWhiteSpace (hd (chunks_of s ! Suc i))"
proof (induction s arbitrary: i rule: length_induct)
  case (1 s)
  from "1.prems" have ne: "s \<noteq> []" by (auto simp: chunks_of_Nil)
  define P where "P = (if isWhiteSpace (hd s) then isWhiteSpace else (\<lambda>c. \<not> isWhiteSpace c))"
  have Phd: "P (hd s)" by (simp add: P_def)
  have unfold: "chunks_of s = takeWhile P s # chunks_of (dropWhile P s)"
    using chunks_of_space [OF ne] chunks_of_word [OF ne] by (simp add: P_def)
  have first: "hd (takeWhile P s) = hd s" using ne Phd by (cases s) auto
  have shorter: "length (dropWhile P s) < length s"
    using ne Phd by (cases s) (auto simp: length_dropWhile_le less_Suc_eq_le)
  show ?case
  proof (cases i)
    case 0
    with "1.prems" unfold have rne: "chunks_of (dropWhile P s) \<noteq> []" by auto
    have dne: "dropWhile P s \<noteq> []"
    proof
      assume e: "dropWhile P s = []"
      from rne show False unfolding e by (simp add: chunks_of_Nil)
    qed
    then have "\<not> P (hd (dropWhile P s))" by (metis hd_dropWhile)
    moreover have "hd (hd (chunks_of (dropWhile P s))) = hd (dropWhile P s)"
      using chunks_of_first [OF dne] by simp
    ultimately have "\<not> P (hd (chunks_of s ! Suc 0))"
      using unfold rne by (simp add: hd_conv_nth)
    moreover have "P (hd (chunks_of s ! 0))" using unfold first Phd by simp
    ultimately show ?thesis using 0 by (auto simp: P_def split: if_splits)
  next
    case (Suc j)
    with "1.prems" unfold have "Suc j < length (chunks_of (dropWhile P s))" by simp
    then have "isWhiteSpace (hd (chunks_of (dropWhile P s) ! j))
                 \<noteq> isWhiteSpace (hd (chunks_of (dropWhile P s) ! Suc j))"
      using "1.IH" shorter by blast
    then show ?thesis using Suc unfold by simp
  qed
qed

lemma next_App_first:
  assumes "outcome = Response True status statusText (Inr data)" "fullResponse st = None"
    "full = or_default (reply_text data) (lit ''No response received from AI.'')"
  shows "next_App outcome st =
           stream_out_App (log_requests 1 (st\<lparr>fullResponse := Some full, chunks := chunks_of full\<rparr>))"
  using assms by (simp add: next_App_def fetch_reply_App_def Let_def)

lemma next_part000_first:
  assumes "outcome = Response ok status statusText (Inr data)" "fullResponse st = None"
    "full = or_default (reply_text data) [0x2026]"
  shows "next_part000 outcome st =
           stream_out_App (log_requests 1 (st\<lparr>fullResponse := Some full, chunks := chunks_of full\<rparr>))"
  using assms by (simp add: next_part000_def fetch_reply_part000_def Let_def chunks_of_alt)

lemma backoff_fetch_success:
  assumes "\<forall>j<k. \<exists>e. fetchContent_index (net j) st = Inl e \<and> retryable_signature e"
    and "k < 5" and "net k = Response True status statusText (Inr data)"
    and "full = or_default (reply_text data) (lit ''No response received from AI.'')"
  shows "withExponentialBackoff (\<lambda>k. fetchContent_index (net k) st) 5 rnd =
           (Returned (st\<lparr>fullResponse := Some full, chunks := chunks_of full\<rparr>),
            map (backoff_delay rnd) [0..<k])"
proof -
  let ?fn = "\<lambda>k. fetchContent_index (net k) st"
  have pre: "\<forall>j. 0 \<le> j \<and> j < k \<longrightarrow> (\<exists>e. ?fn j = Inl e \<and> retryable_signature e)"
    using assms(1) by simp
  have k: "int k < 5" using assms(2) by simp
  have "?fn k = Inr (st\<lparr>fullResponse := Some full, chunks := chunks_of full\<rparr>)"
    using assms(3,4) by (simp add: fetchContent_index_def Let_def)
  then have "backoff_loop ?fn 5 rnd k =
      (Returned (st\<lparr>fullResponse := Some full, chunks := chunks_of full\<rparr>), [])"
    using k by (simp add: backoff_loop_success)
  then show ?thesis
    using backoff_loop_retry_prefix [OF pre k, of rnd] by (simp add: withExponentialBackoff_def)
qed

lemma next_index_first:
  assumes "\<forall>j<k. \<exists>e. fetchContent_index (net j) st = Inl e \<and> retryable_signature e"
    and "k < 5" and "net k = Response True status statusText (Inr data)"
    and "full = or_default (reply_text data) (lit ''No response received from AI.'')"
    and "fullResponse st = None"
  shows "next_index (net, rnd) st =
           stream_out_index
             (log_requests (k + 1) (st\<lparr>fullResponse := Some full, chunks := chunks_of full\<rparr>))"
  using backoff_fetch_success [OF assms(1-4), of rnd] assms(5)
  by (simp add: next_index_def)

lemma pull_all_App_run:
  assumes "outcome = Response True status statusText (Inr data)"
    "full = or_default (reply_text data) (lit ''No response received from AI.'')"
    "envs 0 = outcome" "length (chunks_of full) < fuel"
  shows "pull_all fuel next_App envs (askAIStream_App inputText history) =
           Some (map Some (chunks_of full), Inr (Some full),
                 (log_requests 1 (askAIStream_App inputText history
                    \<lparr>fullResponse := Some full, chunks := chunks_of full\<rparr>))
                   \<lparr>chunkIndex := length (chunks_of full)\<rparr>)"
proof -
  let ?st0 = "askAIStream_App inputText history"
  let ?st1 = "log_requests 1 (?st0\<lparr>fullResponse := Some full, chunks := chunks_of full\<rparr>)"
  have f1: "fullResponse ?st1 = Some full" "chunks ?st1 = chunks_of full" "chunkIndex ?st1 = 0"
    by (simp_all add: log_requests_def askAIStream_App_def)
  have "next_App (envs 0) ?st0 = stream_out_App ?st1"
    using next_App_first [OF assms(1) _ assms(2), of ?st0] assms(3)
    by (simp add: askAIStream_App_def)
  also have "\<dots> = next_App (envs 0) ?st1"
    using f1 by (simp add: next_App_fetched)
  finally have "pull_all fuel next_App envs ?st0 = pull_all fuel next_App envs ?st1"
    by (rule pull_all_first)
  also have "\<dots> = Some (map Some (drop (chunkIndex ?st1) (chunks ?st1)), Inr (Some full),
                 ?st1\<lparr>chunkIndex := length (chunks ?st1)\<rparr>)"
    by (rule pull_all_App_fetched) (use f1 assms(4) in simp_all)
  finally show ?thesis using f1 by simp
qed

lemma pull_all_part000_run:
  assumes "outcome = Response ok status statusText (Inr data)"
    "full = or_default (reply_text data) [0x2026]"
    "envs 0 = outcome" "length (chunks_of full) < fuel"
  shows "pull_all fuel next_part000 envs (askAIStream_part000 userText history) =
           Some (map Some (chunks_of full), Inr (Some full),
                 (log_requests 1 (askAIStream_part000 userText history
                    \<lparr>fullResponse := Some full, chunks := chunks_of full\<rparr>))
                   \<lparr>chunkIndex := length (chunks_of full)\<rparr>)"
proof -
  let ?st0 = "askAIStream_part000 userText history"
  let ?st1 = "log_requests 1 (?st0\<lparr>fullResponse := Some full, chunks := chunks_of full\<rparr>)"
  have f1: "fullResponse ?st1 = Some full" "chunks ?st1 = chunks_of full" "chunkIndex ?st1 = 0"
    by (simp_all add: log_requests_def askAIStream_part000_def)
  have "next_part000 (envs 0) ?st0 = stream_out_App ?st1"
    using next_part000_first [OF assms(1) _ assms(2), of ?st0] assms(3)
    by (simp add: askAIStream_part000_def)
  also have "\<dots> = next_part000 (envs 0) ?st1"
    using f1 by (simp add: next_part000_fetched)
  finally have "pull_all fuel next_part000 envs ?st0 = pull_all fuel next_part000 envs ?st1"
    by (rule pull_all_first)
  also have "\<dots> = Some (map Some (drop (chunkIndex ?st1) (chunks ?st1)), Inr (Some full),
                 ?st1\<lparr>chunkIndex := length (chunks ?st1)\<rparr>)"
    by (rule pull_all_part000_fetched) (use f1 assms(4) in simp_all)
  finally show ?thesis using f1 by simp
qed

lemma pull_all_index_run:
  assumes "\<forall>j<k. \<exists>e. fetchContent_index (net j) (askAIStream_index chatHistory) = Inl e
              \<and> retryable_signature e"
    and "k < 5" and "net k = Response True status statusText (Inr data)"
    and "full = or_default (reply_text data) (lit ''No response received from AI.'')"
    and "envs 0 = (net, rnd)" and "length (chunks_of full) < fuel"
  shows "pull_all fuel next_index envs (askAIStream_index chatHistory) =
           Some (map Some (chunks_of full), Inr None,
                 (log_requests (k + 1) (askAIStream_index chatHistory
                    \<lparr>fullResponse := Some full, chunks := chunks_of full\<rparr>))
                   \<lparr>chunkIndex := length (chunks_of full)\<rparr>)"
proof -
  let ?st0 = "askAIStream_index chatHistory"
  let ?st1 = "log_requests (k + 1) (?st0\<lparr>fullResponse := Some full, chunks := chunks_of full\<rparr>)"
  have f1: "fullResponse ?st1 = Some full" "chunks ?st1 = chunks_of full" "chunkIndex ?st1 = 0"
    by (simp_all add: log_requests_def askAIStream_index_def)
  have "next_index (envs 0) ?st0 = stream_out_index ?st1"
    using next_index_first [OF assms(1-4), of rnd] assms(5)
    by (simp add: askAIStream_index_def)
  also have "\<dots> = next_index (envs 0) ?st1"
    using f1 by (simp add: next_index_fetched)
  finally have "pull_all fuel next_index envs ?st0 = pull_all fuel next_index envs ?st1"
    by (rule pull_all_first)
  also have "\<dots> = Some (map Some (drop (chunkIndex ?st1) (chunks ?st1)), Inr None,
                 ?st1\<lparr>chunkIndex := length (chunks ?st1)\<rparr>)"
    by (rule pull_all_index_fetched) (use f1 assms(6) in simp_all)
  finally show ?thesis using f1 by simp
qed

lemma foldl_append_value:
  "foldl append_value acc (map Some frags) = acc @ concat frags"
  by (induction frags arbitrary: acc) (simp_all add: append_value_def)

lemma show_nat_503: "show_nat 503 = lit ''503''"
  by (simp add: show_nat.simps lit_def)

lemma show_nat_400: "show_nat 400 = lit ''400''"
  by (simp add: show_nat.simps lit_def)

lemma exhausted_App:
  "fullResponse st = Some full \<Longrightarrow> length (chunks st) \<le> chunkIndex st \<Longrightarrow>
     next_App outcome st = (Inr (IterResult (Some full) True), st)"
  by (simp add: next_App_fetched stream_out_App_def)

lemma exhausted_part000:
  "fullResponse st = Some full \<Longrightarrow> length (chunks st) \<le> chunkIndex st \<Longrightarrow>
     next_part000 outcome st = (Inr (IterResult (Some full) True), st)"
  by (simp add: next_part000_fetched stream_out_App_def)

lemma exhausted_index:
  "fullResponse st = Some full \<Longrightarrow> length (chunks st) \<le> chunkIndex st \<Longrightarrow>
     next_index env st = (Inr (IterResult None True), st)"
  by (simp add: next_index_fetched stream_out_index_def)

lemma chunks_of_Hi_there:
  "chunks_of (lit ''Hi there!'') = [lit ''Hi'', lit '' '', lit ''there!'']"
  by (simp add: chunks_of_def lit_def split_ws.simps isWhiteSpace_def)

lemma stream_out_index_Inr: "\<exists>r. fst (stream_out_index st) = Inr r"
  by (simp add: stream_out_index_def)

lemma stream_out_App_Inr: "\<exists>r. fst (stream_out_App st) = Inr r"
  by (simp add: stream_out_App_def)

lemma next_index_never_throws: "\<exists>r. fst (next_index env st) = Inr r"
  by (auto simp: next_index_def stream_out_index_Inr split: option.splits prod.splits completion.splits)

lemma next_App_never_throws: "\<exists>r. fst (next_App outcome st) = Inr r"
  by (auto simp: next_App_def stream_out_App_Inr split: option.splits sum.splits)

lemma stream_out_index_full: "fullResponse (snd (stream_out_index st)) = fullResponse st"
  by (simp add: stream_out_index_def)

lemma stream_out_App_full: "fullResponse (snd (stream_out_App st)) = fullResponse st"
  by (simp add: stream_out_App_def)

section \<open>Properties: stores and listeners\<close>

lemma messages_listener_sorted:
  "sorted (map timestamp (messages (messages_listener_index clock snapshot ui)))"
  by (simp add: messages_listener_index_def Let_def)

lemma messages_listener_length:
  "length (messages (messages_listener_index clock snapshot ui)) = length snapshot"
  by (simp add: messages_listener_index_def Let_def)

lemma map_fetched_id:
  "map msg_id (map (\<lambda>(i, d). fetched_message (clock i) d) (enumerate n snapshot)) = map m_id snapshot"
  by (induction snapshot arbitrary: n) (simp_all add: fetched_message_def)

lemma messages_listener_ids:
  "mset (map msg_id (messages (messages_listener_index clock snapshot ui))) = mset (map m_id snapshot)"
proof -
  let ?xs = "map (\<lambda>(i, d). fetched_message (clock i) d) (enumerate 0 snapshot)"
  have "mset (map msg_id (sort_key timestamp ?xs)) = image_mset msg_id (mset (sort_key timestamp ?xs))"
    by (rule mset_map)
  also have "\<dots> = image_mset msg_id (mset ?xs)" by (simp only: mset_sort)
  also have "\<dots> = mset (map msg_id ?xs)" by (rule mset_map [symmetric])
  also have "\<dots> = mset (map m_id snapshot)" by (simp only: map_fetched_id)
  finally show ?thesis
    by (simp add: messages_listener_index_def Let_def del: mset_map map_map)
qed

lemma messages_query_length: "length (messages_query fs sid) \<le> 100"
  by (simp add: messages_query_def)

lemma messages_query_session: "d \<in> set (messages_query fs sid) \<Longrightarrow> m_sessionId d = sid"
  by (auto simp: messages_query_def messages_where_def dest: in_set_takeD)

lemma select_messages_sorted: "sorted (map row_timestamp (select_messages sq chatId))"
  by (simp add: select_messages_def)

lemma select_messages_mset:
  "mset (select_messages sq chatId) = mset (filter (\<lambda>r. msg_chat_id r = chatId) (message_rows sq))"
  by (simp add: select_messages_def)

lemma select_messages_length:
  "length (select_messages sq chatId) = length (filter (\<lambda>r. msg_chat_id r = chatId) (message_rows sq))"
  by (simp add: select_messages_def)

lemma commit_delete_messages:
  "foldl (\<lambda>fs' op. apply_op op fs') fs (map DeleteMessage ids)
     = fs\<lparr>messages_coll := filter (\<lambda>d. m_id d \<notin> set ids) (messages_coll fs)\<rparr>"
proof (induction ids arbitrary: fs)
  case Nil
  then show ?case by simp
next
  case (Cons a ids)
  have "filter (\<lambda>d. m_id d \<notin> set ids) (filter (\<lambda>d. m_id d \<noteq> a) (messages_coll fs))
        = filter (\<lambda>d. m_id d \<notin> set (a # ids)) (messages_coll fs)"
    by (induction "messages_coll fs") auto
  then show ?case by (simp add: Cons.IH)
qed

lemma commit_batch:
  "commit (map DeleteMessage ids @ [DeleteSession sid]) fs
     = fs\<lparr>messages_coll := filter (\<lambda>d. m_id d \<notin> set ids) (messages_coll fs),
           sessions_coll := filter (\<lambda>d. s_id d \<noteq> sid) (sessions_coll fs)\<rparr>"
  by (simp add: commit_def commit_delete_messages)

lemma commit_snapshot_batch:
  "commit (map (\<lambda>msgDoc. DeleteMessage (m_id msgDoc)) snapshot @ [DeleteSession sid]) fs
     = fs\<lparr>messages_coll := filter (\<lambda>d. m_id d \<notin> m_id ` set snapshot) (messages_coll fs),
           sessions_coll := filter (\<lambda>d. s_id d \<noteq> sid) (sessions_coll fs)\<rparr>"
  using commit_batch [of "map m_id snapshot" sid fs] by (simp add: comp_def)

lemma filter_ids_of_session:
  "\<forall>d \<in> set (filter (\<lambda>d. m_id d \<notin> m_id ` set (messages_where fs sid)) (messages_coll fs)).
      m_sessionId d \<noteq> sid"
  by (auto simp: messages_where_def)

lemma filter_ids_distinct:
  assumes "distinct (map m_id ms)"
  shows "filter (\<lambda>d. m_id d \<notin> m_id ` set (filter (\<lambda>d. m_sessionId d = sid) ms)) ms
         = filter (\<lambda>d. m_sessionId d \<noteq> sid) ms"
proof (rule filter_cong [OF refl])
  fix d assume d: "d \<in> set ms"
  have "m_id d \<in> m_id ` set (filter (\<lambda>d. m_sessionId d = sid) ms) \<longleftrightarrow> m_sessionId d = sid"
  proof
    assume "m_id d \<in> m_id ` set (filter (\<lambda>d. m_sessionId d = sid) ms)"
    then obtain d' where d': "d' \<in> set ms" "m_sessionId d' = sid" "m_id d' = m_id d" by auto
    with assms d have "d' = d" by (meson distinct_map inj_onD)
    with d' show "m_sessionId d = sid" by simp
  next
    assume "m_sessionId d = sid"
    with d show "m_id d \<in> m_id ` set (filter (\<lambda>d. m_sessionId d = sid) ms)" by auto
  qed
  then show "(m_id d \<notin> m_id ` set (filter (\<lambda>d. m_sessionId d = sid) ms)) = (m_sessionId d \<noteq> sid)"
    by simp
qed

lemma getDocs_backoff:
  assumes "\<forall>j<k. \<exists>e. getDocs j = Some e \<and> retryable_signature e"
    and "k < 5" and "getDocs k = None"
  shows "withExponentialBackoff
           (\<lambda>k. case getDocs k of Some e \<Rightarrow> Inl e | None \<Rightarrow> Inr snapshot) 5 rnd
         = (Returned snapshot, map (backoff_delay rnd) [0..<k])"
proof -
  let ?fn = "\<lambda>k. case getDocs k of Some e \<Rightarrow> Inl e | None \<Rightarrow> Inr snapshot"
  have pre: "\<forall>j. 0 \<le> j \<and> j < k \<longrightarrow> (\<exists>e. ?fn j = Inl e \<and> retryable_signature e)"
    using assms(1) by auto
  have k: "int k < 5" using assms(2) by simp
  have "backoff_loop ?fn 5 rnd k = (Returned snapshot, [])"
    using k assms(3) by (simp add: backoff_loop_success)
  then show ?thesis
    using backoff_loop_retry_prefix [OF pre k, of rnd] by (simp add: withExponentialBackoff_def)
qed

lemma deleteSession_index_success:
  assumes "db ui" "truthy (userId ui)"
    and "\<forall>j<k. \<exists>e. getDocs j = Some e \<and> retryable_signature e" "k < 5" "getDocs k = None"
  shows "snd (deleteSession_index getDocs rnd None sid (ui, fs))
           = fs\<lparr>messages_coll :=
                   filter (\<lambda>d. m_id d \<notin> m_id ` set (messages_where fs sid)) (messages_coll fs),
                 sessions_coll := filter (\<lambda>d. s_id d \<noteq> sid) (sessions_coll fs)\<rparr>"
    and "error (fst (deleteSession_index getDocs rnd None sid (ui, fs))) = error ui"
  using assms(1,2) getDocs_backoff [OF assms(3-5), of "messages_where fs sid" rnd]
  by (simp_all add: deleteSession_index_def Let_def commit_snapshot_batch)

lemma deleteSession_index_commit_fails:
  assumes "db ui" "truthy (userId ui)"
    and "\<forall>j<k. \<exists>e. getDocs j = Some e \<and> retryable_signature e" "k < 5" "getDocs k = None"
  shows "deleteSession_index getDocs rnd (Some e) sid (ui, fs)
           = (ui\<lparr>error := Some (lit ''Could not delete session: '' @ message e)\<rparr>, fs)"
  using assms(1,2) getDocs_backoff [OF assms(3-5), of "messages_where fs sid" rnd]
  by (simp add: deleteSession_index_def Let_def)

lemma delete_absent_unchanged:
  assumes "sid \<notin> s_id ` set (sessions_coll fs)" "messages_where fs sid = []"
  shows "fs\<lparr>messages_coll :=
                   filter (\<lambda>d. m_id d \<notin> m_id ` set (messages_where fs sid)) (messages_coll fs),
                 sessions_coll := filter (\<lambda>d. s_id d \<noteq> sid) (sessions_coll fs)\<rparr> = fs"
proof -
  have "filter (\<lambda>d. s_id d \<noteq> sid) (sessions_coll fs) = sessions_coll fs"
    using assms(1) by (auto simp: filter_id_conv)
  then show ?thesis using assms(2) by simp
qed

lemma delete_chat_exists:
  assumes "chatId \<in> chat_id ` set (chats sq)"
  shows "delete_chat None sq chatId
           = ((200, MessageBody (lit ''Chat deleted successfully'')),
              sq\<lparr>chats := filter (\<lambda>r. chat_id r \<noteq> chatId) (chats sq)\<rparr>)"
proof -
  from assms have "filter (\<lambda>r. chat_id r = chatId) (chats sq) \<noteq> []"
    by (auto simp: filter_empty_conv)
  then have pos: "length (filter (\<lambda>r. chat_id r = chatId) (chats sq)) \<noteq> 0" by simp
  show ?thesis using pos by (simp add: delete_chat_def Let_def)
qed

lemma delete_chat_absent:
  assumes "chatId \<notin> chat_id ` set (chats sq)"
  shows "delete_chat None sq chatId = ((404, MessageBody (lit ''Chat not found'')), sq)"
proof -
  from assms have e: "filter (\<lambda>r. chat_id r = chatId) (chats sq) = []"
    by (auto simp: filter_empty_conv)
  from assms have k: "filter (\<lambda>r. chat_id r \<noteq> chatId) (chats sq) = chats sq"
    by (auto simp: filter_id_conv)
  show ?thesis by (simp add: delete_chat_def Let_def e k)
qed

section \<open>Properties: \<open>handleSend\<close>\<close>

lemma backoff_loop_not_undefined:
  "int a < maxRetries \<Longrightarrow> fst (backoff_loop fn maxRetries rnd a) \<noteq> ReturnedUndefined"
proof (induction fn maxRetries rnd a rule: backoff_loop.induct)
  case (1 fn maxRetries rnd attempt)
  show ?case
  proof (cases "fn attempt")
    case (Inr v)
    then show ?thesis using "1.prems" by (simp add: backoff_loop_success)
  next
    case (Inl e)
    show ?thesis
    proof (cases "int attempt = maxRetries - 1 \<or> \<not> retryable_signature e")
      case True
      then show ?thesis
        using backoff_loop_failure [of attempt maxRetries fn e rnd] "1.prems" Inl by auto
    next
      case False
      then have "int (attempt + 1) < maxRetries" using "1.prems" by auto
      then have "fst (backoff_loop fn maxRetries rnd (attempt + 1)) \<noteq> ReturnedUndefined"
        using "1.IH" [OF "1.prems" Inl False refl] by simp
      then show ?thesis
        using backoff_loop_failure [of attempt maxRetries fn e rnd] "1.prems" Inl False by auto
    qed
  qed
qed

lemma backoff_5_cases:
  obtains (returned) v ds where "withExponentialBackoff fn 5 rnd = (Returned v, ds)"
    "fn (length ds) = Inr v"
  | (thrown) e ds where "withExponentialBackoff fn 5 rnd = (Thrown e, ds)"
proof (cases "withExponentialBackoff fn 5 rnd")
  case (Pair r ds)
  show ?thesis
  proof (cases r)
    case (Returned v)
    have "fn (0 + length ds) = Inr v"
      using Pair Returned unfolding withExponentialBackoff_def by (intro backoff_loop_Returned) simp
    then show ?thesis using returned Pair Returned by simp
  next
    case ReturnedUndefined
    then show ?thesis
      using backoff_loop_not_undefined [of 0 5 fn rnd] Pair
      by (simp add: withExponentialBackoff_def)
  next
    case (Thrown e)
    then show ?thesis using thrown Pair by simp
  qed
qed

lemma stream_out_index_fields:
  "requests (snd (stream_out_index st)) = requests st"
  "contents (snd (stream_out_index st)) = contents st"
  by (simp_all add: stream_out_index_def)

lemma stream_out_App_fields:
  "requests (snd (stream_out_App st)) = requests st"
  "contents (snd (stream_out_App st)) = contents st"
  by (simp_all add: stream_out_App_def)

lemma next_index_log:
  "\<exists>n. requests (snd (next_index env st)) = requests st @ replicate n (contents st)
       \<and> contents (snd (next_index env st)) = contents st
       \<and> (fullResponse st = None \<longrightarrow> 0 < n)"
proof (cases "fullResponse st")
  case (Some a)
  then have "requests (snd (next_index env st)) = requests st @ replicate 0 (contents st)"
    "contents (snd (next_index env st)) = contents st"
    by (simp_all add: next_index_fetched stream_out_index_fields)
  then show ?thesis using Some by (intro exI [of _ 0]) simp
next
  case None
  show ?thesis
  proof (cases rule: backoff_5_cases [of "\<lambda>k. fetchContent_index (fst env k) st" "snd env"])
    case (returned v ds)
    from returned(2) obtain full where v: "v = st\<lparr>fullResponse := Some full, chunks := chunks_of full\<rparr>"
      by (auto dest: fetchContent_index_Inr)
    have "next_index env st = stream_out_index (log_requests (length ds + 1) v)"
      using None returned(1) by (simp add: next_index_def)
    then have "requests (snd (next_index env st)) = requests st @ replicate (length ds + 1) (contents st)"
      "contents (snd (next_index env st)) = contents st"
      by (simp_all add: stream_out_index_fields log_requests_def v)
    then show ?thesis by (intro exI [of _ "length ds + 1"]) simp
  next
    case (thrown e ds)
    have "snd (next_index env st) = log_requests (length ds + 1) st"
      using None thrown by (simp add: next_index_def)
    then have "requests (snd (next_index env st)) = requests st @ replicate (length ds + 1) (contents st)"
      "contents (snd (next_index env st)) = contents st"
      by (simp_all add: log_requests_def)
    then show ?thesis by (intro exI [of _ "length ds + 1"]) simp
  qed
qed

lemma next_App_log:
  "\<exists>n. requests (snd (next_App outcome st)) = requests st @ replicate n (contents st)
       \<and> contents (snd (next_App outcome st)) = contents st
       \<and> (fullResponse st = None \<longrightarrow> 0 < n)"
proof (cases "fullResponse st")
  case (Some a)
  then have "requests (snd (next_App outcome st)) = requests st @ replicate 0 (contents st)"
    "contents (snd (next_App outcome st)) = contents st"
    by (simp_all add: next_App_fetched stream_out_App_fields)
  then show ?thesis using Some by (intro exI [of _ 0]) simp
next
  case None
  show ?thesis
  proof (cases "fetch_reply_App outcome st")
    case (Inr v)
    then obtain full where v: "v = st\<lparr>fullResponse := Some full, chunks := chunks_of full\<rparr>"
      by (auto dest: fetch_reply_App_Inr)
    have "next_App outcome st = stream_out_App (log_requests 1 v)"
      using None Inr by (simp add: next_App_def)
    then have "requests (snd (next_App outcome st)) = requests st @ replicate 1 (contents st)"
      "contents (snd (next_App outcome st)) = contents st"
      by (simp_all add: stream_out_App_fields log_requests_def v)
    then show ?thesis by (intro exI [of _ 1]) simp
  next
    case (Inl e)
    have "snd (next_App outcome st) = log_requests 1 st"
      using None Inl by (simp add: next_App_def)
    then have "requests (snd (next_App outcome st)) = requests st @ replicate 1 (contents st)"
      "contents (snd (next_App outcome st)) = contents st"
      by (simp_all add: log_requests_def)
    then show ?thesis by (intro exI [of _ 1]) simp
  qed
qed

lemma pull_all_log:
  assumes step: "\<And>env st. \<exists>n. requests (snd (nxt env st)) = requests st @ replicate n (contents st)
       \<and> contents (snd (nxt env st)) = contents st
       \<and> (fullResponse st = None \<longrightarrow> 0 < n)"
  shows "pull_all fuel nxt envs st = Some (vs, ending, st') \<Longrightarrow>
         \<exists>n. requests st' = requests st @ replicate n (contents st)
             \<and> (fullResponse st = None \<longrightarrow> 0 < n)"
proof (induction fuel arbitrary: envs st vs)
  case 0
  then show ?case by simp
next
  case (Suc fuel)
  obtain res st1 where n1: "nxt (envs 0) st = (res, st1)" by (cases "nxt (envs 0) st")
  from step [of "envs 0" st] n1 obtain n where
    n: "requests st1 = requests st @ replicate n (contents st)" "contents st1 = contents st"
      "fullResponse st = None \<longrightarrow> 0 < n"
    by (elim exE conjE) simp
  show ?case
  proof (cases res)
    case (Inl e)
    with Suc.prems n1 have "st' = st1" by simp
    then show ?thesis using n by (intro exI [of _ n]) simp
  next
    case (Inr r)
    show ?thesis
    proof (cases "result_done r")
      case True
      with Suc.prems n1 Inr have "st' = st1" by simp
      then show ?thesis using n by (intro exI [of _ n]) simp
    next
      case False
      with Suc.prems n1 Inr obtain vs' where
        "pull_all fuel nxt (\<lambda>j. envs (Suc j)) st1 = Some (vs', ending, st')"
        by (auto split: option.splits)
      from Suc.IH [OF this] obtain m where
        "requests st' = requests st1 @ replicate m (contents st1)" by (elim exE conjE)
      then have "requests st' = requests st @ replicate (n + m) (contents st)"
        using n by (simp add: replicate_add)
      then show ?thesis using n(3) by (intro exI [of _ "n + m"]) simp
    qed
  qed
qed

lemma pull_all_requests:
  assumes step: "\<And>env st. \<exists>n. requests (snd (nxt env st)) = requests st @ replicate n (contents st)
       \<and> contents (snd (nxt env st)) = contents st
       \<and> (fullResponse st = None \<longrightarrow> 0 < n)"
    and "pull_all fuel nxt envs st = Some (vs, ending, st')"
    and "requests st = []" "fullResponse st = None"
  shows "set (requests st') = {contents st}"
proof -
  from pull_all_log [of nxt, OF step assms(2)] assms(3,4)
  obtain n where "requests st' = replicate n (contents st)" "0 < n"
    by (elim exE conjE) simp
  then show ?thesis by (cases n) auto
qed

lemma pull_all_index_total:
  "\<exists>N. \<forall>fuel>N. \<exists>vs ending st'.
      pull_all fuel next_index envs (askAIStream_index h) = Some (vs, ending, st')"
proof (cases rule: backoff_5_cases
    [of "\<lambda>k. fetchContent_index (fst (envs 0) k) (askAIStream_index h)" "snd (envs 0)"])
  case (returned v ds)
  let ?st0 = "askAIStream_index h"
  from returned(2) obtain full where
    v: "v = ?st0\<lparr>fullResponse := Some full, chunks := chunks_of full\<rparr>"
    by (auto dest: fetchContent_index_Inr)
  let ?st1 = "log_requests (length ds + 1) v"
  have f1: "fullResponse ?st1 = Some full" "chunks ?st1 = chunks_of full" "chunkIndex ?st1 = 0"
    by (simp_all add: log_requests_def v askAIStream_index_def)
  have "next_index (envs 0) ?st0 = stream_out_index ?st1"
    using returned(1) by (simp add: next_index_def askAIStream_index_def)
  also have "\<dots> = next_index (envs 0) ?st1"
    using f1 by (simp add: next_index_fetched)
  finally have eq: "pull_all fuel next_index envs ?st0 = pull_all fuel next_index envs ?st1" for fuel
    by (rule pull_all_first)
  have "\<exists>vs ending st'. pull_all fuel next_index envs ?st0 = Some (vs, ending, st')"
    if "length (chunks_of full) < fuel" for fuel
    using pull_all_index_fetched [of ?st1 full fuel envs] f1 that by (simp add: eq)
  then show ?thesis by (intro exI [of _ "length (chunks_of full)"]) simp
next
  case (thrown e ds)
  have n: "next_index (envs 0) (askAIStream_index h) =
      (Inr (IterResult (Some (lit ''ERROR: Failed to connect to AI. Details: '' @ message e)) True),
       log_requests (length ds + 1) (askAIStream_index h))"
    using thrown by (simp add: next_index_def askAIStream_index_def)
  have "\<exists>vs ending st'. pull_all fuel next_index envs (askAIStream_index h) = Some (vs, ending, st')"
    if "0 < fuel" for fuel
  proof -
    from that obtain f where "fuel = Suc f" by (cases fuel) auto
    then show ?thesis using n by simp
  qed
  then show ?thesis by (intro exI [of _ 0]) simp
qed

lemma pull_all_App_total:
  "\<exists>N. \<forall>fuel>N. \<exists>vs ending st'.
      pull_all fuel next_App envs (askAIStream_App t h) = Some (vs, ending, st')"
proof (cases "fetch_reply_App (envs 0) (askAIStream_App t h)")
  case (Inr v)
  let ?st0 = "askAIStream_App t h"
  from Inr obtain full where
    v: "v = ?st0\<lparr>fullResponse := Some full, chunks := chunks_of full\<rparr>"
    by (auto dest: fetch_reply_App_Inr)
  let ?st1 = "log_requests 1 v"
  have f1: "fullResponse ?st1 = Some full" "chunks ?st1 = chunks_of full" "chunkIndex ?st1 = 0"
    by (simp_all add: log_requests_def v askAIStream_App_def)
  have "next_App (envs 0) ?st0 = stream_out_App ?st1"
    using Inr by (simp add: next_App_def askAIStream_App_def)
  also have "\<dots> = next_App (envs 0) ?st1"
    using f1 by (simp add: next_App_fetched)
  finally have eq: "pull_all fuel next_App envs ?st0 = pull_all fuel next_App envs ?st1" for fuel
    by (rule pull_all_first)
  have "\<exists>vs ending st'. pull_all fuel next_App envs ?st0 = Some (vs, ending, st')"
    if "length (chunks_of full) < fuel" for fuel
    using pull_all_App_fetched [of ?st1 full fuel envs] f1 that by (simp add: eq)
  then show ?thesis by (intro exI [of _ "length (chunks_of full)"]) simp
next
  case (Inl e)
  have n: "next_App (envs 0) (askAIStream_App t h) =
      (Inr (IterResult (Some (lit ''ERROR: Failed to connect to AI. Details: '' @ message e)) True),
       log_requests 1 (askAIStream_App t h))"
    using Inl by (simp add: next_App_def askAIStream_App_def)
  have "\<exists>vs ending st'. pull_all fuel next_App envs (askAIStream_App t h) = Some (vs, ending, st')"
    if "0 < fuel" for fuel
  proof -
    from that obtain f where "fuel = Suc f" by (cases fuel) auto
    then show ?thesis using n by simp
  qed
  then show ?thesis by (intro exI [of _ 0]) simp
qed

lemma saveMessage_index_Inr:
  "saveMessage_index ui addDoc s t sid = Inr w \<Longrightarrow> w = Persisted s t sid"
  by (auto simp: saveMessage_index_def split: if_splits option.splits)

lemma cleanup_index_effects: "fst (snd (cleanup_index b ui eff)) = eff"
  by (simp add: cleanup_index_def)

lemma catch_index_effects:
  "\<exists>extra. fst (snd (catch_index ui0 env b ui eff e)) = eff @ extra \<and> (\<forall>c. Request c \<notin> set extra)"
proof (cases "saveMessage_index ui0 (save_marker env) (lit ''bot'')
         (lit ''ERROR: Failed to get response from AI. Details: '' @ message e) (currentSessionId ui0)")
  case (Inl e')
  then have "fst (snd (catch_index ui0 env b ui eff e)) = eff @ []"
    by (simp add: catch_index_def Let_def)
  then show ?thesis by (intro exI [of _ "[]"]) simp
next
  case (Inr w)
  then have "fst (snd (catch_index ui0 env b ui eff e)) = eff @ [w]"
    by (simp add: catch_index_def Let_def cleanup_index_def)
  moreover have "\<forall>c. Request c \<noteq> w" using saveMessage_index_Inr [OF Inr] by simp
  ultimately show ?thesis by (intro exI [of _ "[w]"]) simp
qed

lemma handleSend_index_effects:
  assumes guard: "trim (input ui) \<noteq> []" "\<not> isTyping ui" "truthy (userId ui)"
      "truthy (currentSessionId ui)"
    and save: "saveMessage_index ui (save_user env) (lit ''user'') (input ui)
                 (currentSessionId ui) = Inr w"
    and pull: "pull_all fuel next_index (pulls env)
                 (askAIStream_index (chatHistoryForAPI (messages ui) (input ui)))
               = Some (vs, ending, st)"
  shows "\<exists>ui' extra r.
           handleSend_index fuel env ui = Some (ui', (w # map Request (requests st)) @ extra, r)
           \<and> (\<forall>c. Request c \<notin> set extra)"
proof -
  let ?b = "uuid env"
  let ?ui1 = "ui\<lparr>input := [], isTyping := True, error := None\<rparr>"
  let ?ui2 = "?ui1\<lparr>messages := messages ?ui1 @
                 [\<lparr>msg_id = ?b, sender = lit ''bot'', msg_text = [], timestamp = date env\<rparr>]\<rparr>"
  let ?body = "stream_body (set_last_text ?b) vs ([], messages ?ui2)"
  let ?ui3 = "?ui2\<lparr>messages := snd ?body\<rparr>"
  let ?eff = "w # map Request (requests st)"
  have shape: "(\<exists>e. handleSend_index fuel env ui = Some (catch_index ui env ?b ?ui3 ?eff e))
     \<or> (\<exists>w' e. handleSend_index fuel env ui = Some (catch_index ui env ?b ?ui3 (?eff @ [w']) e)
                \<and> (\<forall>c. Request c \<noteq> w'))
     \<or> (\<exists>w' ex. handleSend_index fuel env ui = Some (cleanup_index ?b ?ui3 (?eff @ w' # ex))
                \<and> (\<forall>c. Request c \<noteq> w') \<and> (\<forall>c. Request c \<notin> set ex))"
  proof (cases ending)
    case (Inl e)
    then have "handleSend_index fuel env ui = Some (catch_index ui env ?b ?ui3 ?eff e)"
      using guard save pull by (simp add: handleSend_index_def Let_def split_beta)
    then show ?thesis by blast
  next
    case (Inr v)
    show ?thesis
    proof (cases "saveMessage_index ui (save_bot env) (lit ''bot'') (fst ?body) (currentSessionId ui)")
      case (Inl e)
      then have "handleSend_index fuel env ui = Some (catch_index ui env ?b ?ui3 ?eff e)"
        using guard save pull Inr by (simp add: handleSend_index_def Let_def split_beta)
      then show ?thesis by blast
    next
      case wb: (Inr w')
      have nw: "\<forall>c. Request c \<noteq> w'" using saveMessage_index_Inr [OF wb] by simp
      let ?cond = "db ui \<and> truthy (userId ui)
                    \<and> (case find (\<lambda>s. Some (session_id s) = currentSessionId ui) (sessions ui) of
                         None \<Rightarrow> True
                       | Some s \<Rightarrow> startsWith (session_title s) (lit ''Auto-Start Chat''))"
      show ?thesis
      proof (cases ?cond)
        case False
        then have "handleSend_index fuel env ui = Some (cleanup_index ?b ?ui3 (?eff @ w' # []))"
          using guard save pull Inr wb
          by (cases "db ui") (simp_all add: handleSend_index_def Let_def split_beta)
        then show ?thesis using nw by (intro disjI2 exI [of _ w'] exI [of _ "[]"]) simp
      next
        case True
        obtain r ds where bo: "withExponentialBackoff
                    (\<lambda>k. case setDoc_title env k of Some e \<Rightarrow> Inl e | None \<Rightarrow> Inr ())
                    5 (title_rnd env) = (r, ds)"
          by (cases "withExponentialBackoff
                    (\<lambda>k. case setDoc_title env k of Some e \<Rightarrow> Inl e | None \<Rightarrow> Inr ())
                    5 (title_rnd env)")
        show ?thesis
        proof (cases "\<exists>e. r = Thrown e")
          case True
          then obtain e where "r = Thrown e" by blast
          then have "handleSend_index fuel env ui
                       = Some (catch_index ui env ?b ?ui3 (?eff @ [w']) e)"
            using guard save pull Inr wb \<open>?cond\<close> bo
            by (simp add: handleSend_index_def Let_def split_beta)
          then show ?thesis using nw by blast
        next
          case False
          let ?t = "TitleSet (currentSessionId ui)
                      (join_space (take 5 (split_words (input ui))) @ lit ''...'')"
          from False have "handleSend_index fuel env ui
                       = Some (cleanup_index ?b ?ui3 (?eff @ w' # [?t]))"
            using guard save pull Inr wb \<open>?cond\<close> bo
            by (cases r) (simp_all add: handleSend_index_def Let_def split_beta)
          then show ?thesis using nw by (intro disjI2 exI [of _ w'] exI [of _ "[?t]"]) simp
        qed
      qed
    qed
  qed
  then consider
      (c1) e where "handleSend_index fuel env ui = Some (catch_index ui env ?b ?ui3 ?eff e)"
    | (c2) w' e where "handleSend_index fuel env ui = Some (catch_index ui env ?b ?ui3 (?eff @ [w']) e)"
        "\<forall>c. Request c \<noteq> w'"
    | (c3) w' ex where "handleSend_index fuel env ui = Some (cleanup_index ?b ?ui3 (?eff @ w' # ex))"
        "\<forall>c. Request c \<noteq> w'" "\<forall>c. Request c \<notin> set ex"
    by blast
  then show ?thesis
  proof cases
    case c1
    obtain ui' effs r where t: "catch_index ui env ?b ?ui3 ?eff e = (ui', effs, r)"
      by (cases "catch_index ui env ?b ?ui3 ?eff e") auto
    from catch_index_effects [of ui env ?b ?ui3 ?eff e] t obtain extra where
      "effs = ?eff @ extra" "\<forall>c. Request c \<notin> set extra" by auto
    then show ?thesis using c1 t by (intro exI [of _ ui'] exI [of _ extra] exI [of _ r]) simp
  next
    case c2
    obtain ui' effs r where t: "catch_index ui env ?b ?ui3 (?eff @ [w']) e = (ui', effs, r)"
      by (cases "catch_index ui env ?b ?ui3 (?eff @ [w']) e") auto
    from catch_index_effects [of ui env ?b ?ui3 "?eff @ [w']" e] t obtain extra where
      "effs = (?eff @ [w']) @ extra" "\<forall>c. Request c \<notin> set extra" by auto
    then show ?thesis using c2 t
      by (intro exI [of _ ui'] exI [of _ "w' # extra"] exI [of _ r]) simp
  next
    case c3
    then show ?thesis
      by (intro exI [of _ "?ui3\<lparr>messages := filter (\<lambda>msg. msg_id msg \<noteq> ?b) (messages ?ui3),
                                 isTyping := False\<rparr>"] exI [of _ "w' # ex"] exI [of _ None])
         (simp add: cleanup_index_def)
  qed
qed

lemma chatHistoryForAPI_no_error:
  "\<forall>t \<in> set (butlast (chatHistoryForAPI msgs userInput)).
      \<not> startsWith (parts_text t) (lit ''ERROR'')"
  by (auto simp: chatHistoryForAPI_def)

lemma handleSend_index_save_fails:
  assumes "trim (input ui) \<noteq> []" "\<not> isTyping ui" "truthy (userId ui)"
      "truthy (currentSessionId ui)"
    and "saveMessage_index ui (save_user env) (lit ''user'') (input ui)
                 (currentSessionId ui) = Inl e"
  shows "handleSend_index fuel env ui
           = Some (ui\<lparr>input := [], isTyping := False, error := Some (message e)\<rparr>, [], None)"
  using assms by (simp add: handleSend_index_def Let_def)

lemma saveMessage_index_fails:
  assumes "save_user env = Some e0 \<or> \<not> db ui"
  shows "\<exists>e. saveMessage_index ui (save_user env) s t sid = Inl e"
  using assms by (auto simp: saveMessage_index_def)

lemma saveMessage_index_addDoc_fails:
  assumes "save_user env = Some e0" "db ui" "truthy (userId ui)" "truthy sid"
  shows "saveMessage_index ui (save_user env) s t sid
           = Inl (Error (lit ''Could not save message to database: '' @ message e0))"
  using assms by (simp add: saveMessage_index_def)

lemma stream_body_set_text_of_ids:
  "map msg_id (snd (stream_body (set_text_of b) vs (acc, msgs))) = map msg_id msgs"
proof (induction vs arbitrary: acc msgs)
  case Nil
  then show ?case by (simp add: stream_body_def)
next
  case (Cons v vs)
  have "stream_body (set_text_of b) (v # vs) (acc, msgs)
          = stream_body (set_text_of b) vs
              (append_value acc v, set_text_of b (append_value acc v) msgs)"
    by (simp add: stream_body_def Let_def)
  moreover have "map msg_id (set_text_of b t msgs) = map msg_id msgs" for t
    by (induction msgs) (simp_all add: set_text_of_def)
  ultimately show ?case using Cons.IH by simp
qed

lemma saveMessage_App_fields:
  "messages (fst (saveMessage_App ui0 a s t ui)) = messages ui"
  "error ui = Some (lit ''Failed to save message to database.'') \<Longrightarrow>
     error (fst (saveMessage_App ui0 a s t ui)) = Some (lit ''Failed to save message to database.'')"
  "\<forall>c. Request c \<notin> set (snd (saveMessage_App ui0 a s t ui))"
  by (auto simp: saveMessage_App_def split: option.splits)

lemma saveMessage_App_fails:
  assumes "db ui0" "truthy (userId ui0)" "truthy (currentSessionId ui0)" "t \<noteq> []"
  shows "saveMessage_App ui0 (Some e0) s t ui
           = (ui\<lparr>error := Some (lit ''Failed to save message to database.'')\<rparr>, [])"
  using assms by (simp add: saveMessage_App_def)

lemma handleSend_App_continues:
  assumes t: "trim (or_default transcript (input ui)) \<noteq> []"
    and ok: "db ui" "truthy (userId ui)" "truthy (currentSessionId ui)"
    and fail: "save_user env = Some e0"
    and pull: "pull_all fuel next_App (pulls env)
                 (askAIStream_App (trim (or_default transcript (input ui)))
                    (map (\<lambda>msg. (sender msg, msg_text msg)) (messages ui)))
               = Some (vs, ending, st)"
  shows "\<exists>ui' extra r.
           handleSend_App fuel env doc_err transcript ui
             = Some (ui', map Request (requests st) @ extra, r)
           \<and> map msg_id (messages ui') = map msg_id (messages ui) @ [uuid env]
           \<and> error ui' = Some (lit ''Failed to save message to database.'')"
proof -
  let ?t = "trim (or_default transcript (input ui))"
  let ?ui1 = "ui\<lparr>input := [], error := None, isTyping := True\<rparr>"
  let ?ui2 = "?ui1\<lparr>error := Some (lit ''Failed to save message to database.'')\<rparr>"
  let ?ui3 = "?ui2\<lparr>messages := messages ?ui2 @
                 [\<lparr>msg_id = uuid env, sender = lit ''bot'', msg_text = [], timestamp = date env\<rparr>]\<rparr>"
  let ?body = "stream_body (set_text_of (uuid env)) vs ([], messages ?ui3)"
  let ?acc = "case ending of Inl err \<Rightarrow> lit ''Sorry, an error occurred.'' | Inr _ \<Rightarrow> fst ?body"
  let ?ui4 = "?ui3\<lparr>messages := snd ?body, isTyping := False\<rparr>"
  let ?save = "saveMessage_App ui (save_bot env) (lit ''bot'') ?acc ?ui4"
  let ?name = "take 30 ?t @ (if length ?t > 30 then lit ''...'' else [])"
  have s1: "saveMessage_App ui (save_user env) (lit ''user'') ?t ?ui1 = (?ui2, [])"
    using saveMessage_App_fails [OF ok t, of e0 "lit ''user''" ?ui1] fail by simp
  have ids4: "map msg_id (messages ?ui4) = map msg_id (messages ui) @ [uuid env]"
    using stream_body_set_text_of_ids [of "uuid env" vs "[]" "messages ?ui3"] by simp
  have err4: "error ?ui4 = Some (lit ''Failed to save message to database.'')" by simp
  have ids5: "map msg_id (messages (fst ?save)) = map msg_id (messages ui) @ [uuid env]"
    using ids4 by (simp only: saveMessage_App_fields(1))
  have err5: "error (fst ?save) = Some (lit ''Failed to save message to database.'')"
    using err4 by (rule saveMessage_App_fields(2))
  show ?thesis
  proof (cases "length (messages ui) = 0")
    case False
    then have "handleSend_App fuel env doc_err transcript ui
                 = Some (fst ?save, map Request (requests st) @ snd ?save, None)"
      using t ok pull s1 by (simp add: handleSend_App_def Let_def split_beta cong del: sum.case_cong_weak)
    then show ?thesis using ids5 err5
      by (intro exI [of _ "fst ?save"] exI [of _ "snd ?save"] exI [of _ None]) simp
  next
    case True
    show ?thesis
    proof (cases "setDoc_title env 0")
      case None
      then have "handleSend_App fuel env doc_err transcript ui
               = Some (fst ?save, map Request (requests st)
                    @ [TitleSet (currentSessionId ui) ?name] @ snd ?save, None)"
        using t ok pull s1 True by (simp add: handleSend_App_def Let_def split_beta cong del: sum.case_cong_weak)
      then show ?thesis using ids5 err5
        by (intro exI [of _ "fst ?save"]
              exI [of _ "[TitleSet (currentSessionId ui) ?name] @ snd ?save"] exI [of _ None])
           simp
    next
      case (Some e)
      then have "handleSend_App fuel env doc_err transcript ui
               = Some (?ui4, map Request (requests st), Some e)"
        using t ok pull s1 True by (simp add: handleSend_App_def Let_def split_beta cong del: sum.case_cong_weak)
      then show ?thesis using ids4 err4
        by (intro exI [of _ ?ui4] exI [of _ "[]"] exI [of _ "Some e"]) simp
    qed
  qed
qed

lemma chunks_of_Hi: "chunks_of (lit ''Hi!'') = [lit ''Hi!'']"
  by (simp add: chunks_of_def lit_def split_ws.simps isWhiteSpace_def)

section \<open>Properties: failed requests, deletion and creation\<close>

lemma delete_chat_rows: "message_rows (snd (delete_chat db_err sq chatId)) = message_rows sq"
  by (simp add: delete_chat_def Let_def split: option.splits)

lemma delete_chat_error:
  "delete_chat (Some err) sq chatId = ((500, ErrorBody (message err)), sq)"
  by (simp add: delete_chat_def)





lemma next_App_fails:
  assumes "fullResponse st = None"
  shows "next_App (FetchRejects e) st
           = (Inr (IterResult (Some (lit ''ERROR: Failed to connect to AI. Details: '' @ message e))
                     True),
              log_requests 1 st)"
    and "next_App (Response False status statusText (Inr details)) st
           = (Inr (IterResult
                     (Some (lit ''ERROR: Failed to connect to AI. Details: ''
                            @ show_nat status @ lit '' '' @ statusText @ lit '': ''
                            @ or_default (case error_field details of
                                            ErrorAbsent \<Rightarrow> None | ErrorMessage m \<Rightarrow> m)
                                         (lit ''Unknown API Error'')))
                     True),
              log_requests 1 st)"
    and "next_App (Response ok status statusText (Inl e)) st
           = (Inr (IterResult (Some (lit ''ERROR: Failed to connect to AI. Details: '' @ message e))
                     True),
              log_requests 1 st)"
  using assms by (simp_all add: next_App_def fetch_reply_App_def)

lemma fetchContent_index_fails:
  "fetchContent_index (FetchRejects e) st = Inl e"
  "fetchContent_index
      (Response False status statusText (Inr \<lparr>error_field = ErrorMessage (Some m), reply_text = t\<rparr>))
      st
    = Inl (Error (show_nat status @ lit '' '' @ statusText @ lit '': '' @ m))"
  "fetchContent_index (Response False status statusText (Inl e)) st
    = Inl (Error (show_nat status @ lit '' '' @ statusText @ lit '': ''
                  @ lit ''Unknown error format''))"
  "fetchContent_index (Response True status statusText (Inl e)) st = Inl e"
  by (simp_all add: fetchContent_index_def)

lemma fetchContent_index_Inl_iff:
  "(\<exists>e'. fetchContent_index outcome st = Inl e')
     \<longleftrightarrow> (\<forall>s t d. outcome \<noteq> Response True s t (Inr d))"
proof (cases outcome)
  case (FetchRejects e)
  then show ?thesis by (simp add: fetchContent_index_def)
next
  case (Response ok s t body)
  show ?thesis
  proof (cases ok)
    case True
    then show ?thesis using Response
      by (cases body) (simp_all add: fetchContent_index_def Let_def)
  next
    case False
    then show ?thesis using Response
      by (cases body) (simp_all add: fetchContent_index_def Let_def split: err_field.splits)
  qed
qed

lemma backoff_fetch_failure:
  assumes "k < 5"
    and "\<forall>j<k. \<exists>e'. fetchContent_index (net j) st = Inl e' \<and> retryable_signature e'"
    and "fetchContent_index (net k) st = Inl e" and "k = 4 \<or> \<not> retryable_signature e"
  shows "withExponentialBackoff (\<lambda>j. fetchContent_index (net j) st) 5 rnd
           = (Thrown e, map (backoff_delay rnd) [0..<k])"
proof -
  let ?fn = "\<lambda>j. fetchContent_index (net j) st"
  have pre: "\<forall>j. 0 \<le> j \<and> j < k \<longrightarrow> (\<exists>e. ?fn j = Inl e \<and> retryable_signature e)"
    using assms(2) by simp
  have k: "int k < 5" using assms(1) by simp
  have stop: "int k = 5 - 1 \<or> \<not> retryable_signature e" using assms(4) by auto
  have "backoff_loop ?fn 5 rnd k = (Thrown e, [])"
    using backoff_loop_failure [of k 5 ?fn e rnd, OF k assms(3)] stop by simp
  then show ?thesis
    using backoff_loop_retry_prefix [OF pre k, of rnd] by (simp add: withExponentialBackoff_def)
qed

lemma next_index_fails:
  assumes "fullResponse st = None" and "k < 5"
    and "\<forall>j<k. \<exists>e'. fetchContent_index (net j) st = Inl e' \<and> retryable_signature e'"
    and "fetchContent_index (net k) st = Inl e" and "k = 4 \<or> \<not> retryable_signature e"
  shows "next_index (net, rnd) st
           = (Inr (IterResult (Some (lit ''ERROR: Failed to connect to AI. Details: '' @ message e))
                     True),
              log_requests (k + 1) st)"
  using backoff_fetch_failure [OF assms(2-5), of rnd] assms(1)
  by (simp add: next_index_def)

lemma next_part000_fails:
  assumes "fullResponse st = None"
  shows "next_part000 (FetchRejects e) st = (Inl e, log_requests 1 st)"
    and "next_part000 (Response ok status statusText (Inl e)) st = (Inl e, log_requests 1 st)"
  using assms by (simp_all add: next_part000_def fetch_reply_part000_def)

lemma chunks_of_ellipsis: "chunks_of [0x2026] = [[0x2026]]"
  by (simp add: chunks_of_def split_ws.simps isWhiteSpace_def)

lemma next_part000_http_error:
  assumes "fullResponse st = None"
  shows "fullResponse (snd (next_part000 (Response ok status statusText (Inr data)) st))
           = Some (or_default (reply_text data) [0x2026])"
    and "chunkIndex st = 0 \<Longrightarrow> reply_text data = None \<Longrightarrow>
           fst (next_part000 (Response False status statusText (Inr data)) st)
             = Inr (IterResult (Some [0x2026]) False)"
proof -
  show "fullResponse (snd (next_part000 (Response ok status statusText (Inr data)) st))
           = Some (or_default (reply_text data) [0x2026])"
    using next_part000_first [OF refl assms refl, of ok status statusText data]
    by (simp add: stream_out_App_full log_requests_def)
  show "fst (next_part000 (Response False status statusText (Inr data)) st)
             = Inr (IterResult (Some [0x2026]) False)"
    if "chunkIndex st = 0" "reply_text data = None"
    using next_part000_first [OF refl assms refl, of False status statusText data] that
    by (simp add: stream_out_App_def log_requests_def or_default_def chunks_of_ellipsis)
qed

lemma later_pull_index:
  assumes "fullResponse st \<noteq> None"
  shows "next_index env st
           = (if chunkIndex st \<ge> length (chunks st) then (Inr (IterResult None True), st)
              else (Inr (IterResult (Some (chunks st ! chunkIndex st)) False),
                    st\<lparr>chunkIndex := chunkIndex st + 1\<rparr>))"
    and "requests (snd (next_index env st)) = requests st"
    and "fullResponse (snd (next_index env st)) = fullResponse st"
  using assms
  by (simp_all add: next_index_fetched stream_out_index_def)

lemma later_pull_App:
  assumes "fullResponse st \<noteq> None"
  shows "next_App outcome st
           = (if chunkIndex st \<ge> length (chunks st) then (Inr (IterResult (fullResponse st) True), st)
              else (Inr (IterResult (Some (chunks st ! chunkIndex st)) False),
                    st\<lparr>chunkIndex := chunkIndex st + 1\<rparr>))"
    and "requests (snd (next_App outcome st)) = requests st"
    and "fullResponse (snd (next_App outcome st)) = fullResponse st"
  using assms
  by (simp_all add: next_App_fetched stream_out_App_def)

lemma later_pull_part000:
  assumes "fullResponse st \<noteq> None"
  shows "next_part000 outcome st
           = (if chunkIndex st \<ge> length (chunks st) then (Inr (IterResult (fullResponse st) True), st)
              else (Inr (IterResult (Some (chunks st ! chunkIndex st)) False),
                    st\<lparr>chunkIndex := chunkIndex st + 1\<rparr>))"
    and "requests (snd (next_part000 outcome st)) = requests st"
    and "fullResponse (snd (next_part000 outcome st)) = fullResponse st"
  using assms
  by (simp_all add: next_part000_fetched stream_out_App_def)

lemma first_pull_App_success:
  assumes "fullResponse st = None"
  shows "fullResponse (snd (next_App (Response True status statusText (Inr data)) st))
           = Some (or_default (reply_text data) (lit ''No response received from AI.''))"
    and "requests (snd (next_App (Response True status statusText (Inr data)) st))
           = requests st @ [contents st]"
  using next_App_first [OF refl assms refl, of status statusText data]
  by (simp_all add: stream_out_App_full stream_out_App_fields log_requests_def)

lemma first_pull_index_success:
  assumes "fullResponse st = None" and "k < 5"
    and "\<forall>j<k. \<exists>e'. fetchContent_index (net j) st = Inl e' \<and> retryable_signature e'"
    and "net k = Response True status statusText (Inr data)"
  shows "fullResponse (snd (next_index (net, rnd) st))
           = Some (or_default (reply_text data) (lit ''No response received from AI.''))"
    and "requests (snd (next_index (net, rnd) st))
           = requests st @ replicate (k + 1) (contents st)"
  using next_index_first [OF assms(3,2,4) refl assms(1), of rnd]
  by (simp_all add: stream_out_index_full stream_out_index_fields log_requests_def)

lemma whole_stream_App:
  assumes "envs 0 = Response True status statusText (Inr data)"
    and "length (chunks_of (or_default (reply_text data) (lit ''No response received from AI.'')))
           < fuel"
  shows "\<exists>st'. pull_all fuel next_App envs (askAIStream_App inputText history)
            = Some (map Some (chunks_of (or_default (reply_text data)
                                            (lit ''No response received from AI.''))),
                    Inr (Some (or_default (reply_text data) (lit ''No response received from AI.''))),
                    st')
          \<and> requests st' = [contents (askAIStream_App inputText history)]"
proof -
  let ?full = "or_default (reply_text data) (lit ''No response received from AI.'')"
  let ?st' = "(log_requests 1 (askAIStream_App inputText history
                    \<lparr>fullResponse := Some ?full, chunks := chunks_of ?full\<rparr>))
                   \<lparr>chunkIndex := length (chunks_of ?full)\<rparr>"
  have run: "pull_all fuel next_App envs (askAIStream_App inputText history)
          = Some (map Some (chunks_of ?full), Inr (Some ?full), ?st')"
    by (rule pull_all_App_run [where outcome = "Response True status statusText (Inr data)"
          and status = status and statusText = statusText and data = data and full = ?full
          and envs = envs and fuel = fuel, OF refl refl assms(1) assms(2)])
  have req: "requests ?st' = [contents (askAIStream_App inputText history)]"
    by (simp add: log_requests_def askAIStream_App_def)
  show ?thesis by (intro exI [of _ ?st'] conjI run req)
qed

lemma whole_stream_index:
  assumes "envs 0 = (net, rnd)" and "k < 5"
    and "\<forall>j<k. \<exists>e'. fetchContent_index (net j) (askAIStream_index chatHistory) = Inl e'
                  \<and> retryable_signature e'"
    and "net k = Response True status statusText (Inr data)"
    and "length (chunks_of (or_default (reply_text data) (lit ''No response received from AI.'')))
           < fuel"
  shows "\<exists>st'. pull_all fuel next_index envs (askAIStream_index chatHistory)
            = Some (map Some (chunks_of (or_default (reply_text data)
                                            (lit ''No response received from AI.''))),
                    Inr None, st')
          \<and> requests st' = replicate (k + 1) chatHistory"
proof -
  let ?full = "or_default (reply_text data) (lit ''No response received from AI.'')"
  let ?st' = "(log_requests (k + 1) (askAIStream_index chatHistory
                    \<lparr>fullResponse := Some ?full, chunks := chunks_of ?full\<rparr>))
                   \<lparr>chunkIndex := length (chunks_of ?full)\<rparr>"
  have run: "pull_all fuel next_index envs (askAIStream_index chatHistory)
          = Some (map Some (chunks_of ?full), Inr None, ?st')"
    by (rule pull_all_index_run [where k = k and net = net and status = status
          and statusText = statusText and data = data and full = ?full and envs = envs
          and rnd = rnd and fuel = fuel, OF assms(3,2,4) refl assms(1,5)])
  have req: "requests ?st' = replicate (k + 1) chatHistory"
    by (simp add: log_requests_def askAIStream_index_def)
  show ?thesis by (intro exI [of _ ?st'] conjI run req)
qed

section \<open>The claims\<close>

text \<open>
  C2. An operation that fails with a 429 failure on its first four invocations and succeeds
  on the fifth: \<open>withExponentialBackoff\<close> with \<open>maxRetries = 5\<close> returns the success value
  and waits exactly four times, and the delay before retry number \<open>attempt + 1\<close> is
  \<open>2 ^ attempt\<close> seconds plus a jitter of at least 0 and less than 1 second (the delays
  are in milliseconds).
\<close>

theorem C2_backoff_four_failures:
  assumes fails: "\<forall>k<4. \<exists>e. fn k = Inl e \<and> js_includes (message e) (lit ''429'')"
    and succeeds: "fn 4 = Inr v"
    and jitter: "\<forall>k. 0 \<le> rnd k \<and> rnd k < 1"
  shows "withExponentialBackoff fn 5 rnd =
           (Returned v, [2 ^ 0 * 1000 + rnd 0 * 1000, 2 ^ 1 * 1000 + rnd 1 * 1000,
                         2 ^ 2 * 1000 + rnd 2 * 1000, 2 ^ 3 * 1000 + rnd 3 * 1000])
         \<and> length (snd (withExponentialBackoff fn 5 rnd)) = 4
         \<and> (\<forall>attempt<4. 2 ^ attempt * 1000 \<le> snd (withExponentialBackoff fn 5 rnd) ! attempt
               \<and> snd (withExponentialBackoff fn 5 rnd) ! attempt < (2 ^ attempt + 1) * 1000)"
proof -
  have pre: "\<forall>j. 0 \<le> j \<and> j < 4 \<longrightarrow> (\<exists>e. fn j = Inl e \<and> retryable_signature e)"
    using fails by (auto simp: retryable_signature_def)
  have "backoff_loop fn 5 rnd 0 =
          (fst (backoff_loop fn 5 rnd 4),
           map (backoff_delay rnd) [0..<4] @ snd (backoff_loop fn 5 rnd 4))"
    by (rule backoff_loop_retry_prefix [OF pre]) simp_all
  moreover have "backoff_loop fn 5 rnd 4 = (Returned v, [])"
    using succeeds by (simp add: backoff_loop_success)
  moreover have "[0..<4] = [0, 1, 2, 3::nat]" by (simp add: upt_rec)
  ultimately have run: "withExponentialBackoff fn 5 rnd =
           (Returned v, [1000 + rnd 0 * 1000, 2000 + rnd 1 * 1000,
                         4000 + rnd 2 * 1000, 8000 + rnd 3 * 1000])"
    by (simp add: withExponentialBackoff_def backoff_delay_def)
  have bounds: "2 ^ attempt * 1000 \<le> [1000 + rnd 0 * 1000, 2000 + rnd 1 * 1000,
                         4000 + rnd 2 * 1000, 8000 + rnd 3 * 1000] ! attempt
               \<and> [1000 + rnd 0 * 1000, 2000 + rnd 1 * 1000,
                         4000 + rnd 2 * 1000, 8000 + rnd 3 * 1000] ! attempt < (2 ^ attempt + 1) * 1000"
    if "attempt < 4" for attempt
  proof -
    from that consider "attempt = 0" | "attempt = 1" | "attempt = 2" | "attempt = 3" by linarith
    then show ?thesis
      using jitter [rule_format, of 0] jitter [rule_format, of 1]
        jitter [rule_format, of 2] jitter [rule_format, of 3]
      by cases simp_all
  qed
  show ?thesis using run bounds by simp
qed

text \<open>The same at a concrete operation, with every random number one half.\<close>

theorem C2_backoff_four_failures_witness:
  "withExponentialBackoff
     (\<lambda>k. if k < 4 then Inl (Error (lit ''429 Too Many Requests: quota'')) else Inr (7::nat))
     5 (\<lambda>k. 1 / 2)
   = (Returned 7, [1500, 2500, 4500, 8500])"
proof -
  let ?fn = "\<lambda>k::nat. if k < 4 then Inl (Error (lit ''429 Too Many Requests: quota'')) else Inr (7::nat)"
  have inc: "js_includes (lit ''429 Too Many Requests: quota'') (lit ''429'')"
    by (simp add: lit_def)
  have h1: "\<forall>k<4. \<exists>e. ?fn k = Inl e \<and> js_includes (message e) (lit ''429'')"
    using inc by simp
  have h2: "?fn 4 = Inr 7" by simp
  have h3: "\<forall>k::nat. (0::real) \<le> 1 / 2 \<and> (1::real) / 2 < 1" by simp
  show ?thesis
    using C2_backoff_four_failures [of ?fn 7 "\<lambda>k. 1 / 2", OF h1 h2 h3] by simp
qed

text \<open>
  C3, as the code has it. Let the first \<open>k\<close> invocations fail with a retryable signature
  and invocation \<open>k\<close> (one of the \<open>maxRetries\<close> allowed) fail with \<open>e\<close>. The operation is
  invoked again (a delay number \<open>k\<close> is waited for) if and only if the message of \<open>e\<close>
  contains \<open>429\<close>, \<open>500\<close> or \<open>Failed to fetch\<close> and \<open>k\<close> is not the last attempt;
  otherwise \<open>e\<close> itself is propagated at once, after the \<open>k\<close> delays already waited for.
  With \<open>k = maxRetries - 1\<close> this is the exhaustion of all attempts, which propagates the
  last failure.
\<close>

theorem C3_retry_iff_signature:
  assumes "\<forall>j<k. \<exists>e'. fn j = Inl e' \<and> retryable_signature e'"
    and "fn k = Inl e" and "int k < maxRetries"
  shows "(k < length (snd (withExponentialBackoff fn maxRetries rnd)))
           = ((js_includes (message e) (lit ''429'') \<or> js_includes (message e) (lit ''500'')
               \<or> js_includes (message e) (lit ''Failed to fetch''))
              \<and> int k + 1 < maxRetries)
         \<and> (\<not> ((js_includes (message e) (lit ''429'') \<or> js_includes (message e) (lit ''500'')
               \<or> js_includes (message e) (lit ''Failed to fetch''))
              \<and> int k + 1 < maxRetries)
            \<longrightarrow> withExponentialBackoff fn maxRetries rnd
                  = (Thrown e, map (backoff_delay rnd) [0..<k]))"
proof -
  have pre: "\<forall>j. 0 \<le> j \<and> j < k \<longrightarrow> (\<exists>e. fn j = Inl e \<and> retryable_signature e)"
    using assms(1) by simp
  have run: "withExponentialBackoff fn maxRetries rnd =
           (fst (backoff_loop fn maxRetries rnd k),
            map (backoff_delay rnd) [0..<k] @ snd (backoff_loop fn maxRetries rnd k))"
    using backoff_loop_retry_prefix [OF pre assms(3), of rnd]
    by (simp add: withExponentialBackoff_def)
  have last: "(int k = maxRetries - 1) = (\<not> int k + 1 < maxRetries)"
    using assms(3) by auto
  show ?thesis
    using run backoff_loop_failure [of k maxRetries fn e rnd, OF assms(3) assms(2)]
    by (auto simp: retryable_signature_def last)
qed

text \<open>
  Two failures with status 500 and then one with status 403: two delays, and the third
  failure is propagated.
\<close>

theorem C3_retry_iff_signature_witness:
  "withExponentialBackoff
     (\<lambda>k. if k < 2 then Inl (Error (lit ''500 Internal Server Error: boom''))
           else (Inl (Error (lit ''403 Forbidden: key'')) :: jserror + nat))
     5 (every_time 0)
   = (Thrown (Error (lit ''403 Forbidden: key'')), [1000, 2000])"
proof -
  let ?fn = "\<lambda>k::nat. if k < 2 then Inl (Error (lit ''500 Internal Server Error: boom''))
           else (Inl (Error (lit ''403 Forbidden: key'')) :: jserror + nat)"
  have r: "retryable_signature (Error (lit ''500 Internal Server Error: boom''))"
    by (simp add: retryable_signature_def lit_def)
  have h1: "\<forall>j<2. \<exists>e'. ?fn j = Inl e' \<and> retryable_signature e'"
    using r by simp
  have h2: "?fn 2 = Inl (Error (lit ''403 Forbidden: key''))" by simp
  have h3: "int 2 < 5" by simp
  have n: "\<not> js_includes (lit ''403 Forbidden: key'') (lit ''429'')"
    "\<not> js_includes (lit ''403 Forbidden: key'') (lit ''500'')"
    "\<not> js_includes (lit ''403 Forbidden: key'') (lit ''Failed to fetch'')"
    by (simp_all add: lit_def)
  have u: "[0..<2] = [0, 1::nat]" by (simp add: upt_rec)
  show ?thesis
    using C3_retry_iff_signature [of 2 ?fn "Error (lit ''403 Forbidden: key'')" 5 "every_time 0",
        OF h1 h2 h3] n
    by (simp add: u backoff_delay_def every_time_def)
qed

text \<open>
  C3 as stated does not hold. The failure that \<open>fetchContent\<close> throws for a response
  with status 503 is not retried although four attempts remain (no delay is waited for),
  and the failure for a response with status 400 whose error message contains \<open>500\<close>
  is retried.
\<close>

theorem C3_counterexample:
  "withExponentialBackoff
     (every_time
        (fetchContent_index
           (Response False 503 (lit ''Service Unavailable'')
              (Inr \<lparr>error_field = ErrorMessage (Some (lit ''The model is overloaded.'')),
                    reply_text = None\<rparr>))
           (askAIStream_index [])))
     5 (every_time 0)
   = (Thrown (Error (lit ''503 Service Unavailable: The model is overloaded.'')), [])
   \<and> withExponentialBackoff
     (every_time
        (fetchContent_index
           (Response False 400 (lit ''Bad Request'')
              (Inr \<lparr>error_field = ErrorMessage (Some (lit ''At most 500 items are allowed.'')),
                    reply_text = None\<rparr>))
           (askAIStream_index [])))
     2 (every_time 0)
   = (Thrown (Error (lit ''400 Bad Request: At most 500 items are allowed.'')), [1000])"
proof -
  have f1: "fetchContent_index
           (Response False 503 (lit ''Service Unavailable'')
              (Inr \<lparr>error_field = ErrorMessage (Some (lit ''The model is overloaded.'')),
                    reply_text = None\<rparr>))
           (askAIStream_index []) = Inl (Error (lit ''503 Service Unavailable: The model is overloaded.''))"
    by (simp add: fetchContent_index_def show_nat_503 lit_def)
  have n1: "\<not> retryable_signature (Error (lit ''503 Service Unavailable: The model is overloaded.''))"
    by (simp add: retryable_signature_def lit_def)
  have f2: "fetchContent_index
           (Response False 400 (lit ''Bad Request'')
              (Inr \<lparr>error_field = ErrorMessage (Some (lit ''At most 500 items are allowed.'')),
                    reply_text = None\<rparr>))
           (askAIStream_index []) = Inl (Error (lit ''400 Bad Request: At most 500 items are allowed.''))"
    by (simp add: fetchContent_index_def show_nat_400 lit_def)
  have n2: "retryable_signature (Error (lit ''400 Bad Request: At most 500 items are allowed.''))"
    by (simp add: retryable_signature_def lit_def)
  show ?thesis
    using n1 n2
    by (simp add: withExponentialBackoff_def backoff_loop_failure f1 f2 every_time_def backoff_delay_def)
qed

text \<open>
  C4, as the code has it. After a successful request, the pull that follows the last
  fragment has \<open>done\<close>; in App.jsx and part_000 its value is the full reply text, in
  index.js it has no value. Any later pull gives the same result again and leaves the
  stream as it is.
\<close>

theorem C4_completion_pull:
  assumes "outcome = Response True status statusText (Inr data)"
    and "full = or_default (reply_text data) (lit ''No response received from AI.'')"
    and "full0 = or_default (reply_text data) [0x2026]"
    and "envs 0 = outcome" and "ienvs 0 = (net, rnd)"
    and "k < 5" and "net k = outcome"
    and "\<forall>j<k. \<exists>e. fetchContent_index (net j) (askAIStream_index chatHistory) = Inl e
                 \<and> retryable_signature e"
    and "length (chunks_of full) < fuel" and "length (chunks_of full0) < fuel"
  shows "(\<exists>st'. pull_all fuel next_App envs (askAIStream_App inputText history)
                  = Some (map Some (chunks_of full), Inr (Some full), st')
               \<and> next_App later st' = (Inr (IterResult (Some full) True), st'))
       \<and> (\<exists>st'. pull_all fuel next_part000 envs (askAIStream_part000 inputText history)
                  = Some (map Some (chunks_of full0), Inr (Some full0), st')
               \<and> next_part000 later st' = (Inr (IterResult (Some full0) True), st'))
       \<and> (\<exists>st'. pull_all fuel next_index ienvs (askAIStream_index chatHistory)
                  = Some (map Some (chunks_of full), Inr None, st')
               \<and> next_index ilater st' = (Inr (IterResult None True), st'))"
proof -
  have a: "pull_all fuel next_App envs (askAIStream_App inputText history)
             = Some (map Some (chunks_of full), Inr (Some full),
                 (log_requests 1 (askAIStream_App inputText history
                    \<lparr>fullResponse := Some full, chunks := chunks_of full\<rparr>))
                   \<lparr>chunkIndex := length (chunks_of full)\<rparr>)"
    using assms(1,2,4,9) by (rule pull_all_App_run)
  have p: "pull_all fuel next_part000 envs (askAIStream_part000 inputText history)
             = Some (map Some (chunks_of full0), Inr (Some full0),
                 (log_requests 1 (askAIStream_part000 inputText history
                    \<lparr>fullResponse := Some full0, chunks := chunks_of full0\<rparr>))
                   \<lparr>chunkIndex := length (chunks_of full0)\<rparr>)"
    using assms(1,3,4,10) by (rule pull_all_part000_run)
  have n: "net k = Response True status statusText (Inr data)"
    using assms(1,7) by simp
  have b: "pull_all fuel next_index ienvs (askAIStream_index chatHistory)
             = Some (map Some (chunks_of full), Inr None,
                 (log_requests (k + 1) (askAIStream_index chatHistory
                    \<lparr>fullResponse := Some full, chunks := chunks_of full\<rparr>))
                   \<lparr>chunkIndex := length (chunks_of full)\<rparr>)"
    using assms(8,6) n assms(2,5,9) by (rule pull_all_index_run)
  have a': "next_App later ((log_requests 1 (askAIStream_App inputText history
                    \<lparr>fullResponse := Some full, chunks := chunks_of full\<rparr>))
                   \<lparr>chunkIndex := length (chunks_of full)\<rparr>)
            = (Inr (IterResult (Some full) True), (log_requests 1 (askAIStream_App inputText history
                    \<lparr>fullResponse := Some full, chunks := chunks_of full\<rparr>))
                   \<lparr>chunkIndex := length (chunks_of full)\<rparr>)"
    by (rule exhausted_App) (simp_all add: log_requests_def)
  have p': "next_part000 later ((log_requests 1 (askAIStream_part000 inputText history
                    \<lparr>fullResponse := Some full0, chunks := chunks_of full0\<rparr>))
                   \<lparr>chunkIndex := length (chunks_of full0)\<rparr>)
            = (Inr (IterResult (Some full0) True), (log_requests 1 (askAIStream_part000 inputText history
                    \<lparr>fullResponse := Some full0, chunks := chunks_of full0\<rparr>))
                   \<lparr>chunkIndex := length (chunks_of full0)\<rparr>)"
    by (rule exhausted_part000) (simp_all add: log_requests_def)
  have b': "next_index ilater ((log_requests (k + 1) (askAIStream_index chatHistory
                    \<lparr>fullResponse := Some full, chunks := chunks_of full\<rparr>))
                   \<lparr>chunkIndex := length (chunks_of full)\<rparr>)
            = (Inr (IterResult None True), (log_requests (k + 1) (askAIStream_index chatHistory
                    \<lparr>fullResponse := Some full, chunks := chunks_of full\<rparr>))
                   \<lparr>chunkIndex := length (chunks_of full)\<rparr>)"
    by (rule exhausted_index [where full = full]) (simp_all add: log_requests_def)
  show ?thesis using a a' p p' b b' by blast
qed

text \<open>
  For the reply \<open>Hi there!\<close> the streams of App.jsx and part_000 end with the value
  \<open>Hi there!\<close>.
\<close>

theorem C4_completion_pull_witness:
  "(\<exists>st'. pull_all 4 next_App
        (every_time (Response True 200 (lit ''OK'')
           (Inr \<lparr>error_field = ErrorAbsent, reply_text = Some (lit ''Hi there!'')\<rparr>)))
        (askAIStream_App (lit ''Hello'') [])
       = Some ([Some (lit ''Hi''), Some (lit '' ''), Some (lit ''there!'')],
               Inr (Some (lit ''Hi there!'')), st'))
   \<and> (\<exists>st'. pull_all 4 next_part000
        (every_time (Response True 200 (lit ''OK'')
           (Inr \<lparr>error_field = ErrorAbsent, reply_text = Some (lit ''Hi there!'')\<rparr>)))
        (askAIStream_part000 (lit ''Hello'') [])
       = Some ([Some (lit ''Hi''), Some (lit '' ''), Some (lit ''there!'')],
               Inr (Some (lit ''Hi there!'')), st'))"
proof -
  let ?data = "\<lparr>error_field = ErrorAbsent, reply_text = Some (lit ''Hi there!'')\<rparr>"
  let ?out = "Response True 200 (lit ''OK'') (Inr ?data)"
  have full: "lit ''Hi there!'' = or_default (reply_text ?data) (lit ''No response received from AI.'')"
    by (simp add: or_default_def lit_def)
  have full0: "lit ''Hi there!'' = or_default (reply_text ?data) [0x2026]"
    by (simp add: or_default_def lit_def)
  have len: "length (chunks_of (lit ''Hi there!'')) < 4"
    by (simp add: chunks_of_Hi_there)
  have none: "\<forall>j<(0::nat). \<exists>e. fetchContent_index (every_time ?out j)
        (askAIStream_index []) = Inl e \<and> retryable_signature e"
    by simp
  show ?thesis
    using C4_completion_pull [where outcome = ?out and status = 200 and statusText = "lit ''OK''"
        and data = ?data and full = "lit ''Hi there!''" and full0 = "lit ''Hi there!''"
        and envs = "every_time ?out"
        and ienvs = "every_time (every_time ?out, every_time 0)"
        and net = "every_time ?out" and rnd = "every_time 0" and k = 0 and fuel = 4
        and chatHistory = "[]"
        and inputText = "lit ''Hello''" and history = "[]" and later = ?out
        and ilater = "(every_time ?out, every_time 0)",
        OF refl full full0 _ _ _ _ none len len]
    by (simp add: every_time_def chunks_of_Hi_there; blast)
qed

text \<open>
  C4 as stated does not hold for the stream of index.js: for the reply \<open>Hi there!\<close> the
  pull after the three fragments has \<open>done\<close> and no value.
\<close>

theorem C4_index_counterexample:
  "pull_all 4 next_index
        (every_time (every_time (Response True 200 (lit ''OK'')
           (Inr \<lparr>error_field = ErrorAbsent, reply_text = Some (lit ''Hi there!'')\<rparr>)), every_time 0))
        (askAIStream_index [])
     = Some ([Some (lit ''Hi''), Some (lit '' ''), Some (lit ''there!'')], Inr None,
             \<lparr>contents = [], fullResponse = Some (lit ''Hi there!''),
              chunks = [lit ''Hi'', lit '' '', lit ''there!''], chunkIndex = 3, requests = [[]]\<rparr>)"
proof -
  let ?data = "\<lparr>error_field = ErrorAbsent, reply_text = Some (lit ''Hi there!'')\<rparr>"
  let ?out = "Response True 200 (lit ''OK'') (Inr ?data)"
  have full: "lit ''Hi there!'' = or_default (reply_text ?data) (lit ''No response received from AI.'')"
    by (simp add: or_default_def lit_def)
  have len: "length (chunks_of (lit ''Hi there!'')) < 4"
    by (simp add: chunks_of_Hi_there)
  have none: "\<forall>j<(0::nat). \<exists>e. fetchContent_index (every_time ?out j)
        (askAIStream_index []) = Inl e \<and> retryable_signature e"
    by simp
  have "pull_all 4 next_index (every_time (every_time ?out, every_time 0)) (askAIStream_index [])
      = Some (map Some (chunks_of (lit ''Hi there!'')), Inr None,
                 (log_requests (0 + 1) (askAIStream_index []
                    \<lparr>fullResponse := Some (lit ''Hi there!''), chunks := chunks_of (lit ''Hi there!'')\<rparr>))
                   \<lparr>chunkIndex := length (chunks_of (lit ''Hi there!''))\<rparr>)"
    by (rule pull_all_index_run [where net = "every_time ?out" and rnd = "every_time 0"
          and status = 200 and statusText = "lit ''OK''" and data = ?data, OF none _ _ full _ len])
       (simp_all add: every_time_def)
  then show ?thesis
    by (simp add: chunks_of_Hi_there log_requests_def askAIStream_index_def)
qed

text \<open>
  C7, as the code has it. The messages listener of index.js shows the documents of the
  query (session = current session, at most 100) sorted by timestamp, non-decreasing,
  whatever the order and the timestamps in the store: the same documents, at most 100 of
  them, all of the session. The REST handler answers with the rows of the chat sorted by
  timestamp, non-decreasing: all of them, there is no cap.
\<close>

theorem C7_list_ordered:
  "sorted (map timestamp (messages (messages_listener_index clock (messages_query fs sid) ui)))
   \<and> length (messages (messages_listener_index clock (messages_query fs sid) ui)) \<le> 100
   \<and> mset (map msg_id (messages (messages_listener_index clock (messages_query fs sid) ui)))
       = mset (map m_id (messages_query fs sid))
   \<and> (\<forall>d \<in> set (messages_query fs sid). m_sessionId d = sid)
   \<and> get_messages None sq chatId
       = (200, DataBody (map (\<lambda>r. (message_id r, row_sender r, content r))
                             (select_messages sq chatId)))
   \<and> sorted (map row_timestamp (select_messages sq chatId))
   \<and> mset (select_messages sq chatId)
       = mset (filter (\<lambda>r. msg_chat_id r = chatId) (message_rows sq))"
  using messages_listener_sorted [of clock "messages_query fs sid" ui]
    messages_listener_length [of clock "messages_query fs sid" ui]
    messages_query_length [of fs sid]
    messages_listener_ids [of clock "messages_query fs sid" ui]
    messages_query_session [of _ fs sid]
    select_messages_sorted [of sq chatId] select_messages_mset [of sq chatId]
  by (simp add: get_messages_def)

text \<open>
  C7 as stated does not hold for the REST handler: a chat with 101 messages is listed
  with all 101.
\<close>

theorem C7_rest_counterexample:
  "length (select_messages
     \<lparr>chats = [\<lparr>chat_id = 1, title = lit ''New Chat'', created_at = 0\<rparr>],
      message_rows =
        map (\<lambda>i. \<lparr>message_id = int i, msg_chat_id = 1, row_sender = lit ''user'',
                   content = lit ''hi'', row_timestamp = int i\<rparr>) [0..<101]\<rparr> 1) = 101"
  by (simp add: select_messages_length filter_map comp_def)

text \<open>
  Three stored messages, two of the session and out of order.
\<close>

theorem C7_list_ordered_witness:
  "messages_query
     \<lparr>sessions_coll = [],
      messages_coll =
        [\<lparr>m_id = lit ''a'', m_sessionId = lit ''s1'', m_sender = lit ''bot'',
          m_text = lit ''Hi there!'', m_timestamp = Some 20\<rparr>,
         \<lparr>m_id = lit ''b'', m_sessionId = lit ''s2'', m_sender = lit ''user'',
          m_text = lit ''other'', m_timestamp = Some 5\<rparr>,
         \<lparr>m_id = lit ''c'', m_sessionId = lit ''s1'', m_sender = lit ''user'',
          m_text = lit ''Hello'', m_timestamp = Some 10\<rparr>]\<rparr>
     (lit ''s1'')
   = [\<lparr>m_id = lit ''a'', m_sessionId = lit ''s1'', m_sender = lit ''bot'',
          m_text = lit ''Hi there!'', m_timestamp = Some 20\<rparr>,
      \<lparr>m_id = lit ''c'', m_sessionId = lit ''s1'', m_sender = lit ''user'',
          m_text = lit ''Hello'', m_timestamp = Some 10\<rparr>]
   \<and> map msg_id (messages (messages_listener_index (every_time 30)
        (messages_query
          \<lparr>sessions_coll = [],
           messages_coll =
             [\<lparr>m_id = lit ''a'', m_sessionId = lit ''s1'', m_sender = lit ''bot'',
               m_text = lit ''Hi there!'', m_timestamp = Some 20\<rparr>,
              \<lparr>m_id = lit ''b'', m_sessionId = lit ''s2'', m_sender = lit ''user'',
               m_text = lit ''other'', m_timestamp = Some 5\<rparr>,
              \<lparr>m_id = lit ''c'', m_sessionId = lit ''s1'', m_sender = lit ''user'',
               m_text = lit ''Hello'', m_timestamp = Some 10\<rparr>]\<rparr>
          (lit ''s1''))
        \<lparr>sessions = [], currentSessionId = Some (lit ''s1''), messages = [], input = [],
         isTyping = False, userId = Some (lit ''u1''), db = True, error = None\<rparr>))
     = [lit ''c'', lit ''a'']
   \<and> sorted (map timestamp (messages (messages_listener_index (every_time 30)
        (messages_query
          \<lparr>sessions_coll = [],
           messages_coll =
             [\<lparr>m_id = lit ''a'', m_sessionId = lit ''s1'', m_sender = lit ''bot'',
               m_text = lit ''Hi there!'', m_timestamp = Some 20\<rparr>,
              \<lparr>m_id = lit ''b'', m_sessionId = lit ''s2'', m_sender = lit ''user'',
               m_text = lit ''other'', m_timestamp = Some 5\<rparr>,
              \<lparr>m_id = lit ''c'', m_sessionId = lit ''s1'', m_sender = lit ''user'',
               m_text = lit ''Hello'', m_timestamp = Some 10\<rparr>]\<rparr>
          (lit ''s1''))
        \<lparr>sessions = [], currentSessionId = Some (lit ''s1''), messages = [], input = [],
         isTyping = False, userId = Some (lit ''u1''), db = True, error = None\<rparr>)))"
proof -
  let ?fs = "\<lparr>sessions_coll = [],
      messages_coll =
        [\<lparr>m_id = lit ''a'', m_sessionId = lit ''s1'', m_sender = lit ''bot'',
          m_text = lit ''Hi there!'', m_timestamp = Some 20\<rparr>,
         \<lparr>m_id = lit ''b'', m_sessionId = lit ''s2'', m_sender = lit ''user'',
          m_text = lit ''other'', m_timestamp = Some 5\<rparr>,
         \<lparr>m_id = lit ''c'', m_sessionId = lit ''s1'', m_sender = lit ''user'',
          m_text = lit ''Hello'', m_timestamp = Some 10\<rparr>]\<rparr>"
  let ?ui = "\<lparr>sessions = [], currentSessionId = Some (lit ''s1''), messages = [], input = [],
         isTyping = False, userId = Some (lit ''u1''), db = True, error = None\<rparr>"
  have q: "messages_query ?fs (lit ''s1'')
   = [\<lparr>m_id = lit ''a'', m_sessionId = lit ''s1'', m_sender = lit ''bot'',
          m_text = lit ''Hi there!'', m_timestamp = Some 20\<rparr>,
      \<lparr>m_id = lit ''c'', m_sessionId = lit ''s1'', m_sender = lit ''user'',
          m_text = lit ''Hello'', m_timestamp = Some 10\<rparr>]"
    by (simp add: messages_query_def messages_where_def lit_def)
  have ids: "map msg_id (messages (messages_listener_index (every_time 30)
        (messages_query ?fs (lit ''s1'')) ?ui)) = [lit ''c'', lit ''a'']"
    by (simp add: q messages_listener_index_def fetched_message_def enumerate_eq_zip upt_rec)
  show ?thesis
    using C7_list_ordered [of "every_time 30" ?fs "lit ''s1''" ?ui] q ids by simp
qed

text \<open>
  C10. When \<open>handleSend\<close> of index.js passes its guard and the user's message is saved,
  then with enough fuel it ends, it sends a request, and every request it sends (also a
  retried one) carries the same \<open>contents\<close>: the messages whose text does not start with
  \<open>ERROR\<close>, in order, as user and model turns, followed by the new user turn. No turn
  before the last one has a text that starts with \<open>ERROR\<close>.
\<close>

theorem C10_history_excludes_errors:
  assumes "trim (input ui) \<noteq> []" and "\<not> isTyping ui" and "truthy (userId ui)"
    and "truthy (currentSessionId ui)" and "db ui" and "save_user env = None"
    and "ctx = map (\<lambda>msg. \<lparr>role = (if sender msg = lit ''user'' then User else Model),
                            parts_text = msg_text msg\<rparr>)
                   (filter (\<lambda>msg. \<not> startsWith (msg_text msg) (lit ''ERROR'')) (messages ui))
               @ [\<lparr>role = User, parts_text = input ui\<rparr>]"
  shows "(\<exists>N. \<forall>fuel>N. \<exists>ui' effects r.
            handleSend_index fuel env ui = Some (ui', effects, r)
            \<and> Request ctx \<in> set effects
            \<and> (\<forall>c. Request c \<in> set effects \<longrightarrow> c = ctx))
       \<and> (\<forall>t \<in> set (butlast ctx). \<not> startsWith (parts_text t) (lit ''ERROR''))"
proof -
  have ctx: "ctx = chatHistoryForAPI (messages ui) (input ui)"
    using assms(7) by (simp add: chatHistoryForAPI_def)
  let ?w = "Persisted (lit ''user'') (input ui) (currentSessionId ui)"
  have save: "saveMessage_index ui (save_user env) (lit ''user'') (input ui)
                 (currentSessionId ui) = Inr ?w"
    using assms(3-6) by (simp add: saveMessage_index_def)
  obtain N where N: "\<forall>fuel>N. \<exists>vs ending st'.
      pull_all fuel next_index (pulls env) (askAIStream_index ctx) = Some (vs, ending, st')"
    using pull_all_index_total [of "pulls env" ctx] by (elim exE)
  have "\<exists>ui' effects r.
            handleSend_index fuel env ui = Some (ui', effects, r)
            \<and> Request ctx \<in> set effects
            \<and> (\<forall>c. Request c \<in> set effects \<longrightarrow> c = ctx)" if "N < fuel" for fuel
  proof -
    from N that obtain vs ending st where
      pull: "pull_all fuel next_index (pulls env) (askAIStream_index ctx) = Some (vs, ending, st)"
      by blast
    have reqs: "set (requests st) = {contents (askAIStream_index ctx)}"
      using next_index_log pull
      by (rule pull_all_requests) (simp_all add: askAIStream_index_def)
    then have reqs': "set (requests st) = {ctx}" by (simp add: askAIStream_index_def)
    from handleSend_index_effects [OF assms(1-4) save pull [unfolded ctx]]
    obtain ui' extra r where
      h: "handleSend_index fuel env ui = Some (ui', (?w # map Request (requests st)) @ extra, r)"
      and ex: "\<forall>c. Request c \<notin> set extra"
      by (elim exE conjE)
    have a: "Request ctx \<in> set ((?w # map Request (requests st)) @ extra)"
      using reqs' by auto
    have b: "\<forall>c. Request c \<in> set ((?w # map Request (requests st)) @ extra) \<longrightarrow> c = ctx"
      using reqs' ex by auto
    show ?thesis
      using h a b
      by (intro exI [of _ ui'] exI [of _ "(?w # map Request (requests st)) @ extra"] exI [of _ r])
         simp
  qed
  then have "\<exists>N. \<forall>fuel>N. \<exists>ui' effects r.
            handleSend_index fuel env ui = Some (ui', effects, r)
            \<and> Request ctx \<in> set effects
            \<and> (\<forall>c. Request c \<in> set effects \<longrightarrow> c = ctx)"
    by (intro exI [of _ N]) simp
  then show ?thesis using chatHistoryForAPI_no_error [of "messages ui" "input ui"] ctx by simp
qed

text \<open>
  A history with one error text in the middle.
\<close>

theorem C10_history_excludes_errors_witness:
  "\<exists>N. \<forall>fuel>N. \<exists>ui' effects r.
     handleSend_index fuel
       \<lparr>save_user = None, save_bot = None, save_marker = None, uuid = lit ''tmp-1'', date = 40,
        pulls = every_time
                  (every_time (Response True 200 (lit ''OK'')
                     (Inr \<lparr>error_field = ErrorAbsent, reply_text = Some (lit ''Hi there!'')\<rparr>)),
                   every_time 0),
        setDoc_title = every_time None, title_rnd = every_time 0\<rparr>
       \<lparr>sessions = [\<lparr>session_id = lit ''s1'', session_title = lit ''Greetings...''\<rparr>],
        currentSessionId = Some (lit ''s1''),
        messages =
          [\<lparr>msg_id = lit ''a'', sender = lit ''user'', msg_text = lit ''Hello'', timestamp = 10\<rparr>,
           \<lparr>msg_id = lit ''b'', sender = lit ''bot'',
            msg_text = lit ''ERROR: Failed to get response from AI. Details: 500'',
            timestamp = 20\<rparr>,
           \<lparr>msg_id = lit ''c'', sender = lit ''bot'', msg_text = lit ''Hi'', timestamp = 30\<rparr>],
        input = lit ''How are you?'', isTyping = False, userId = Some (lit ''u1''), db = True,
        error = None\<rparr>
       = Some (ui', effects, r)
     \<and> Request [\<lparr>role = User, parts_text = lit ''Hello''\<rparr>,
                 \<lparr>role = Model, parts_text = lit ''Hi''\<rparr>,
                 \<lparr>role = User, parts_text = lit ''How are you?''\<rparr>] \<in> set effects"
proof -
  let ?env = "\<lparr>save_user = None, save_bot = None, save_marker = None, uuid = lit ''tmp-1'', date = 40,
        pulls = every_time
                  (every_time (Response True 200 (lit ''OK'')
                     (Inr \<lparr>error_field = ErrorAbsent, reply_text = Some (lit ''Hi there!'')\<rparr>)),
                   every_time (0::real)),
        setDoc_title = every_time None, title_rnd = every_time 0\<rparr>"
  let ?ui = "\<lparr>sessions = [\<lparr>session_id = lit ''s1'', session_title = lit ''Greetings...''\<rparr>],
        currentSessionId = Some (lit ''s1''),
        messages =
          [\<lparr>msg_id = lit ''a'', sender = lit ''user'', msg_text = lit ''Hello'', timestamp = 10\<rparr>,
           \<lparr>msg_id = lit ''b'', sender = lit ''bot'',
            msg_text = lit ''ERROR: Failed to get response from AI. Details: 500'',
            timestamp = 20\<rparr>,
           \<lparr>msg_id = lit ''c'', sender = lit ''bot'', msg_text = lit ''Hi'', timestamp = 30\<rparr>],
        input = lit ''How are you?'', isTyping = False, userId = Some (lit ''u1''), db = True,
        error = None\<rparr>"
  let ?ctx = "[\<lparr>role = User, parts_text = lit ''Hello''\<rparr>,
                 \<lparr>role = Model, parts_text = lit ''Hi''\<rparr>,
                 \<lparr>role = User, parts_text = lit ''How are you?''\<rparr>]"
  have h1: "trim (input ?ui) \<noteq> []" by (simp add: trim_def lit_def isWhiteSpace_def)
  have h2: "\<not> isTyping ?ui" by simp
  have h3: "truthy (userId ?ui)" by (simp add: truthy_def lit_def)
  have h4: "truthy (currentSessionId ?ui)" by (simp add: truthy_def lit_def)
  have h5: "db ?ui" by simp
  have h6: "save_user ?env = None" by simp
  have h7: "?ctx = map (\<lambda>msg. \<lparr>role = (if sender msg = lit ''user'' then User else Model),
                            parts_text = msg_text msg\<rparr>)
                   (filter (\<lambda>msg. \<not> startsWith (msg_text msg) (lit ''ERROR'')) (messages ?ui))
               @ [\<lparr>role = User, parts_text = input ?ui\<rparr>]"
    by (simp add: startsWith_def lit_def)
  have "\<exists>N. \<forall>fuel>N. \<exists>ui' effects r.
            handleSend_index fuel ?env ?ui = Some (ui', effects, r)
            \<and> Request ?ctx \<in> set effects
            \<and> (\<forall>c. Request c \<in> set effects \<longrightarrow> c = ?ctx)"
    using C10_history_excludes_errors [of ?ui ?env ?ctx, OF h1 h2 h3 h4 h5 h6 h7]
    by (rule conjunct1)
  then obtain N where N: "\<forall>fuel>N. \<exists>ui' effects r.
            handleSend_index fuel ?env ?ui = Some (ui', effects, r)
            \<and> Request ?ctx \<in> set effects
            \<and> (\<forall>c. Request c \<in> set effects \<longrightarrow> c = ?ctx)"
    by (elim exE)
  show ?thesis
  proof (intro exI [of _ N] allI impI)
    fix fuel assume "N < fuel"
    with N obtain ui' effects r where
      "handleSend_index fuel ?env ?ui = Some (ui', effects, r)" "Request ?ctx \<in> set effects"
      by blast
    then show "\<exists>ui' effects r. handleSend_index fuel ?env ?ui = Some (ui', effects, r)
        \<and> Request ?ctx \<in> set effects"
      by (intro exI [of _ ui'] exI [of _ effects] exI [of _ r]) simp
  qed
qed

text \<open>
  C8, as the code has it. index.js: when the write of the user's message fails,
  \<open>handleSend\<close> ends with the error text shown, \<open>isTyping\<close> cleared, the messages as they
  were (no placeholder) and no effect (no request); a failing \<open>addDoc\<close> gives the text
  \<open>Could not save message to database: \<close> and its message. App.jsx: when the write fails,
  \<open>saveMessage\<close> reports \<open>Failed to save message to database.\<close> and \<open>handleSend\<close> goes on:
  with enough fuel it ends having sent the request and having added the placeholder.
\<close>

theorem C8_user_save_fails:
  "(trim (input ui) \<noteq> [] \<and> \<not> isTyping ui \<and> truthy (userId ui) \<and> truthy (currentSessionId ui)
      \<and> saveMessage_index ui (save_user env) (lit ''user'') (input ui) (currentSessionId ui)
          = Inl e
    \<longrightarrow> handleSend_index fuel env ui
          = Some (ui\<lparr>input := [], isTyping := False, error := Some (message e)\<rparr>, [], None))
   \<and> (save_user env = Some e0 \<and> db ui \<and> truthy (userId ui) \<and> truthy (currentSessionId ui)
    \<longrightarrow> saveMessage_index ui (save_user env) (lit ''user'') (input ui) (currentSessionId ui)
          = Inl (Error (lit ''Could not save message to database: '' @ message e0)))
   \<and> (trim (or_default transcript (input ui)) \<noteq> [] \<and> db ui \<and> truthy (userId ui)
      \<and> truthy (currentSessionId ui) \<and> save_user aenv = Some e0
    \<longrightarrow> (\<exists>N. \<forall>fuel>N. \<exists>ui' effects r.
           handleSend_App fuel aenv doc_err transcript ui = Some (ui', effects, r)
           \<and> Request (historyForAPI (map (\<lambda>msg. (sender msg, msg_text msg)) (messages ui))
                        @ [\<lparr>role = User,
                            parts_text = trim (or_default transcript (input ui))\<rparr>])
               \<in> set effects
           \<and> map msg_id (messages ui') = map msg_id (messages ui) @ [uuid aenv]
           \<and> error ui' = Some (lit ''Failed to save message to database.'')))"
proof (intro conjI impI)
  assume "trim (input ui) \<noteq> [] \<and> \<not> isTyping ui \<and> truthy (userId ui) \<and> truthy (currentSessionId ui)
      \<and> saveMessage_index ui (save_user env) (lit ''user'') (input ui) (currentSessionId ui)
          = Inl e"
  then show "handleSend_index fuel env ui
          = Some (ui\<lparr>input := [], isTyping := False, error := Some (message e)\<rparr>, [], None)"
    using handleSend_index_save_fails [of ui env e fuel] by simp
next
  assume "save_user env = Some e0 \<and> db ui \<and> truthy (userId ui) \<and> truthy (currentSessionId ui)"
  then show "saveMessage_index ui (save_user env) (lit ''user'') (input ui) (currentSessionId ui)
          = Inl (Error (lit ''Could not save message to database: '' @ message e0))"
    using saveMessage_index_addDoc_fails [of env e0 ui "currentSessionId ui"] by simp
next
  let ?t = "trim (or_default transcript (input ui))"
  let ?h = "map (\<lambda>msg. (sender msg, msg_text msg)) (messages ui)"
  let ?ctx = "historyForAPI ?h @ [\<lparr>role = User, parts_text = ?t\<rparr>]"
  assume a: "?t \<noteq> [] \<and> db ui \<and> truthy (userId ui)
      \<and> truthy (currentSessionId ui) \<and> save_user aenv = Some e0"
  obtain N where N: "\<forall>fuel>N. \<exists>vs ending st'.
      pull_all fuel next_App (pulls aenv) (askAIStream_App ?t ?h) = Some (vs, ending, st')"
    using pull_all_App_total [of "pulls aenv" ?t ?h] by (elim exE)
  have "\<exists>ui' effects r.
           handleSend_App fuel aenv doc_err transcript ui = Some (ui', effects, r)
           \<and> Request ?ctx \<in> set effects
           \<and> map msg_id (messages ui') = map msg_id (messages ui) @ [uuid aenv]
           \<and> error ui' = Some (lit ''Failed to save message to database.'')"
    if "N < fuel" for fuel
  proof -
    from N that obtain vs ending st where
      pull: "pull_all fuel next_App (pulls aenv) (askAIStream_App ?t ?h) = Some (vs, ending, st)"
      by blast
    have "set (requests st) = {contents (askAIStream_App ?t ?h)}"
      using next_App_log pull
      by (rule pull_all_requests) (simp_all add: askAIStream_App_def)
    then have reqs: "set (requests st) = {?ctx}" by (simp add: askAIStream_App_def)
    from a have t: "?t \<noteq> []" and ok: "db ui" "truthy (userId ui)" "truthy (currentSessionId ui)"
      and fail: "save_user aenv = Some e0" by simp_all
    from handleSend_App_continues [OF t ok fail pull, of doc_err]
    obtain ui' extra r where
      h: "handleSend_App fuel aenv doc_err transcript ui
             = Some (ui', map Request (requests st) @ extra, r)"
      and ids: "map msg_id (messages ui') = map msg_id (messages ui) @ [uuid aenv]"
      and err: "error ui' = Some (lit ''Failed to save message to database.'')"
      by (elim exE conjE)
    have "Request ?ctx \<in> set (map Request (requests st) @ extra)"
      using reqs by auto
    then show ?thesis using h ids err
      by (intro exI [of _ ui'] exI [of _ "map Request (requests st) @ extra"] exI [of _ r]) simp
  qed
  then show "\<exists>N. \<forall>fuel>N. \<exists>ui' effects r.
           handleSend_App fuel aenv doc_err transcript ui = Some (ui', effects, r)
           \<and> Request ?ctx \<in> set effects
           \<and> map msg_id (messages ui') = map msg_id (messages ui) @ [uuid aenv]
           \<and> error ui' = Some (lit ''Failed to save message to database.'')"
    by (intro exI [of _ N]) simp
qed

text \<open>
  index.js with a store that is offline.
\<close>

theorem C8_user_save_fails_witness:
  "handleSend_index 3
     \<lparr>save_user = Some (Error (lit ''offline'')), save_bot = None, save_marker = None,
      uuid = lit ''tmp-1'', date = 40,
      pulls = every_time
                (every_time (Response True 200 (lit ''OK'')
                   (Inr \<lparr>error_field = ErrorAbsent, reply_text = Some (lit ''Hi!'')\<rparr>)),
                 every_time 0),
      setDoc_title = every_time None, title_rnd = every_time 0\<rparr>
     \<lparr>sessions = [\<lparr>session_id = lit ''s1'', session_title = lit ''Auto-Start Chat''\<rparr>],
      currentSessionId = Some (lit ''s1''), messages = [], input = lit ''Hello'',
      isTyping = False, userId = Some (lit ''u1''), db = True, error = None\<rparr>
   = Some (\<lparr>sessions = [\<lparr>session_id = lit ''s1'', session_title = lit ''Auto-Start Chat''\<rparr>],
           currentSessionId = Some (lit ''s1''), messages = [], input = [],
           isTyping = False, userId = Some (lit ''u1''), db = True,
           error = Some (lit ''Could not save message to database: offline'')\<rparr>, [], None)"
proof -
  let ?env = "\<lparr>save_user = Some (Error (lit ''offline'')), save_bot = None, save_marker = None,
      uuid = lit ''tmp-1'', date = 40,
      pulls = every_time
                (every_time (Response True 200 (lit ''OK'')
                   (Inr \<lparr>error_field = ErrorAbsent, reply_text = Some (lit ''Hi!'')\<rparr>)),
                 every_time (0::real)),
      setDoc_title = every_time None, title_rnd = every_time 0\<rparr>"
  let ?ui = "\<lparr>sessions = [\<lparr>session_id = lit ''s1'', session_title = lit ''Auto-Start Chat''\<rparr>],
      currentSessionId = Some (lit ''s1''), messages = [], input = lit ''Hello'',
      isTyping = False, userId = Some (lit ''u1''), db = True, error = None\<rparr>"
  let ?e = "Error (lit ''Could not save message to database: '' @ message (Error (lit ''offline'')))"
  have h1: "trim (input ?ui) \<noteq> []" by (simp add: trim_def lit_def isWhiteSpace_def)
  have h3: "truthy (userId ?ui)" by (simp add: truthy_def lit_def)
  have h4: "truthy (currentSessionId ?ui)" by (simp add: truthy_def lit_def)
  note T = C8_user_save_fails [of ?ui ?env ?e 3 "Error (lit ''offline'')"]
  have s: "saveMessage_index ?ui (save_user ?env) (lit ''user'') (input ?ui) (currentSessionId ?ui)
          = Inl ?e"
    using T [THEN conjunct2, THEN conjunct1] h3 h4 by simp
  have "handleSend_index 3 ?env ?ui
          = Some (?ui\<lparr>input := [], isTyping := False, error := Some (message ?e)\<rparr>, [], None)"
    using T [THEN conjunct1] h1 h3 h4 s by simp
  moreover have "message ?e = lit ''Could not save message to database: offline''"
    by (simp add: lit_def)
  ultimately show ?thesis by simp
qed

text \<open>
  C8 as stated does not hold for App.jsx: the write of the user's message fails, and the
  request is sent, the placeholder shows the reply, the title is set and the reply is
  saved.
\<close>

theorem C8_App_counterexample:
  "handleSend_App 2
     \<lparr>save_user = Some (Error (lit ''offline'')), save_bot = None, save_marker = None,
      uuid = lit ''tmp-1'', date = 40,
      pulls = every_time (Response True 200 (lit ''OK'')
                (Inr \<lparr>error_field = ErrorAbsent, reply_text = Some (lit ''Hi!'')\<rparr>)),
      setDoc_title = every_time None, title_rnd = every_time 0\<rparr>
     (Error (lit ''invalid document reference'')) None
     \<lparr>sessions = [\<lparr>session_id = lit ''s1'', session_title = lit ''Chat 1''\<rparr>],
      currentSessionId = Some (lit ''s1''), messages = [], input = lit ''Hello'',
      isTyping = False, userId = Some (lit ''u1''), db = True, error = None\<rparr>
   = Some (\<lparr>sessions = [\<lparr>session_id = lit ''s1'', session_title = lit ''Chat 1''\<rparr>],
           currentSessionId = Some (lit ''s1''),
           messages = [\<lparr>msg_id = lit ''tmp-1'', sender = lit ''bot'', msg_text = lit ''Hi!'',
                        timestamp = 40\<rparr>],
           input = [], isTyping = False, userId = Some (lit ''u1''), db = True,
           error = Some (lit ''Failed to save message to database.'')\<rparr>,
          [Request [\<lparr>role = User, parts_text = lit ''Hello''\<rparr>],
           TitleSet (Some (lit ''s1'')) (lit ''Hello''),
           Persisted (lit ''bot'') (lit ''Hi!'') (Some (lit ''s1''))],
          None)"
proof -
  let ?data = "\<lparr>error_field = ErrorAbsent, reply_text = Some (lit ''Hi!'')\<rparr>"
  let ?out = "Response True 200 (lit ''OK'') (Inr ?data)"
  have full: "lit ''Hi!'' = or_default (reply_text ?data) (lit ''No response received from AI.'')"
    by (simp add: or_default_def lit_def)
  have len: "length (chunks_of (lit ''Hi!'')) < 2" by (simp add: chunks_of_Hi)
  have t: "trim (lit ''Hello'') = lit ''Hello''"
    by (simp add: trim_def lit_def isWhiteSpace_def)
  have tn: "lit ''Hello'' \<noteq> []" "lit ''Hi!'' \<noteq> []" "lit ''u1'' \<noteq> []" "lit ''s1'' \<noteq> []"
    by (simp_all add: lit_def)
  have l: "length (lit ''Hello'') = 5" by (simp add: lit_def)
  have pull: "pull_all 2 next_App (every_time ?out) (askAIStream_App (lit ''Hello'') [])
      = Some ([Some (lit ''Hi!'')], Inr (Some (lit ''Hi!'')),
              \<lparr>contents = [\<lparr>role = User, parts_text = lit ''Hello''\<rparr>],
               fullResponse = Some (lit ''Hi!''), chunks = [lit ''Hi!''], chunkIndex = 1,
               requests = [[\<lparr>role = User, parts_text = lit ''Hello''\<rparr>]]\<rparr>)"
    using pull_all_App_run [where outcome = ?out and status = 200 and statusText = "lit ''OK''"
        and data = ?data and full = "lit ''Hi!''" and envs = "every_time ?out" and fuel = 2
        and inputText = "lit ''Hello''" and history = "[]", OF refl full _ len]
    by (simp add: every_time_def chunks_of_Hi log_requests_def askAIStream_App_def
        historyForAPI_def)
  show ?thesis
    using pull
    by (simp add: handleSend_App_def Let_def or_default_def t tn l truthy_def saveMessage_App_def
        stream_body_def append_value_def set_text_of_def every_time_def
        cong del: sum.case_cong_weak option.case_cong_weak)
qed

text \<open>
  C6, as the code has it. index.js: when the query succeeds (after at most four retried
  failures) and the batch commits, no message of the session and no session with the id
  is left, the other sessions stay, and so do the other messages when the document ids
  are distinct; a batch that fails changes nothing and the error is reported; deleting a
  session that does not exist (and has no message) changes nothing and reports no
  error. REST handler: deleting a chat that exists answers 200 and removes the row of the
  chat and nothing else; deleting a chat that does not exist answers 404
  \<open>Chat not found\<close> and changes nothing; an error of the database answers 500; in every
  case the table \<open>messages\<close> is left as it was.
\<close>

theorem C6_delete_cascade:
  assumes "db ui" and "truthy (userId ui)"
    and "\<forall>j<k. \<exists>e. getDocs j = Some e \<and> retryable_signature e" and "k < 5"
    and "getDocs k = None"
  shows "(\<forall>d \<in> set (messages_coll (snd (deleteSession_index getDocs rnd None sid (ui, fs)))).
            m_sessionId d \<noteq> sid)
       \<and> sessions_coll (snd (deleteSession_index getDocs rnd None sid (ui, fs)))
           = filter (\<lambda>d. s_id d \<noteq> sid) (sessions_coll fs)
       \<and> (distinct (map m_id (messages_coll fs)) \<longrightarrow>
            messages_coll (snd (deleteSession_index getDocs rnd None sid (ui, fs)))
              = filter (\<lambda>d. m_sessionId d \<noteq> sid) (messages_coll fs))
       \<and> deleteSession_index getDocs rnd (Some e) sid (ui, fs)
           = (ui\<lparr>error := Some (lit ''Could not delete session: '' @ message e)\<rparr>, fs)
       \<and> (sid \<notin> s_id ` set (sessions_coll fs) \<and> messages_where fs sid = [] \<longrightarrow>
            snd (deleteSession_index getDocs rnd None sid (ui, fs)) = fs
            \<and> error (fst (deleteSession_index getDocs rnd None sid (ui, fs))) = error ui)
       \<and> delete_chat None sq chatId
           = (if chatId \<in> chat_id ` set (chats sq)
              then ((200, MessageBody (lit ''Chat deleted successfully'')),
                    sq\<lparr>chats := filter (\<lambda>r. chat_id r \<noteq> chatId) (chats sq)\<rparr>)
              else ((404, MessageBody (lit ''Chat not found'')), sq))
       \<and> message_rows (snd (delete_chat db_err sq chatId)) = message_rows sq
       \<and> delete_chat (Some err) sq chatId = ((500, ErrorBody (message err)), sq)"
proof -
  let ?fs' = "snd (deleteSession_index getDocs rnd None sid (ui, fs))"
  have s: "?fs' = fs\<lparr>messages_coll :=
                   filter (\<lambda>d. m_id d \<notin> m_id ` set (messages_where fs sid)) (messages_coll fs),
                 sessions_coll := filter (\<lambda>d. s_id d \<noteq> sid) (sessions_coll fs)\<rparr>"
    using assms by (rule deleteSession_index_success(1))
  have er: "error (fst (deleteSession_index getDocs rnd None sid (ui, fs))) = error ui"
    using assms by (rule deleteSession_index_success(2))
  have a: "\<forall>d \<in> set (messages_coll ?fs'). m_sessionId d \<noteq> sid"
    using filter_ids_of_session [of fs sid] by (simp add: s)
  have b: "sessions_coll ?fs' = filter (\<lambda>d. s_id d \<noteq> sid) (sessions_coll fs)"
    by (simp add: s)
  have c: "distinct (map m_id (messages_coll fs)) \<longrightarrow>
             messages_coll ?fs' = filter (\<lambda>d. m_sessionId d \<noteq> sid) (messages_coll fs)"
    using filter_ids_distinct [of "messages_coll fs" sid] by (simp add: s messages_where_def)
  have d: "deleteSession_index getDocs rnd (Some e) sid (ui, fs)
           = (ui\<lparr>error := Some (lit ''Could not delete session: '' @ message e)\<rparr>, fs)"
    using assms by (rule deleteSession_index_commit_fails)
  have f: "sid \<notin> s_id ` set (sessions_coll fs) \<and> messages_where fs sid = [] \<longrightarrow>
            ?fs' = fs \<and> error (fst (deleteSession_index getDocs rnd None sid (ui, fs))) = error ui"
    using delete_absent_unchanged [of sid fs] er by (simp add: s)
  have g: "delete_chat None sq chatId
           = (if chatId \<in> chat_id ` set (chats sq)
              then ((200, MessageBody (lit ''Chat deleted successfully'')),
                    sq\<lparr>chats := filter (\<lambda>r. chat_id r \<noteq> chatId) (chats sq)\<rparr>)
              else ((404, MessageBody (lit ''Chat not found'')), sq))"
  proof (cases "chatId \<in> chat_id ` set (chats sq)")
    case True
    show ?thesis by (simp only: True if_True delete_chat_exists [OF True])
  next
    case False
    show ?thesis by (simp only: False if_False delete_chat_absent [OF False])
  qed
  show ?thesis
    by (intro conjI a b c d f g delete_chat_rows delete_chat_error)
qed

text \<open>
  A store with one session and two messages, and a table with one chat and one message.
\<close>

theorem C6_delete_cascade_witness:
  "sessions_coll (snd (deleteSession_index (every_time None) (every_time 0) None (lit ''s1'')
      (\<lparr>sessions = [\<lparr>session_id = lit ''s1'', session_title = lit ''Auto-Start Chat''\<rparr>],
        currentSessionId = Some (lit ''s1''), messages = [], input = [],
        isTyping = False, userId = Some (lit ''u1''), db = True, error = None\<rparr>,
       \<lparr>sessions_coll = [\<lparr>s_id = lit ''s1'', s_title = lit ''Auto-Start Chat'',
                           s_createdAt = Some 1\<rparr>],
        messages_coll =
          [\<lparr>m_id = lit ''a'', m_sessionId = lit ''s1'', m_sender = lit ''user'',
            m_text = lit ''Hello'', m_timestamp = Some 10\<rparr>,
           \<lparr>m_id = lit ''b'', m_sessionId = lit ''s2'', m_sender = lit ''user'',
            m_text = lit ''other'', m_timestamp = Some 5\<rparr>]\<rparr>))) = []
   \<and> messages_coll (snd (deleteSession_index (every_time None) (every_time 0) None (lit ''s1'')
      (\<lparr>sessions = [\<lparr>session_id = lit ''s1'', session_title = lit ''Auto-Start Chat''\<rparr>],
        currentSessionId = Some (lit ''s1''), messages = [], input = [],
        isTyping = False, userId = Some (lit ''u1''), db = True, error = None\<rparr>,
       \<lparr>sessions_coll = [\<lparr>s_id = lit ''s1'', s_title = lit ''Auto-Start Chat'',
                           s_createdAt = Some 1\<rparr>],
        messages_coll =
          [\<lparr>m_id = lit ''a'', m_sessionId = lit ''s1'', m_sender = lit ''user'',
            m_text = lit ''Hello'', m_timestamp = Some 10\<rparr>,
           \<lparr>m_id = lit ''b'', m_sessionId = lit ''s2'', m_sender = lit ''user'',
            m_text = lit ''other'', m_timestamp = Some 5\<rparr>]\<rparr>)))
     = [\<lparr>m_id = lit ''b'', m_sessionId = lit ''s2'', m_sender = lit ''user'',
            m_text = lit ''other'', m_timestamp = Some 5\<rparr>]
   \<and> delete_chat None
        \<lparr>chats = [\<lparr>chat_id = 7, title = lit ''New Chat'', created_at = 0\<rparr>],
         message_rows = [\<lparr>message_id = 1, msg_chat_id = 7, row_sender = lit ''user'',
                          content = lit ''Hello'', row_timestamp = 3\<rparr>]\<rparr> 7
       = ((200, MessageBody (lit ''Chat deleted successfully'')),
          \<lparr>chats = [],
           message_rows = [\<lparr>message_id = 1, msg_chat_id = 7, row_sender = lit ''user'',
                            content = lit ''Hello'', row_timestamp = 3\<rparr>]\<rparr>)
   \<and> delete_chat None
        \<lparr>chats = [\<lparr>chat_id = 7, title = lit ''New Chat'', created_at = 0\<rparr>],
         message_rows = [\<lparr>message_id = 1, msg_chat_id = 7, row_sender = lit ''user'',
                          content = lit ''Hello'', row_timestamp = 3\<rparr>]\<rparr> 8
       = ((404, MessageBody (lit ''Chat not found'')),
          \<lparr>chats = [\<lparr>chat_id = 7, title = lit ''New Chat'', created_at = 0\<rparr>],
           message_rows = [\<lparr>message_id = 1, msg_chat_id = 7, row_sender = lit ''user'',
                            content = lit ''Hello'', row_timestamp = 3\<rparr>]\<rparr>)"
proof -
  let ?ui = "\<lparr>sessions = [\<lparr>session_id = lit ''s1'', session_title = lit ''Auto-Start Chat''\<rparr>],
        currentSessionId = Some (lit ''s1''), messages = [], input = [],
        isTyping = False, userId = Some (lit ''u1''), db = True, error = None\<rparr>"
  let ?fs = "\<lparr>sessions_coll = [\<lparr>s_id = lit ''s1'', s_title = lit ''Auto-Start Chat'',
                           s_createdAt = Some 1\<rparr>],
        messages_coll =
          [\<lparr>m_id = lit ''a'', m_sessionId = lit ''s1'', m_sender = lit ''user'',
            m_text = lit ''Hello'', m_timestamp = Some 10\<rparr>,
           \<lparr>m_id = lit ''b'', m_sessionId = lit ''s2'', m_sender = lit ''user'',
            m_text = lit ''other'', m_timestamp = Some 5\<rparr>]\<rparr>"
  let ?sq = "\<lparr>chats = [\<lparr>chat_id = 7, title = lit ''New Chat'', created_at = 0\<rparr>],
         message_rows = [\<lparr>message_id = 1, msg_chat_id = 7, row_sender = lit ''user'',
                          content = lit ''Hello'', row_timestamp = 3\<rparr>]\<rparr>"
  have h1: "db ?ui" by simp
  have h2: "truthy (userId ?ui)" by (simp add: truthy_def lit_def)
  have h3: "\<forall>j<(0::nat). \<exists>e. every_time None j = Some e \<and> retryable_signature e" by simp
  have h4: "(0::nat) < 5" by simp
  have h5: "every_time None (0::nat) = (None :: jserror option)" by (simp add: every_time_def)
  note T7 = C6_delete_cascade [of ?ui 0 "every_time None" "every_time 0" "lit ''s1''" ?fs _ ?sq 7,
        OF h1 h2 h3 h4 h5]
  note T8 = C6_delete_cascade [of ?ui 0 "every_time None" "every_time 0" "lit ''s1''" ?fs _ ?sq 8,
        OF h1 h2 h3 h4 h5]
  have ne: "lit ''s1'' \<noteq> lit ''s2''" by (simp add: lit_def)
  have dist: "distinct (map m_id (messages_coll ?fs))" by (simp add: lit_def)
  have a: "sessions_coll (snd (deleteSession_index (every_time None) (every_time 0) None (lit ''s1'')
             (?ui, ?fs))) = filter (\<lambda>d. s_id d \<noteq> lit ''s1'') (sessions_coll ?fs)"
    using T7 by (rule conjunct2 [THEN conjunct1])
  have b: "messages_coll (snd (deleteSession_index (every_time None) (every_time 0) None (lit ''s1'')
             (?ui, ?fs))) = filter (\<lambda>d. m_sessionId d \<noteq> lit ''s1'') (messages_coll ?fs)"
    using T7 [THEN conjunct2, THEN conjunct2, THEN conjunct1] dist by (rule mp)
  have c: "delete_chat None ?sq 7
           = (if (7::int) \<in> chat_id ` set (chats ?sq)
              then ((200, MessageBody (lit ''Chat deleted successfully'')),
                    ?sq\<lparr>chats := filter (\<lambda>r. chat_id r \<noteq> 7) (chats ?sq)\<rparr>)
              else ((404, MessageBody (lit ''Chat not found'')), ?sq))"
    using T7 [THEN conjunct2, THEN conjunct2, THEN conjunct2, THEN conjunct2, THEN conjunct2]
    by (rule conjunct1)
  have d: "delete_chat None ?sq 8
           = (if (8::int) \<in> chat_id ` set (chats ?sq)
              then ((200, MessageBody (lit ''Chat deleted successfully'')),
                    ?sq\<lparr>chats := filter (\<lambda>r. chat_id r \<noteq> 8) (chats ?sq)\<rparr>)
              else ((404, MessageBody (lit ''Chat not found'')), ?sq))"
    using T8 [THEN conjunct2, THEN conjunct2, THEN conjunct2, THEN conjunct2, THEN conjunct2]
    by (rule conjunct1)
  have a': "filter (\<lambda>d. s_id d \<noteq> lit ''s1'') (sessions_coll ?fs) = []" by simp
  have b': "filter (\<lambda>d. m_sessionId d \<noteq> lit ''s1'') (messages_coll ?fs)
       = [\<lparr>m_id = lit ''b'', m_sessionId = lit ''s2'', m_sender = lit ''user'',
            m_text = lit ''other'', m_timestamp = Some 5\<rparr>]"
    using ne by simp
  have c': "delete_chat None ?sq 7 = ((200, MessageBody (lit ''Chat deleted successfully'')),
          \<lparr>chats = [],
           message_rows = [\<lparr>message_id = 1, msg_chat_id = 7, row_sender = lit ''user'',
                            content = lit ''Hello'', row_timestamp = 3\<rparr>]\<rparr>)"
    using c by simp
  have d': "delete_chat None ?sq 8 = ((404, MessageBody (lit ''Chat not found'')), ?sq)"
    using d by simp
  show ?thesis
    using a b c' d' by (simp only: a' b' simp_thms)
qed

text \<open>
  C6 does not hold for the REST handler: after the chat is deleted its message is still
  in the table and is still served, and a second \<open>DELETE\<close> of the same chat is answered
  with status 404.
\<close>

theorem C6_rest_counterexample:
  "delete_chat None
        \<lparr>chats = [\<lparr>chat_id = 7, title = lit ''New Chat'', created_at = 0\<rparr>],
         message_rows = [\<lparr>message_id = 1, msg_chat_id = 7, row_sender = lit ''user'',
                          content = lit ''Hello'', row_timestamp = 3\<rparr>]\<rparr> 7
     = ((200, MessageBody (lit ''Chat deleted successfully'')),
        \<lparr>chats = [],
         message_rows = [\<lparr>message_id = 1, msg_chat_id = 7, row_sender = lit ''user'',
                          content = lit ''Hello'', row_timestamp = 3\<rparr>]\<rparr>)
   \<and> get_messages None
        \<lparr>chats = [],
         message_rows = [\<lparr>message_id = 1, msg_chat_id = 7, row_sender = lit ''user'',
                          content = lit ''Hello'', row_timestamp = 3\<rparr>]\<rparr> 7
     = (200, DataBody [(1, lit ''user'', lit ''Hello'')])
   \<and> delete_chat None
        \<lparr>chats = [],
         message_rows = [\<lparr>message_id = 1, msg_chat_id = 7, row_sender = lit ''user'',
                          content = lit ''Hello'', row_timestamp = 3\<rparr>]\<rparr> 7
     = ((404, MessageBody (lit ''Chat not found'')),
        \<lparr>chats = [],
         message_rows = [\<lparr>message_id = 1, msg_chat_id = 7, row_sender = lit ''user'',
                          content = lit ''Hello'', row_timestamp = 3\<rparr>]\<rparr>)"
  by (simp add: delete_chat_def get_messages_def select_messages_def)




text \<open>
  C5, as the code has it. index.js and App.jsx: a pull never throws. In App.jsx, when
  \<open>fetch\<close> rejects, when the response is not \<open>ok\<close>, or when the body cannot be read, the
  first pull sends one request and returns the text
  \<open>ERROR: Failed to connect to AI. Details: \<close> followed by the failure's message, with
  \<open>done\<close>. In index.js \<open>fetchContent\<close> throws in exactly these cases (every outcome but an
  \<open>ok\<close> response with a readable body), and when \<open>withExponentialBackoff\<close> gives up at
  attempt \<open>k\<close> (the fifth attempt, or a failure without a retryable signature) the pull
  returns the same marker with the message of that failure, after \<open>k + 1\<close> requests.
  part_000: the pull throws when \<open>fetch\<close> rejects or the body cannot be read; a response
  that is not \<open>ok\<close> is read like any other, so with a body without text the pull yields
  the fragment U+2026. All three: on a stream whose \<open>fullResponse\<close> is set, a pull returns
  the next fragment or the completion, whatever the network would answer, and sends no
  request; a successful request sets \<open>fullResponse\<close>; and a stream whose first request
  succeeds is pulled to its end, whatever the later pulls would meet, with the requests
  of the first pull only.
\<close>

theorem C5_fetch_failure:
  "(\<exists>r. fst (next_index env st) = Inr r)
   \<and> (\<exists>r. fst (next_App outcome st) = Inr r)
   \<and> (fullResponse st = None \<longrightarrow>
        next_App (FetchRejects e) st
          = (Inr (IterResult (Some (lit ''ERROR: Failed to connect to AI. Details: '' @ message e))
                    True),
             log_requests 1 st))
   \<and> (fullResponse st = None \<longrightarrow>
        next_App (Response False status statusText (Inr details)) st
          = (Inr (IterResult
                    (Some (lit ''ERROR: Failed to connect to AI. Details: ''
                           @ show_nat status @ lit '' '' @ statusText @ lit '': ''
                           @ or_default (case error_field details of
                                           ErrorAbsent \<Rightarrow> None | ErrorMessage m \<Rightarrow> m)
                                        (lit ''Unknown API Error'')))
                    True),
             log_requests 1 st))
   \<and> (fullResponse st = None \<longrightarrow>
        next_App (Response ok status statusText (Inl e)) st
          = (Inr (IterResult (Some (lit ''ERROR: Failed to connect to AI. Details: '' @ message e))
                    True),
             log_requests 1 st))
   \<and> fetchContent_index (FetchRejects e) st = Inl e
   \<and> fetchContent_index
        (Response False status statusText
           (Inr \<lparr>error_field = ErrorMessage (Some m), reply_text = t\<rparr>)) st
       = Inl (Error (show_nat status @ lit '' '' @ statusText @ lit '': '' @ m))
   \<and> fetchContent_index (Response False status statusText (Inl e)) st
       = Inl (Error (show_nat status @ lit '' '' @ statusText @ lit '': ''
                     @ lit ''Unknown error format''))
   \<and> fetchContent_index (Response True status statusText (Inl e)) st = Inl e
   \<and> ((\<exists>e'. fetchContent_index outcome st = Inl e')
        \<longleftrightarrow> (\<forall>s' t' d'. outcome \<noteq> Response True s' t' (Inr d')))
   \<and> (fullResponse st = None \<and> k < 5
        \<and> (\<forall>j<k. \<exists>e'. fetchContent_index (net j) st = Inl e' \<and> retryable_signature e')
        \<and> fetchContent_index (net k) st = Inl e \<and> (k = 4 \<or> \<not> retryable_signature e)
      \<longrightarrow> next_index (net, rnd) st
            = (Inr (IterResult
                      (Some (lit ''ERROR: Failed to connect to AI. Details: '' @ message e)) True),
               log_requests (k + 1) st))
   \<and> (fullResponse st = None \<longrightarrow>
        next_part000 (FetchRejects e) st = (Inl e, log_requests 1 st))
   \<and> (fullResponse st = None \<longrightarrow>
        next_part000 (Response ok status statusText (Inl e)) st = (Inl e, log_requests 1 st))
   \<and> (fullResponse st = None \<longrightarrow>
        fullResponse (snd (next_part000 (Response ok status statusText (Inr data)) st))
          = Some (or_default (reply_text data) [0x2026]))
   \<and> (fullResponse st = None \<and> chunkIndex st = 0 \<and> reply_text data = None \<longrightarrow>
        fst (next_part000 (Response False status statusText (Inr data)) st)
          = Inr (IterResult (Some [0x2026]) False))
   \<and> (fullResponse st \<noteq> None \<longrightarrow>
        next_index env st
          = (if chunkIndex st \<ge> length (chunks st) then (Inr (IterResult None True), st)
             else (Inr (IterResult (Some (chunks st ! chunkIndex st)) False),
                   st\<lparr>chunkIndex := chunkIndex st + 1\<rparr>)))
   \<and> (fullResponse st \<noteq> None \<longrightarrow>
        next_App outcome st
          = (if chunkIndex st \<ge> length (chunks st)
             then (Inr (IterResult (fullResponse st) True), st)
             else (Inr (IterResult (Some (chunks st ! chunkIndex st)) False),
                   st\<lparr>chunkIndex := chunkIndex st + 1\<rparr>)))
   \<and> (fullResponse st \<noteq> None \<longrightarrow>
        next_part000 outcome st
          = (if chunkIndex st \<ge> length (chunks st)
             then (Inr (IterResult (fullResponse st) True), st)
             else (Inr (IterResult (Some (chunks st ! chunkIndex st)) False),
                   st\<lparr>chunkIndex := chunkIndex st + 1\<rparr>)))
   \<and> (fullResponse st \<noteq> None \<longrightarrow>
        requests (snd (next_index env st)) = requests st
        \<and> requests (snd (next_App outcome st)) = requests st
        \<and> requests (snd (next_part000 outcome st)) = requests st)
   \<and> (fullResponse st = None \<longrightarrow>
        fullResponse (snd (next_App (Response True status statusText (Inr data)) st))
          = Some (or_default (reply_text data) (lit ''No response received from AI.'')))
   \<and> (fullResponse st = None \<and> k < 5
        \<and> (\<forall>j<k. \<exists>e'. fetchContent_index (net j) st = Inl e' \<and> retryable_signature e')
        \<and> net k = Response True status statusText (Inr data)
      \<longrightarrow> fullResponse (snd (next_index (net, rnd) st))
            = Some (or_default (reply_text data) (lit ''No response received from AI.'')))
   \<and> (envs 0 = Response True status statusText (Inr data)
        \<and> length (chunks_of (or_default (reply_text data) (lit ''No response received from AI.'')))
            < fuel
      \<longrightarrow> (\<exists>st'. pull_all fuel next_App envs (askAIStream_App inputText history)
                   = Some (map Some (chunks_of (or_default (reply_text data)
                                                   (lit ''No response received from AI.''))),
                           Inr (Some (or_default (reply_text data)
                                        (lit ''No response received from AI.''))),
                           st')
                 \<and> requests st' = [contents (askAIStream_App inputText history)]))
   \<and> (ienvs 0 = (net, rnd) \<and> k < 5
        \<and> (\<forall>j<k. \<exists>e'. fetchContent_index (net j) (askAIStream_index chatHistory) = Inl e'
                      \<and> retryable_signature e')
        \<and> net k = Response True status statusText (Inr data)
        \<and> length (chunks_of (or_default (reply_text data) (lit ''No response received from AI.'')))
            < fuel
      \<longrightarrow> (\<exists>st'. pull_all fuel next_index ienvs (askAIStream_index chatHistory)
                   = Some (map Some (chunks_of (or_default (reply_text data)
                                                   (lit ''No response received from AI.''))),
                           Inr None, st')
                 \<and> requests st' = replicate (k + 1) chatHistory))"
proof -
  have c3: "fullResponse st = None \<longrightarrow>
        next_App (FetchRejects e) st
          = (Inr (IterResult (Some (lit ''ERROR: Failed to connect to AI. Details: '' @ message e))
                    True),
             log_requests 1 st)"
    by (intro impI) (rule next_App_fails(1))
  have c4: "fullResponse st = None \<longrightarrow>
        next_App (Response False status statusText (Inr details)) st
          = (Inr (IterResult
                    (Some (lit ''ERROR: Failed to connect to AI. Details: ''
                           @ show_nat status @ lit '' '' @ statusText @ lit '': ''
                           @ or_default (case error_field details of
                                           ErrorAbsent \<Rightarrow> None | ErrorMessage m \<Rightarrow> m)
                                        (lit ''Unknown API Error'')))
                    True),
             log_requests 1 st)"
    by (intro impI) (rule next_App_fails(2))
  have c5: "fullResponse st = None \<longrightarrow>
        next_App (Response ok status statusText (Inl e)) st
          = (Inr (IterResult (Some (lit ''ERROR: Failed to connect to AI. Details: '' @ message e))
                    True),
             log_requests 1 st)"
    by (intro impI) (rule next_App_fails(3))
  have c11: "fullResponse st = None \<and> k < 5
        \<and> (\<forall>j<k. \<exists>e'. fetchContent_index (net j) st = Inl e' \<and> retryable_signature e')
        \<and> fetchContent_index (net k) st = Inl e \<and> (k = 4 \<or> \<not> retryable_signature e)
      \<longrightarrow> next_index (net, rnd) st
            = (Inr (IterResult
                      (Some (lit ''ERROR: Failed to connect to AI. Details: '' @ message e)) True),
               log_requests (k + 1) st)"
    by (intro impI, elim conjE) (rule next_index_fails; assumption)
  have c12: "fullResponse st = None \<longrightarrow>
        next_part000 (FetchRejects e) st = (Inl e, log_requests 1 st)"
    by (intro impI) (rule next_part000_fails(1))
  have c13: "fullResponse st = None \<longrightarrow>
        next_part000 (Response ok status statusText (Inl e)) st = (Inl e, log_requests 1 st)"
    by (intro impI) (rule next_part000_fails(2))
  have c14: "fullResponse st = None \<longrightarrow>
        fullResponse (snd (next_part000 (Response ok status statusText (Inr data)) st))
          = Some (or_default (reply_text data) [0x2026])"
    by (intro impI) (rule next_part000_http_error(1))
  have c15: "fullResponse st = None \<and> chunkIndex st = 0 \<and> reply_text data = None \<longrightarrow>
        fst (next_part000 (Response False status statusText (Inr data)) st)
          = Inr (IterResult (Some [0x2026]) False)"
    by (intro impI, elim conjE) (rule next_part000_http_error(2); assumption)
  have c16: "fullResponse st \<noteq> None \<longrightarrow>
        next_index env st
          = (if chunkIndex st \<ge> length (chunks st) then (Inr (IterResult None True), st)
             else (Inr (IterResult (Some (chunks st ! chunkIndex st)) False),
                   st\<lparr>chunkIndex := chunkIndex st + 1\<rparr>))"
    by (intro impI) (rule later_pull_index(1))
  have c17: "fullResponse st \<noteq> None \<longrightarrow>
        next_App outcome st
          = (if chunkIndex st \<ge> length (chunks st)
             then (Inr (IterResult (fullResponse st) True), st)
             else (Inr (IterResult (Some (chunks st ! chunkIndex st)) False),
                   st\<lparr>chunkIndex := chunkIndex st + 1\<rparr>))"
    by (intro impI) (rule later_pull_App(1))
  have c18: "fullResponse st \<noteq> None \<longrightarrow>
        next_part000 outcome st
          = (if chunkIndex st \<ge> length (chunks st)
             then (Inr (IterResult (fullResponse st) True), st)
             else (Inr (IterResult (Some (chunks st ! chunkIndex st)) False),
                   st\<lparr>chunkIndex := chunkIndex st + 1\<rparr>))"
    by (intro impI) (rule later_pull_part000(1))
  have c19: "fullResponse st \<noteq> None \<longrightarrow>
        requests (snd (next_index env st)) = requests st
        \<and> requests (snd (next_App outcome st)) = requests st
        \<and> requests (snd (next_part000 outcome st)) = requests st"
    by (intro impI conjI)
      (rule later_pull_index(2), assumption, rule later_pull_App(2), assumption,
       rule later_pull_part000(2), assumption)
  have c20: "fullResponse st = None \<longrightarrow>
        fullResponse (snd (next_App (Response True status statusText (Inr data)) st))
          = Some (or_default (reply_text data) (lit ''No response received from AI.''))"
    by (intro impI) (rule first_pull_App_success(1))
  have c21: "fullResponse st = None \<and> k < 5
        \<and> (\<forall>j<k. \<exists>e'. fetchContent_index (net j) st = Inl e' \<and> retryable_signature e')
        \<and> net k = Response True status statusText (Inr data)
      \<longrightarrow> fullResponse (snd (next_index (net, rnd) st))
            = Some (or_default (reply_text data) (lit ''No response received from AI.''))"
    by (intro impI, elim conjE) (rule first_pull_index_success(1); assumption)
  have c22: "envs 0 = Response True status statusText (Inr data)
        \<and> length (chunks_of (or_default (reply_text data) (lit ''No response received from AI.'')))
            < fuel
      \<longrightarrow> (\<exists>st'. pull_all fuel next_App envs (askAIStream_App inputText history)
                   = Some (map Some (chunks_of (or_default (reply_text data)
                                                   (lit ''No response received from AI.''))),
                           Inr (Some (or_default (reply_text data)
                                        (lit ''No response received from AI.''))),
                           st')
                 \<and> requests st' = [contents (askAIStream_App inputText history)])"
    by (intro impI, elim conjE) (rule whole_stream_App; assumption)
  have c23: "ienvs 0 = (net, rnd) \<and> k < 5
        \<and> (\<forall>j<k. \<exists>e'. fetchContent_index (net j) (askAIStream_index chatHistory) = Inl e'
                      \<and> retryable_signature e')
        \<and> net k = Response True status statusText (Inr data)
        \<and> length (chunks_of (or_default (reply_text data) (lit ''No response received from AI.'')))
            < fuel
      \<longrightarrow> (\<exists>st'. pull_all fuel next_index ienvs (askAIStream_index chatHistory)
                   = Some (map Some (chunks_of (or_default (reply_text data)
                                                   (lit ''No response received from AI.''))),
                           Inr None, st')
                 \<and> requests st' = replicate (k + 1) chatHistory)"
    by (intro impI, elim conjE) (rule whole_stream_index; assumption)
  show ?thesis
    by (intro conjI next_index_never_throws next_App_never_throws c3 c4 c5
        fetchContent_index_fails fetchContent_index_Inl_iff c11 c12 c13 c14 c15 c16 c17 c18 c19
        c20 c21 c22 c23)
qed

text \<open>
  A connection that is down, a 503 response, and a stream that has fetched its reply and
  is pulled while the connection is down.
\<close>

theorem C5_fetch_failure_witness:
  "next_index (every_time (FetchRejects (Error (lit ''Failed to fetch''))), every_time 0)
       (askAIStream_index [\<lparr>role = User, parts_text = lit ''Hello''\<rparr>])
     = (Inr (IterResult (Some (lit ''ERROR: Failed to connect to AI. Details: Failed to fetch''))
               True),
        log_requests 5 (askAIStream_index [\<lparr>role = User, parts_text = lit ''Hello''\<rparr>]))
   \<and> next_index (every_time (Response False 503 (lit ''Service Unavailable'') (Inr \<lparr>error_field = ErrorMessage (Some (lit ''The model is overloaded.'')), reply_text = None\<rparr>)), every_time 0)
       (askAIStream_index [\<lparr>role = User, parts_text = lit ''Hello''\<rparr>])
     = (Inr (IterResult
               (Some (lit ''ERROR: Failed to connect to AI. Details: 503 Service Unavailable: The model is overloaded.''))
               True),
        log_requests 1 (askAIStream_index [\<lparr>role = User, parts_text = lit ''Hello''\<rparr>]))
   \<and> next_App (Response False 503 (lit ''Service Unavailable'') (Inr \<lparr>error_field = ErrorMessage (Some (lit ''The model is overloaded.'')), reply_text = None\<rparr>)) (askAIStream_App (lit ''Hello'') [])
     = (Inr (IterResult
               (Some (lit ''ERROR: Failed to connect to AI. Details: 503 Service Unavailable: The model is overloaded.''))
               True),
        log_requests 1 (askAIStream_App (lit ''Hello'') []))
   \<and> next_part000 (FetchRejects (Error (lit ''Failed to fetch'')))
       (askAIStream_part000 (lit ''Hello'') [])
     = (Inl (Error (lit ''Failed to fetch'')),
        log_requests 1 (askAIStream_part000 (lit ''Hello'') []))
   \<and> fst (next_part000 (Response False 503 (lit ''Service Unavailable'') (Inr \<lparr>error_field = ErrorMessage (Some (lit ''The model is overloaded.'')), reply_text = None\<rparr>)) (askAIStream_part000 (lit ''Hello'') []))
     = Inr (IterResult (Some [0x2026]) False)
   \<and> next_App (FetchRejects (Error (lit ''Failed to fetch'')))
        \<lparr>contents = [\<lparr>role = User, parts_text = lit ''Hello''\<rparr>], fullResponse = Some (lit ''Hi there!''), chunks = [lit ''Hi'', lit '' '', lit ''there!''], chunkIndex = 1, requests = [[\<lparr>role = User, parts_text = lit ''Hello''\<rparr>]]\<rparr>
     = (Inr (IterResult (Some (lit '' '')) False),
        \<lparr>contents = [\<lparr>role = User, parts_text = lit ''Hello''\<rparr>], fullResponse = Some (lit ''Hi there!''), chunks = [lit ''Hi'', lit '' '', lit ''there!''], chunkIndex = 2, requests = [[\<lparr>role = User, parts_text = lit ''Hello''\<rparr>]]\<rparr>)
   \<and> (\<exists>st'. pull_all 4 next_App
               (\<lambda>j. if j = 0 then Response True 200 (lit ''OK'') (Inr \<lparr>error_field = ErrorAbsent, reply_text = Some (lit ''Hi there!'')\<rparr>)
                    else FetchRejects (Error (lit ''Failed to fetch'')))
               (askAIStream_App (lit ''Hello'') [])
             = Some (map Some [lit ''Hi'', lit '' '', lit ''there!''], Inr (Some (lit ''Hi there!'')),
                     st')
           \<and> requests st' = [[\<lparr>role = User, parts_text = lit ''Hello''\<rparr>]])"
proof -
  let ?E = "Error (lit ''Failed to fetch'')"
  let ?D = "\<lparr>error_field = ErrorMessage (Some (lit ''The model is overloaded.'')), reply_text = None\<rparr>"
  let ?out503 = "Response False 503 (lit ''Service Unavailable'') (Inr \<lparr>error_field = ErrorMessage (Some (lit ''The model is overloaded.'')), reply_text = None\<rparr>)"
  let ?E503 = "Error (show_nat 503 @ lit '' '' @ lit ''Service Unavailable'' @ lit '': ''
                      @ lit ''The model is overloaded.'')"
  let ?ok = "Response True 200 (lit ''OK'') (Inr \<lparr>error_field = ErrorAbsent, reply_text = Some (lit ''Hi there!'')\<rparr>)"
  let ?user = "[\<lparr>role = User, parts_text = lit ''Hello''\<rparr>]"
  let ?sti = "askAIStream_index ?user"
  let ?sta = "askAIStream_App (lit ''Hello'') []"
  let ?stp = "askAIStream_part000 (lit ''Hello'') []"
  let ?st1 = "\<lparr>contents = [\<lparr>role = User, parts_text = lit ''Hello''\<rparr>], fullResponse = Some (lit ''Hi there!''), chunks = [lit ''Hi'', lit '' '', lit ''there!''], chunkIndex = 1, requests = [[\<lparr>role = User, parts_text = lit ''Hello''\<rparr>]]\<rparr>"
  let ?envs = "\<lambda>j::nat. if j = 0 then ?ok else FetchRejects ?E"
  have i0: "fullResponse ?sti = None" by (simp add: askAIStream_index_def)
  have a0: "fullResponse ?sta = None" by (simp add: askAIStream_App_def)
  have p0: "fullResponse ?stp = None" "chunkIndex ?stp = 0"
    by (simp_all add: askAIStream_part000_def)
  have s1: "fullResponse ?st1 \<noteq> None" by simp
  have rE: "retryable_signature ?E" by (simp add: retryable_signature_def lit_def)
  have n503: "\<not> retryable_signature ?E503"
    by (simp add: retryable_signature_def show_nat_503 lit_def)
  have t503: "lit ''ERROR: Failed to connect to AI. Details: '' @ message ?E503
      = lit ''ERROR: Failed to connect to AI. Details: 503 Service Unavailable: The model is overloaded.''"
    by (simp add: show_nat_503 lit_def)
  have tE: "lit ''ERROR: Failed to connect to AI. Details: '' @ message ?E
      = lit ''ERROR: Failed to connect to AI. Details: Failed to fetch''"
    by (simp add: lit_def)
  have fu: "or_default (Some (lit ''Hi there!'')) (lit ''No response received from AI.'')
      = lit ''Hi there!''"
    by (simp add: or_default_def lit_def)
  have ch: "chunks_of (or_default (Some (lit ''Hi there!'')) (lit ''No response received from AI.''))
      = [lit ''Hi'', lit '' '', lit ''there!'']"
    by (simp only: fu chunks_of_Hi_there)
  note TI = C5_fetch_failure [where st = ?sti and e = ?E and k = 4
      and net = "every_time (FetchRejects ?E)" and rnd = "every_time 0"]
  note TJ = C5_fetch_failure [where st = ?sti and e = ?E503 and k = 0
      and net = "every_time ?out503" and rnd = "every_time 0" and status = 503
      and statusText = "lit ''Service Unavailable''" and m = "lit ''The model is overloaded.''"
      and t = None]
  note TA = C5_fetch_failure [where st = ?sta and status = 503
      and statusText = "lit ''Service Unavailable''" and details = ?D and envs = ?envs
      and data = "\<lparr>error_field = ErrorAbsent, reply_text = Some (lit ''Hi there!'')\<rparr>"
      and fuel = 4 and inputText = "lit ''Hello''" and history = "[]"]
  note TB = C5_fetch_failure [where status = 200 and statusText = "lit ''OK''" and envs = ?envs
      and data = "\<lparr>error_field = ErrorAbsent, reply_text = Some (lit ''Hi there!'')\<rparr>"
      and fuel = 4 and inputText = "lit ''Hello''" and history = "[]"]
  note TP = C5_fetch_failure [where st = ?stp and e = ?E and status = 503
      and statusText = "lit ''Service Unavailable''" and data = ?D]
  note TL = C5_fetch_failure [where st = ?st1 and outcome = "FetchRejects ?E"]
  have fI: "\<forall>j<4. \<exists>e'. fetchContent_index (every_time (FetchRejects ?E) j) ?sti = Inl e'
               \<and> retryable_signature e'"
    using TI [THEN conjunct2, THEN conjunct2, THEN conjunct2, THEN conjunct2, THEN conjunct2, THEN conjunct1] rE by (simp add: every_time_def)
  have lI: "fetchContent_index (every_time (FetchRejects ?E) 4) ?sti = Inl ?E"
    using TI [THEN conjunct2, THEN conjunct2, THEN conjunct2, THEN conjunct2, THEN conjunct2, THEN conjunct1] by (simp add: every_time_def)
  have w1: "next_index (every_time (FetchRejects ?E), every_time 0) ?sti
     = (Inr (IterResult (Some (lit ''ERROR: Failed to connect to AI. Details: '' @ message ?E))
               True),
        log_requests (4 + 1) ?sti)"
    using TI [THEN conjunct2, THEN conjunct2, THEN conjunct2, THEN conjunct2, THEN conjunct2, THEN conjunct2, THEN conjunct2, THEN conjunct2, THEN conjunct2, THEN conjunct2, THEN conjunct1] i0 fI lI by simp
  have fJ: "fetchContent_index (every_time ?out503 0) ?sti = Inl ?E503"
    using TJ [THEN conjunct2, THEN conjunct2, THEN conjunct2, THEN conjunct2, THEN conjunct2, THEN conjunct2, THEN conjunct1] by (simp add: every_time_def)
  have w2: "next_index (every_time ?out503, every_time 0) ?sti
     = (Inr (IterResult (Some (lit ''ERROR: Failed to connect to AI. Details: '' @ message ?E503))
               True),
        log_requests (0 + 1) ?sti)"
    using TJ [THEN conjunct2, THEN conjunct2, THEN conjunct2, THEN conjunct2, THEN conjunct2, THEN conjunct2, THEN conjunct2, THEN conjunct2, THEN conjunct2, THEN conjunct2, THEN conjunct1] i0 fJ n503 by simp
  have w3: "next_App ?out503 ?sta
     = (Inr (IterResult (Some (lit ''ERROR: Failed to connect to AI. Details: '' @ message ?E503))
               True),
        log_requests 1 ?sta)"
    using TA [THEN conjunct2, THEN conjunct2, THEN conjunct2, THEN conjunct1] a0 by (simp add: or_default_def lit_def)
  have w4: "next_part000 (FetchRejects ?E) ?stp = (Inl ?E, log_requests 1 ?stp)"
    using TP [THEN conjunct2, THEN conjunct2, THEN conjunct2, THEN conjunct2, THEN conjunct2, THEN conjunct2, THEN conjunct2, THEN conjunct2, THEN conjunct2, THEN conjunct2, THEN conjunct2, THEN conjunct1] p0 by simp
  have w5: "fst (next_part000 ?out503 ?stp) = Inr (IterResult (Some [0x2026]) False)"
    using TP [THEN conjunct2, THEN conjunct2, THEN conjunct2, THEN conjunct2, THEN conjunct2, THEN conjunct2, THEN conjunct2, THEN conjunct2, THEN conjunct2, THEN conjunct2, THEN conjunct2, THEN conjunct2, THEN conjunct2, THEN conjunct2, THEN conjunct1] p0 by simp
  have w6: "next_App (FetchRejects ?E) ?st1
     = (Inr (IterResult (Some (lit '' '')) False), ?st1\<lparr>chunkIndex := chunkIndex ?st1 + 1\<rparr>)"
    using TL [THEN conjunct2, THEN conjunct2, THEN conjunct2, THEN conjunct2, THEN conjunct2, THEN conjunct2, THEN conjunct2, THEN conjunct2, THEN conjunct2, THEN conjunct2, THEN conjunct2, THEN conjunct2, THEN conjunct2, THEN conjunct2, THEN conjunct2, THEN conjunct2, THEN conjunct1] s1 by simp
  have w7: "\<exists>st'. pull_all 4 next_App ?envs ?sta
             = Some (map Some (chunks_of (or_default (Some (lit ''Hi there!''))
                                             (lit ''No response received from AI.''))),
                     Inr (Some (or_default (Some (lit ''Hi there!''))
                                  (lit ''No response received from AI.''))),
                     st')
           \<and> requests st' = [contents ?sta]"
    using TB [THEN conjunct2, THEN conjunct2, THEN conjunct2, THEN conjunct2, THEN conjunct2, THEN conjunct2, THEN conjunct2, THEN conjunct2, THEN conjunct2, THEN conjunct2, THEN conjunct2, THEN conjunct2, THEN conjunct2, THEN conjunct2, THEN conjunct2, THEN conjunct2, THEN conjunct2, THEN conjunct2, THEN conjunct2, THEN conjunct2, THEN conjunct2, THEN conjunct1] by (simp add: ch)
  have cs: "contents ?sta = ?user" by (simp add: askAIStream_App_def historyForAPI_def)
  show ?thesis
    using w1 w2 w3 w4 w5 w6 w7
    by (simp only: tE t503 fu chunks_of_Hi_there cs) simp
qed

text \<open>
  C5 as stated does not hold for the stream of part_000: when \<open>fetch\<close> rejects the pull
  throws, and a 503 response is not reported at all: the pull yields the fragment U+2026.
\<close>

theorem C5_part000_counterexample:
  "next_part000 (FetchRejects (Error (lit ''Failed to fetch'')))
       (askAIStream_part000 (lit ''Hello'') [])
     = (Inl (Error (lit ''Failed to fetch'')),
        log_requests 1 (askAIStream_part000 (lit ''Hello'') []))
   \<and> fst (next_part000 (Response False 503 (lit ''Service Unavailable'') (Inr \<lparr>error_field = ErrorMessage (Some (lit ''The model is overloaded.'')), reply_text = None\<rparr>)) (askAIStream_part000 (lit ''Hello'') []))
     = Inr (IterResult (Some [0x2026]) False)"
proof -
  have p0: "fullResponse (askAIStream_part000 (lit ''Hello'') []) = None"
    "chunkIndex (askAIStream_part000 (lit ''Hello'') []) = 0"
    by (simp_all add: askAIStream_part000_def)
  show ?thesis
    using next_part000_fails(1) [OF p0(1)] next_part000_http_error(2) [OF p0(1) p0(2)]
    by simp
qed

text \<open>
  C1, as the code has it. When the request succeeds (in index.js after at most four
  retried failures), the fragments the stream yields, in pull order, are \<open>chunks_of full\<close>,
  where \<open>full\<close> is the reply text the stream holds (\<open>fullResponse\<close>): their concatenation
  is \<open>full\<close>, code unit for code unit, also when it is built as the consumers build it,
  with \<open>text += value\<close>. Every fragment is non-empty and is either whitespace only or free
  of whitespace, and neighbouring fragments are of different kinds, so nothing is dropped
  and each run of whitespace is one fragment of its own. \<open>full\<close> is the text of the
  service's reply when that text is not empty; when the reply has no text or an empty
  one, \<open>full\<close> is the fixed text \<open>No response received from AI.\<close> of line 102 (index.js)
  and line 90 (App.jsx). App.jsx and index.js.
\<close>

theorem C1_fragments_concat:
  assumes "outcome = Response True status statusText (Inr data)"
    and "full = or_default (reply_text data) (lit ''No response received from AI.'')"
    and "envs 0 = outcome" and "ienvs 0 = (net, rnd)"
    and "k < 5" and "net k = outcome"
    and "\<forall>j<k. \<exists>e. fetchContent_index (net j) (askAIStream_index chatHistory) = Inl e
                 \<and> retryable_signature e"
    and "length (chunks_of full) < fuel"
  shows "\<exists>frags st' ist'.
           pull_all fuel next_App envs (askAIStream_App inputText history)
             = Some (map Some frags, Inr (Some full), st')
         \<and> pull_all fuel next_index ienvs (askAIStream_index chatHistory)
             = Some (map Some frags, Inr None, ist')
         \<and> frags = chunks_of full
         \<and> concat frags = full
         \<and> foldl append_value [] (map Some frags) = full
         \<and> (\<forall>c \<in> set frags. c \<noteq> [] \<and>
               ((\<forall>x \<in> set c. isWhiteSpace x) \<or> (\<forall>x \<in> set c. \<not> isWhiteSpace x)))
         \<and> (\<forall>i. Suc i < length frags \<longrightarrow>
               isWhiteSpace (hd (frags ! i)) \<noteq> isWhiteSpace (hd (frags ! Suc i)))
         \<and> (\<forall>t. reply_text data = Some t \<and> t \<noteq> [] \<longrightarrow> full = t)
         \<and> (reply_text data = None \<or> reply_text data = Some []
              \<longrightarrow> full = lit ''No response received from AI.'')"
proof -
  have a: "pull_all fuel next_App envs (askAIStream_App inputText history)
             = Some (map Some (chunks_of full), Inr (Some full),
                 (log_requests 1 (askAIStream_App inputText history
                    \<lparr>fullResponse := Some full, chunks := chunks_of full\<rparr>))
                   \<lparr>chunkIndex := length (chunks_of full)\<rparr>)"
    using assms(1,2,3,8) by (rule pull_all_App_run)
  have n: "net k = Response True status statusText (Inr data)"
    using assms(1,6) by simp
  have b: "pull_all fuel next_index ienvs (askAIStream_index chatHistory)
             = Some (map Some (chunks_of full), Inr None,
                 (log_requests (k + 1) (askAIStream_index chatHistory
                    \<lparr>fullResponse := Some full, chunks := chunks_of full\<rparr>))
                   \<lparr>chunkIndex := length (chunks_of full)\<rparr>)"
    using assms(7,5) n assms(2,4,8) by (rule pull_all_index_run)
  have c: "foldl append_value [] (map Some (chunks_of full)) = full"
    by (simp add: foldl_append_value concat_chunks_of)
  have d: "\<forall>c \<in> set (chunks_of full). c \<noteq> [] \<and>
               ((\<forall>x \<in> set c. isWhiteSpace x) \<or> (\<forall>x \<in> set c. \<not> isWhiteSpace x))"
    using chunks_of_pieces by blast
  have e: "\<forall>t. reply_text data = Some t \<and> t \<noteq> [] \<longrightarrow> full = t"
    using assms(2) by (auto simp: or_default_def)
  have f: "\<forall>i. Suc i < length (chunks_of full) \<longrightarrow>
             isWhiteSpace (hd (chunks_of full ! i)) \<noteq> isWhiteSpace (hd (chunks_of full ! Suc i))"
    using chunks_of_alternate by blast
  have g: "reply_text data = None \<or> reply_text data = Some []
             \<longrightarrow> full = lit ''No response received from AI.''"
    using assms(2) by (auto simp: or_default_def)
  show ?thesis
    by (intro exI [of _ "chunks_of full"] exI conjI refl concat_chunks_of c d f e g)
      (rule a, rule b)
qed

text \<open>
  For the reply \<open>Hi there!\<close> both streams yield \<open>Hi\<close>, one space and \<open>there!\<close>.
\<close>

theorem C1_fragments_concat_witness:
  "\<exists>frags st' ist'.
     pull_all 4 next_App
        (every_time (Response True 200 (lit ''OK'')
           (Inr \<lparr>error_field = ErrorAbsent, reply_text = Some (lit ''Hi there!'')\<rparr>)))
        (askAIStream_App (lit ''Hello'') [])
       = Some (map Some frags, Inr (Some (lit ''Hi there!'')), st')
   \<and> pull_all 4 next_index
        (every_time (every_time (Response True 200 (lit ''OK'')
           (Inr \<lparr>error_field = ErrorAbsent, reply_text = Some (lit ''Hi there!'')\<rparr>)), every_time 0))
        (askAIStream_index [\<lparr>role = User, parts_text = lit ''Hello''\<rparr>])
       = Some (map Some frags, Inr None, ist')
   \<and> frags = [lit ''Hi'', lit '' '', lit ''there!'']
   \<and> concat frags = lit ''Hi there!''"
proof -
  let ?data = "\<lparr>error_field = ErrorAbsent, reply_text = Some (lit ''Hi there!'')\<rparr>"
  let ?out = "Response True 200 (lit ''OK'') (Inr ?data)"
  have full: "lit ''Hi there!'' = or_default (reply_text ?data) (lit ''No response received from AI.'')"
    by (simp add: or_default_def lit_def)
  have ch: "chunks_of (lit ''Hi there!'') = [lit ''Hi'', lit '' '', lit ''there!'']"
    by (simp add: chunks_of_def lit_def split_ws.simps isWhiteSpace_def)
  have len: "length (chunks_of (lit ''Hi there!'')) < 4"
    by (simp add: ch)
  have none: "\<forall>j<(0::nat). \<exists>e. fetchContent_index (every_time ?out j)
        (askAIStream_index [\<lparr>role = User, parts_text = lit ''Hello''\<rparr>]) = Inl e \<and> retryable_signature e"
    by simp
  show ?thesis
    using C1_fragments_concat [where outcome = ?out and status = 200 and statusText = "lit ''OK''"
        and data = ?data and full = "lit ''Hi there!''" and envs = "every_time ?out"
        and ienvs = "every_time (every_time ?out, every_time 0)"
        and net = "every_time ?out" and rnd = "every_time 0" and k = 0 and fuel = 4
        and chatHistory = "[\<lparr>role = User, parts_text = lit ''Hello''\<rparr>]"
        and inputText = "lit ''Hello''" and history = "[]",
        OF refl full _ _ _ _ none len]
    by (simp add: every_time_def ch)
qed

text \<open>
  C1 as stated does not hold for every reply text: when the service returns the empty
  text, both streams yield the nine fragments of \<open>No response received from AI.\<close>, whose
  concatenation is that text and not the reply.
\<close>

theorem C1_empty_reply_counterexample:
  "map_option fst (pull_all 10 next_App
        (every_time (Response True 200 (lit ''OK'')
           (Inr \<lparr>error_field = ErrorAbsent, reply_text = Some []\<rparr>)))
        (askAIStream_App (lit ''Hello'') []))
     = Some (map Some [lit ''No'', lit '' '', lit ''response'', lit '' '', lit ''received'',
                       lit '' '', lit ''from'', lit '' '', lit ''AI.''])
   \<and> map_option fst (pull_all 10 next_index
        (every_time (every_time (Response True 200 (lit ''OK'')
           (Inr \<lparr>error_field = ErrorAbsent, reply_text = Some []\<rparr>)), every_time 0))
        (askAIStream_index [\<lparr>role = User, parts_text = lit ''Hello''\<rparr>]))
     = Some (map Some [lit ''No'', lit '' '', lit ''response'', lit '' '', lit ''received'',
                       lit '' '', lit ''from'', lit '' '', lit ''AI.''])
   \<and> concat [lit ''No'', lit '' '', lit ''response'', lit '' '', lit ''received'',
               lit '' '', lit ''from'', lit '' '', lit ''AI.'']
       = lit ''No response received from AI.''
   \<and> lit ''No response received from AI.'' \<noteq> ([] :: jsstring)"
proof -
  let ?data = "\<lparr>error_field = ErrorAbsent, reply_text = Some []\<rparr>"
  let ?out = "Response True 200 (lit ''OK'') (Inr ?data)"
  let ?full = "lit ''No response received from AI.''"
  let ?frags = "[lit ''No'', lit '' '', lit ''response'', lit '' '', lit ''received'',
                 lit '' '', lit ''from'', lit '' '', lit ''AI.'']"
  have full: "?full = or_default (reply_text ?data) (lit ''No response received from AI.'')"
    by (simp add: or_default_def)
  have ch: "chunks_of ?full = ?frags"
    by (simp add: chunks_of_def lit_def split_ws.simps isWhiteSpace_def)
  have len: "length (chunks_of ?full) < 10" by (simp add: ch)
  have a: "map_option fst (pull_all 10 next_App (every_time ?out) (askAIStream_App (lit ''Hello'') []))
             = Some (map Some ?frags)"
    using pull_all_App_run [where envs = "every_time ?out" and inputText = "lit ''Hello''"
        and history = "[]" and fuel = 10, OF refl full _ len]
    by (simp add: every_time_def ch)
  have none: "\<forall>j<(0::nat). \<exists>e. fetchContent_index (every_time ?out j)
        (askAIStream_index [\<lparr>role = User, parts_text = lit ''Hello''\<rparr>]) = Inl e \<and> retryable_signature e"
    by simp
  have b: "map_option fst (pull_all 10 next_index (every_time (every_time ?out, every_time 0))
              (askAIStream_index [\<lparr>role = User, parts_text = lit ''Hello''\<rparr>]))
             = Some (map Some ?frags)"
    using pull_all_index_run [where net = "every_time ?out" and k = 0 and status = 200
        and statusText = "lit ''OK''" and rnd = "every_time 0" and fuel = 10
        and envs = "every_time (every_time ?out, every_time 0)", OF none _ _ full _ len]
    by (simp add: every_time_def ch)
  have c: "concat ?frags = ?full" by (simp add: lit_def)
  have d: "?full \<noteq> ([] :: jsstring)" by (simp add: lit_def)
  show ?thesis by (intro conjI a b c d)
qed

end
